(* ===== verification/Prelude.thy ===== *)
theory Prelude
  imports Main
begin

text \<open>
  Shared vocabulary of the development.  A JavaScript object is modelled as an
  association list of property names and values in insertion order
  (\<open>obj_get\<close>, \<open>obj_set\<close>, \<open>obj_del\<close> are property read, assignment and
  \<^verbatim>\<open>delete\<close>); \<^verbatim>\<open>String.prototype.split\<close> and \<^verbatim>\<open>Array.prototype.join\<close> on a
  one-character separator are \<open>split_on\<close> and \<open>join_with\<close>.  The lemmas here are
  the facts about these operations that the component theories share; they
  are collected in \<open>obj_simps\<close> and \<open>split_join_simps\<close>.
\<close>

named_theorems obj_simps "equations of the JavaScript object operations"
named_theorems split_join_simps "equations of split and join on a separator"

type_synonym 'v obj = "(string \<times> 'v) list"

subsection \<open>JavaScript objects as association lists\<close>

definition obj_get :: "'v obj \<Rightarrow> string \<Rightarrow> 'v option" where
  "obj_get kvs k = map_of kvs k"

definition obj_keys :: "'v obj \<Rightarrow> string list" where
  "obj_keys kvs = map fst kvs"

text \<open>
  Assignment \<^verbatim>\<open>o[k] = v\<close>: an existing property keeps its position, a new one is
  appended at the end.
\<close>

fun obj_set :: "'v obj \<Rightarrow> string \<Rightarrow> 'v \<Rightarrow> 'v obj" where
  "obj_set [] k v = [(k, v)]"
| "obj_set ((k', v') # kvs) k v =
     (if k' = k then (k, v) # kvs else (k', v') # obj_set kvs k v)"

definition obj_del :: "'v obj \<Rightarrow> string \<Rightarrow> 'v obj" where
  "obj_del kvs k = filter (\<lambda>(k', _). k' \<noteq> k) kvs"

definition obj_wf :: "'v obj \<Rightarrow> bool" where
  "obj_wf kvs \<longleftrightarrow> distinct (obj_keys kvs)"

subsection \<open>Splitting and joining on a one-character separator\<close>

text \<open>\<^verbatim>\<open>s.split(c)\<close>: every occurrence of \<open>c\<close> separates; the result is never empty.\<close>

fun split_on :: "char \<Rightarrow> string \<Rightarrow> string list" where
  "split_on c [] = [[]]"
| "split_on c (x # xs) =
     (if x = c then [] # split_on c xs
      else (case split_on c xs of [] \<Rightarrow> [[x]] | w # ws \<Rightarrow> (x # w) # ws))"

text \<open>\<^verbatim>\<open>ws.join(c)\<close>.\<close>

fun join_with :: "char \<Rightarrow> string list \<Rightarrow> string" where
  "join_with c [] = []"
| "join_with c [w] = w"
| "join_with c (w # ws) = w @ c # join_with c ws"

subsection \<open>Lemmas on objects\<close>

lemma obj_get_set [obj_simps]: "obj_get (obj_set kvs k v) = (obj_get kvs)(k \<mapsto> v)"
  by (induction kvs) (auto simp: obj_get_def fun_eq_iff)

lemma obj_get_set_same [obj_simps]: "obj_get (obj_set kvs k v) k = Some v"
  by (simp add: obj_get_set)

lemma obj_get_set_other [obj_simps]: "k' \<noteq> k \<Longrightarrow> obj_get (obj_set kvs k v) k' = obj_get kvs k'"
  by (simp add: obj_get_set)

lemma obj_keys_set [obj_simps]:
  "obj_keys (obj_set kvs k v) = (if k \<in> set (obj_keys kvs) then obj_keys kvs else obj_keys kvs @ [k])"
  by (induction kvs) (force simp: obj_keys_def)+

lemma set_obj_keys_set [obj_simps]: "set (obj_keys (obj_set kvs k v)) = insert k (set (obj_keys kvs))"
  by (auto simp: obj_keys_set)

lemma obj_wf_set [obj_simps]: "obj_wf kvs \<Longrightarrow> obj_wf (obj_set kvs k v)"
  by (simp add: obj_wf_def obj_keys_set)

lemma obj_get_del [obj_simps]: "obj_get (obj_del kvs k) = (obj_get kvs)(k := None)"
  by (induction kvs) (auto simp: obj_get_def obj_del_def fun_eq_iff)

lemma obj_keys_del [obj_simps]: "obj_keys (obj_del kvs k) = filter (\<lambda>k'. k' \<noteq> k) (obj_keys kvs)"
  by (induction kvs) (auto simp: obj_keys_def obj_del_def)

lemma obj_wf_del [obj_simps]: "obj_wf kvs \<Longrightarrow> obj_wf (obj_del kvs k)"
  by (simp add: obj_wf_def obj_keys_del)

lemma obj_set_idem [obj_simps]: "obj_get kvs k = Some v \<Longrightarrow> obj_set kvs k v = kvs"
  by (induction kvs) (auto simp: obj_get_def split: if_splits)

lemma obj_get_None_iff [obj_simps]: "obj_get kvs k = None \<longleftrightarrow> k \<notin> set (obj_keys kvs)"
  by (simp add: obj_get_def obj_keys_def map_of_eq_None_iff)

lemma obj_get_keys: "obj_get p k = Some v \<Longrightarrow> k \<in> set (obj_keys p)"
  by (metis obj_get_None_iff option.distinct(1))

lemma obj_set_existing_length:
  "k \<in> set (obj_keys kvs) \<Longrightarrow> length (obj_set kvs k v) = length kvs"
  by (induction kvs) (force simp: obj_keys_def)+

lemma map_of_tail_distinct:
  "k \<notin> fst ` set kvs \<Longrightarrow> map_of kvs = (map_of ((k, v) # kvs))(k := None)"
  by (auto simp: fun_eq_iff map_of_eq_None_iff)

lemma obj_eqI:
  "obj_wf a \<Longrightarrow> obj_wf b \<Longrightarrow> obj_keys a = obj_keys b \<Longrightarrow> obj_get a = obj_get b \<Longrightarrow> a = b"
proof (induction a arbitrary: b)
  case Nil
  then show ?case by (simp add: obj_keys_def)
next
  case (Cons kv a)
  obtain k v where kv: "kv = (k, v)" by fastforce
  from Cons.prems(3) kv obtain w b' where b: "b = (k, w) # b'"
    by (cases b) (auto simp: obj_keys_def)
  from Cons.prems(4) kv b have "v = w"
    by (simp add: obj_get_def fun_eq_iff) (metis option.inject)
  from Cons.prems(1) kv have ka: "k \<notin> fst ` set a"
    by (simp add: obj_wf_def obj_keys_def)
  from Cons.prems(2) b have kb: "k \<notin> fst ` set b'"
    by (simp add: obj_wf_def obj_keys_def)
  have "map_of a = (map_of ((k, v) # a))(k := None)"
    using ka by (rule map_of_tail_distinct)
  also have "map_of ((k, v) # a) = map_of ((k, w) # b')"
    using Cons.prems(4) by (simp only: obj_get_def kv b)
  also have "(map_of ((k, w) # b'))(k := None) = map_of b'"
    using kb by (rule map_of_tail_distinct [symmetric])
  finally have "map_of a = map_of b'" .
  then have "a = b'"
    using Cons.prems kv b by (intro Cons.IH) (simp_all add: obj_wf_def obj_keys_def obj_get_def)
  with kv b \<open>v = w\<close> show ?case by simp
qed

subsection \<open>Lemmas on split and join\<close>

lemma split_on_nonempty [split_join_simps]: "split_on c xs \<noteq> []"
  by (induction xs) (auto split: list.splits)

lemma split_on_append_free [split_join_simps]:
  "c \<notin> set w \<Longrightarrow> split_on c (w @ c # rest) = w # split_on c rest"
  by (induction w) (auto split: list.splits)

lemma split_on_free [split_join_simps]: "c \<notin> set w \<Longrightarrow> split_on c w = [w]"
  by (induction w) auto

lemma split_join [split_join_simps]:
  "ws \<noteq> [] \<Longrightarrow> \<forall>w \<in> set ws. c \<notin> set w \<Longrightarrow> split_on c (join_with c ws) = ws"
proof (induction c ws rule: join_with.induct)
  case (3 c w v vs)
  then show ?case by (simp add: split_on_append_free)
qed (auto simp: split_on_free)

lemma join_with_set: "set (join_with c ws) \<subseteq> insert c (\<Union>w \<in> set ws. set w)"
  by (induction c ws rule: join_with.induct) auto

lemma join_with_Cons: "join_with c (w # ws) = w @ concat (map (\<lambda>v. c # v) ws)"
  by (induction c "w # ws" arbitrary: w ws rule: join_with.induct) auto

lemma length_join_with_le: "length (join_with c ws) \<le> length (concat (map (\<lambda>v. c # v) ws))"
  by (induction c ws rule: join_with.induct) auto

end
