(* ===== verification/Pagination.thy ===== *)
theory Pagination
  imports Prelude
begin

text \<open>
  The computed property \<^verbatim>\<open>pages\<close> (src/resource-library.js, lines 193-240):
  the page buttons for the current page \<^verbatim>\<open>params.pagenum\<close> and
  \<^verbatim>\<open>pagination_data.total_pages\<close>.  Page numbers are integers (the header
  parse and the URL may give any integer); the string \<^verbatim>\<open>'&hellip;'\<close> is
  \<open>Ellipsis\<close>.  \<open>lodash_range\<close> is lodash \<^verbatim>\<open>range(start, end)\<close>, which counts
  down when \<open>end < start\<close>.  The abstract specification \<open>window_spec\<close> states
  the layout the code promises: the 9-page window clamped into
  \<open>1 .. total\<close>, the two endpoints, and an ellipsis exactly between two shown
  pages that are not adjacent.
\<close>

datatype page_item = PageNum int | Ellipsis

definition lodash_range :: "int \<Rightarrow> int \<Rightarrow> int list" where
  "lodash_range a b = (if a < b then [a..b - 1] else if b < a then rev [b + 1..a] else [])"

text \<open>Lines 203-213: the window bounds, shifted away from either end.\<close>

definition window_bounds :: "int \<Rightarrow> int \<Rightarrow> int \<times> int" where
  "window_bounds current_page total_pages =
     (let pages_before = 4; pages_after = 4 in
      if pages_before \<ge> current_page then
        (current_page - 1, pages_after + (pages_before - (current_page - 1)))
      else if current_page + pages_after > total_pages then
        (pages_before + (pages_after - (total_pages - current_page)), total_pages - current_page)
      else (pages_before, pages_after))"

definition pages :: "int \<Rightarrow> int \<Rightarrow> page_item list" where
  "pages current_page total_pages =
     (if total_pages = 0 then []
      else if total_pages \<le> 10 then map PageNum (lodash_range 1 (total_pages + 1))
      else
        (let (pages_before, pages_after) = window_bounds current_page total_pages;
             start_page = current_page - pages_before;
             end_page = current_page + pages_after
         in if start_page = 1 then
              map PageNum (lodash_range start_page (end_page + 1)) @ [Ellipsis, PageNum total_pages]
            else if end_page = total_pages then
              [PageNum 1, Ellipsis] @ map PageNum (lodash_range start_page (end_page + 1))
            else
              [PageNum 1] @ (if start_page \<noteq> 2 then [Ellipsis] else [])
              @ map PageNum (lodash_range start_page (end_page + 1))
              @ (if end_page \<noteq> total_pages - 1 then [Ellipsis] else []) @ [PageNum total_pages]))"

subsection \<open>Abstract specification\<close>

text \<open>Shown pages in increasing order, an ellipsis between two that are not adjacent.\<close>

fun with_gaps :: "int list \<Rightarrow> page_item list" where
  "with_gaps [] = []"
| "with_gaps [a] = [PageNum a]"
| "with_gaps (a # b # rest) = PageNum a # (if a + 1 < b then [Ellipsis] else []) @ with_gaps (b # rest)"

definition window_start :: "int \<Rightarrow> int \<Rightarrow> int" where
  "window_start current_page total_pages = max 1 (min (current_page - 4) (total_pages - 8))"

definition window_spec :: "int \<Rightarrow> int \<Rightarrow> page_item list" where
  "window_spec current_page total_pages =
     (let s = window_start current_page total_pages in
      with_gaps ((if 1 < s then [1] else []) @ [s..s + 8] @ (if s + 8 < total_pages then [total_pages] else [])))"

fun page_numbers :: "page_item list \<Rightarrow> int list" where
  "page_numbers [] = []"
| "page_numbers (PageNum n # xs) = n # page_numbers xs"
| "page_numbers (Ellipsis # xs) = page_numbers xs"

subsection \<open>Properties\<close>


lemma window_bounds_start:
  assumes "10 < total_pages"
  shows "window_bounds current_page total_pages =
           (current_page - window_start current_page total_pages,
            window_start current_page total_pages + 8 - current_page)"
  using assms by (simp add: window_bounds_def window_start_def Let_def)

lemma lodash_range_up: "a < b \<Longrightarrow> lodash_range a b = [a..b - 1]"
  by (simp add: lodash_range_def)

lemma with_gaps_run:
  "a \<le> b \<Longrightarrow> with_gaps ([a..b] @ rest) = map PageNum [a..b - 1] @ with_gaps (b # rest)"
proof (induction "nat (b - a)" arbitrary: a)
  case 0
  then have "a = b" by simp
  then show ?case by simp
next
  case (Suc n)
  then have ab: "a < b" and n: "n = nat (b - (a + 1))" by simp_all
  have "[a..b] = a # [a + 1..b]" using ab by (simp add: upto_rec1)
  moreover have "[a..b - 1] = a # [a + 1..b - 1]" using ab by (simp add: upto_rec1)
  moreover have "with_gaps ([a..b] @ rest) = PageNum a # with_gaps ([a + 1..b] @ rest)"
    using ab by (simp add: upto_rec1)
  ultimately show ?case
    using Suc.hyps(1) [OF n] ab by simp
qed

lemma with_gaps_upto_tail:
  "a \<le> b \<Longrightarrow> with_gaps ([a..b] @ [t]) =
     map PageNum [a..b] @ (if b + 1 < t then [Ellipsis] else []) @ [PageNum t]"
  using with_gaps_run [of a b "[t]"] by (simp add: upto_rec2)

lemma with_gaps_upto:
  "a \<le> b \<Longrightarrow> with_gaps [a..b] = map PageNum [a..b]"
  using with_gaps_run [of a b "[]"] by (simp add: upto_rec2)

lemma with_gaps_Cons_upto:
  "a \<le> b \<Longrightarrow> with_gaps (x # [a..b] @ rest) =
     PageNum x # (if x + 1 < a then [Ellipsis] else []) @ with_gaps ([a..b] @ rest)"
  by (simp add: upto_rec1)

lemma pages_window_spec_eq:
  assumes big: "10 < total_pages"
  shows "pages current_page total_pages = window_spec current_page total_pages"
proof -
  define s where "s = window_start current_page total_pages"
  have s1: "1 \<le> s" and s8: "s + 8 \<le> total_pages"
    using big by (auto simp: s_def window_start_def)
  have p: "pages current_page total_pages =
     (if s = 1 then map PageNum [s..s + 8] @ [Ellipsis, PageNum total_pages]
      else if s + 8 = total_pages then [PageNum 1, Ellipsis] @ map PageNum [s..s + 8]
      else [PageNum 1] @ (if s \<noteq> 2 then [Ellipsis] else []) @ map PageNum [s..s + 8]
           @ (if s + 8 \<noteq> total_pages - 1 then [Ellipsis] else []) @ [PageNum total_pages])"
    using big s1 s8 by (simp add: pages_def window_bounds_start s_def [symmetric] lodash_range_up add.commute)
  have w: "window_spec current_page total_pages =
     with_gaps ((if 1 < s then [1] else []) @ [s..s + 8] @ (if s + 8 < total_pages then [total_pages] else []))"
    by (simp add: window_spec_def s_def Let_def)
  show ?thesis
    using s1 s8 big
    by (auto simp: p w with_gaps_upto_tail with_gaps_upto with_gaps_Cons_upto)
qed

lemma page_numbers_append [simp]: "page_numbers (xs @ ys) = page_numbers xs @ page_numbers ys"
  by (induction xs rule: page_numbers.induct) auto

lemma page_numbers_with_gaps [simp]: "page_numbers (with_gaps xs) = xs"
  by (induction xs rule: with_gaps.induct) auto

text \<open>
  C19: for more than ten pages, \<^verbatim>\<open>pages\<close> implements its layout
  specification: the window of nine pages starting at
  \<open>max 1 (min (current - 4) (total - 8))\<close>, page 1 and the last page added
  when the window does not reach them, and an ellipsis exactly between two
  shown pages that are not adjacent.
\<close>

theorem pages_refines_window_spec:
  "10 < total_pages \<Longrightarrow> pages current_page total_pages = window_spec current_page total_pages"
  by (rule pages_window_spec_eq)

lemma window_start_bounds:
  "10 < t \<Longrightarrow> 1 \<le> c \<Longrightarrow> c \<le> t \<Longrightarrow>
   1 \<le> window_start c t \<and> window_start c t + 8 \<le> t \<and> window_start c t \<le> c \<and> c \<le> window_start c t + 8"
  by (auto simp: window_start_def max_def min_def)

text \<open>
  C21: with more than ten pages and a current page in range, the page numbers
  shown are increasing, lie in \<open>1 .. total\<close>, start at 1, end at the last page,
  contain the current page, and number ten or eleven (the nine-page window and
  the endpoints it does not already contain).
\<close>

theorem pages_bounds:
  assumes "10 < t" and "1 \<le> c" and "c \<le> t"
  shows "c \<in> set (page_numbers (pages c t)) \<and> set (page_numbers (pages c t)) \<subseteq> {1..t} \<and>
         hd (page_numbers (pages c t)) = 1 \<and> last (page_numbers (pages c t)) = t \<and>
         sorted_wrt (<) (page_numbers (pages c t)) \<and>
         length (page_numbers (pages c t)) \<in> {10, 11}"
proof -
  define s where "s = window_start c t"
  from window_start_bounds [OF assms] have b: "1 \<le> s" "s + 8 \<le> t" "s \<le> c" "c \<le> s + 8"
    by (simp_all add: s_def)
  have n: "page_numbers (pages c t) =
    (if 1 < s then [1] else []) @ [s..s + 8] @ (if s + 8 < t then [t] else [])"
    using pages_window_spec_eq [OF assms(1)] by (simp add: window_spec_def s_def Let_def)
  have "sorted_wrt (<) ((if 1 < s then [1] else []) @ [s..s + 8] @ (if s + 8 < t then [t] else []))"
    using b by (auto simp: sorted_wrt_append)
  moreover have "length ((if 1 < s then [1] else []) @ [s..s + 8] @ (if s + 8 < t then [t] else [])) \<in> {10, 11}"
    using b \<open>10 < t\<close> by auto
  moreover have "hd ([s..s + 8] @ xs) = s" and "last (ys @ [s..s + 8]) = s + 8" for xs ys
    by (simp_all add: upto_rec1 upto_rec2)
  ultimately show ?thesis
    using b \<open>10 < t\<close> by (auto simp: n)
qed

lemma pages_small: "0 < t \<Longrightarrow> t \<le> 10 \<Longrightarrow> pages c t = map PageNum [1..t]"
  by (simp add: pages_def lodash_range_def)

text \<open>
  C20: near either end the unused allowance of the window shifts entirely to
  the other side, so nine consecutive pages are always shown: for current page 1
  to 5 of more than ten pages the buttons are pages 1 to 9, an ellipsis and the
  last page; for one of the last five pages they are page 1, an ellipsis and the
  last nine pages.  (The specification states this rule but its examples show
  1 to 5 and the last five pages.)
\<close>

theorem pages_boundary_windows:
  assumes big: "10 < t"
  shows "(1 \<le> c \<and> c \<le> 5 \<longrightarrow> pages c t = map PageNum [1..9] @ [Ellipsis, PageNum t]) \<and>
         (t - 4 \<le> c \<and> c \<le> t \<longrightarrow> pages c t = [PageNum 1, Ellipsis] @ map PageNum [t - 8..t])"
proof (intro conjI impI)
  assume "1 \<le> c \<and> c \<le> 5"
  then have "window_start c t = 1" using big by (simp add: window_start_def)
  then show "pages c t = map PageNum [1..9] @ [Ellipsis, PageNum t]"
    using big pages_window_spec_eq [OF big, of c] by (simp add: window_spec_def with_gaps_upto_tail)
next
  assume "t - 4 \<le> c \<and> c \<le> t"
  then have w: "window_start c t = t - 8" using big by (simp add: window_start_def)
  have "with_gaps (1 # [t - 8..t] @ []) = PageNum 1 # [Ellipsis] @ with_gaps ([t - 8..t] @ [])"
    using big with_gaps_Cons_upto [of "t - 8" t 1 "[]"] by simp
  then show "pages c t = [PageNum 1, Ellipsis] @ map PageNum [t - 8..t]"
    using big w pages_window_spec_eq [OF big, of c] by (simp add: window_spec_def with_gaps_upto)
qed


subsection \<open>Witnesses\<close>

lemma pages_refines_window_spec_witness:
  "10 < (20::int) \<and> pages 7 20 = window_spec 7 20"
  using pages_refines_window_spec [of 20 7] by simp

lemma pages_bounds_witness:
  "10 < (20::int) \<and> 1 \<le> (7::int) \<and> (7::int) \<le> 20 \<and>
   7 \<in> set (page_numbers (pages 7 20)) \<and> hd (page_numbers (pages 7 20)) = 1 \<and>
   last (page_numbers (pages 7 20)) = 20"
  using pages_bounds [of 20 7] by simp

lemma pages_boundary_windows_witness:
  "10 < (20::int) \<and> pages 1 20 = map PageNum [1..9] @ [Ellipsis, PageNum 20] \<and>
   pages 20 20 = [PageNum 1, Ellipsis] @ map PageNum [12..20]"
  using pages_boundary_windows [of 20 1] pages_boundary_windows [of 20 20] by simp

end
