(* ===== verification/JsValue.thy ===== *)
theory JsValue
  imports Prelude
begin

text \<open>
  The JavaScript values the component stores and exchanges.  Every value that
  reaches \<^verbatim>\<open>params\<close>, the URL or the REST response is JSON data: \<open>json\<close>.  A
  property read can also yield a value that is not JSON (a function inherited
  from \<^verbatim>\<open>Object.prototype\<close>): \<open>jsval\<close> adds it as \<open>JHost\<close>, and a read of a
  missing property is \<open>None\<close> (\<^verbatim>\<open>undefined\<close>).  Numbers are integers: the
  program only stores page numbers, counts, term IDs and the cache version.
  The operations are the language's truthiness (\<open>js_truthy\<close>), \<^verbatim>\<open>String(v)\<close>
  (\<open>js_to_string\<close>), property access (\<open>prop_get\<close>) and lodash \<^verbatim>\<open>get\<close>
  (\<open>lodash_get\<close>).  \<open>js_error\<close> lists the exceptions the program can raise.
\<close>

datatype json =
    JNull
  | JBool bool
  | JNum int
  | JStr string
  | JArr "json list"
  | JObj "(string \<times> json) list"

datatype jsval = JV json | JHost

datatype js_error =
    TypeError
  | ReferenceError
  | SyntaxError
  | URIError
  | Thrown string
  | WrappedError js_error
  | FetchFailed
  | OutOfModel

named_theorems js_simps "evaluation equations of the JavaScript value layer"

subsection \<open>Truthiness\<close>

text \<open>\<^verbatim>\<open>!!v\<close>: \<^verbatim>\<open>null\<close>, \<^verbatim>\<open>false\<close>, \<^verbatim>\<open>0\<close> and \<^verbatim>\<open>""\<close> are falsy; arrays and objects, empty or not, are truthy.\<close>

fun js_truthy :: "json \<Rightarrow> bool" where
  "js_truthy JNull = False"
| "js_truthy (JBool b) = b"
| "js_truthy (JNum n) = (n \<noteq> 0)"
| "js_truthy (JStr s) = (s \<noteq> [])"
| "js_truthy (JArr xs) = True"
| "js_truthy (JObj kvs) = True"

fun val_truthy :: "jsval option \<Rightarrow> bool" where
  "val_truthy None = False"
| "val_truthy (Some JHost) = True"
| "val_truthy (Some (JV v)) = js_truthy v"

subsection \<open>Decimal numerals\<close>

definition digit_char :: "nat \<Rightarrow> char" where
  "digit_char d = ''0123456789'' ! d"

fun nat_to_dec :: "nat \<Rightarrow> string" where
  "nat_to_dec n = (if n < 10 then [digit_char n] else nat_to_dec (n div 10) @ [digit_char (n mod 10)])"

declare nat_to_dec.simps [simp del]

text \<open>\<^verbatim>\<open>Number.prototype.toString()\<close> on an integer of magnitude below \<open>2^53\<close>.\<close>

definition int_to_dec :: "int \<Rightarrow> string" where
  "int_to_dec i = (if i < 0 then CHR ''-'' # nat_to_dec (nat (- i)) else nat_to_dec (nat i))"

definition is_digit :: "char \<Rightarrow> bool" where
  "is_digit c \<longleftrightarrow> 48 \<le> (of_char c :: nat) \<and> (of_char c :: nat) \<le> 57"

definition digit_val :: "char \<Rightarrow> nat" where
  "digit_val c = of_char c - 48"

definition digits_val :: "string \<Rightarrow> nat" where
  "digits_val ds = foldl (\<lambda>acc d. 10 * acc + digit_val d) 0 ds"

definition digits_int :: "string \<Rightarrow> int" where
  "digits_int ds = foldl (\<lambda>acc d. 10 * acc + int (digit_val d)) 0 ds"

text \<open>A canonical array index: \<^verbatim>\<open>"0"\<close> or digits without a leading zero.\<close>

definition canonical_index :: "string \<Rightarrow> nat option" where
  "canonical_index k =
     (if k \<noteq> [] \<and> list_all is_digit k \<and> (k = ''0'' \<or> hd k \<noteq> CHR ''0'') then Some (digits_val k) else None)"

subsection \<open>ToString\<close>

text \<open>
  \<^verbatim>\<open>String(v)\<close>: an array is joined with commas, \<^verbatim>\<open>null\<close> elements becoming empty,
  and every plain object prints as \<^verbatim>\<open>[object Object]\<close>.
\<close>

fun js_to_string :: "json \<Rightarrow> string"
  and js_join_elems :: "json list \<Rightarrow> string list" where
  "js_to_string JNull = ''null''"
| "js_to_string (JBool b) = (if b then ''true'' else ''false'')"
| "js_to_string (JNum n) = int_to_dec n"
| "js_to_string (JStr s) = s"
| "js_to_string (JArr xs) = join_with CHR '','' (js_join_elems xs)"
| "js_to_string (JObj kvs) = ''[object Object]''"
| "js_join_elems [] = []"
| "js_join_elems (x # xs) = (if x = JNull then [] else js_to_string x) # js_join_elems xs"

subsection \<open>Property access\<close>

text \<open>
  The properties every value inherits from \<^verbatim>\<open>Object.prototype\<close>.  A read of one
  of these names finds a host value (a function, or the prototype for
  \<^verbatim>\<open>__proto__\<close>), which is truthy and equal to no string.
\<close>

definition object_proto_props :: "string list" where
  "object_proto_props =
     [''constructor'', ''hasOwnProperty'', ''isPrototypeOf'', ''propertyIsEnumerable'',
      ''toLocaleString'', ''toString'', ''valueOf'', ''__proto__'', ''__defineGetter__'',
      ''__defineSetter__'', ''__lookupGetter__'', ''__lookupSetter__'']"

definition inherited :: "string \<Rightarrow> jsval option" where
  "inherited k = (if k \<in> set object_proto_props then Some JHost else None)"

text \<open>\<^verbatim>\<open>v[k]\<close> for \<open>v\<close> not \<^verbatim>\<open>null\<close> (the callers guard \<^verbatim>\<open>null\<close>, which throws).\<close>

fun prop_get :: "json \<Rightarrow> string \<Rightarrow> jsval option" where
  "prop_get (JObj kvs) k = (case obj_get kvs k of Some v \<Rightarrow> Some (JV v) | None \<Rightarrow> inherited k)"
| "prop_get (JArr xs) k =
     (if k = ''length'' then Some (JV (JNum (int (length xs))))
      else case canonical_index k of
        Some i \<Rightarrow> if i < length xs then Some (JV (xs ! i)) else None
      | None \<Rightarrow> inherited k)"
| "prop_get (JStr s) k =
     (if k = ''length'' then Some (JV (JNum (int (length s))))
      else case canonical_index k of
        Some i \<Rightarrow> if i < length s then Some (JV (JStr [s ! i])) else None
      | None \<Rightarrow> inherited k)"
| "prop_get JNull k = None"
| "prop_get (JNum n) k = inherited k"
| "prop_get (JBool b) k = inherited k"

text \<open>
  lodash \<^verbatim>\<open>get(object, path)\<close>: follows the path while the current value is not
  \<^verbatim>\<open>null\<close>/\<^verbatim>\<open>undefined\<close>; a path that stops early gives \<^verbatim>\<open>undefined\<close>.
\<close>

fun lget :: "jsval \<Rightarrow> string list \<Rightarrow> jsval option" where
  "lget v [] = Some v"
| "lget (JV JNull) (k # ks) = None"
| "lget (JV j) (k # ks) = (case prop_get j k of None \<Rightarrow> None | Some v \<Rightarrow> lget v ks)"
| "lget JHost (k # ks) = None"

definition lodash_get :: "json \<Rightarrow> string list \<Rightarrow> jsval option" where
  "lodash_get j path = (if path = [] then None else lget (JV j) path)"

lemma lodash_get_Cons [js_simps]:
  "lodash_get j (k # ks) = (if j = JNull then None else case prop_get j k of None \<Rightarrow> None | Some v \<Rightarrow> lget v ks)"
  by (cases j) (simp_all add: lodash_get_def)

lemma inherited_None_iff [js_simps]: "inherited k = None \<longleftrightarrow> k \<notin> set object_proto_props"
  by (simp add: inherited_def)

lemma inherited_truthy [js_simps]: "inherited k = Some v \<Longrightarrow> v = JHost"
  by (simp add: inherited_def split: if_splits)

end
