(* ===== verification/QueryBuilder.thy ===== *)
theory QueryBuilder
  imports JsValue
begin

text \<open>
  The computed property \<^verbatim>\<open>query_params\<close> (src/resource-library.js, lines 90-117)
  and \<^verbatim>\<open>constructURL\<close> (lines 270-286).  \<^verbatim>\<open>extend({}, this.params)\<close> is a
  shallow copy: the copy's \<^verbatim>\<open>meta_query\<close> is the very object stored in
  \<^verbatim>\<open>this.params\<close>, so the assignment \<^verbatim>\<open>query_params.meta_query.relation = 'AND'\<close>
  also changes the component's parameters.  \<open>query_params\<close> therefore returns
  both the request parameters and the component's parameters after the call.
  A \<^verbatim>\<open>throw\<close> is the \<open>Inl\<close> branch.
\<close>

definition valid_orderbys :: "string list" where
  "valid_orderbys = [''author'', ''date'', ''id'', ''include'', ''modified'', ''parent'',
                     ''relevance'', ''slug'', ''title'']"

definition orderby_error :: string where
  "orderby_error = ''Orderby must be one of: '' @ ''author, date, id, include, modified, parent, relevance, slug, title''
                   @ '', or a postmeta field''"

text \<open>\<^verbatim>\<open>ToPropertyKey\<close> of a value used as a property name (\<^verbatim>\<open>meta_fields[orderby]\<close>).\<close>

fun prop_key :: "json option \<Rightarrow> string" where
  "prop_key None = ''undefined''"
| "prop_key (Some j) = js_to_string j"

text \<open>
  The value a property assignment \<^verbatim>\<open>o.k = v\<close> stores, for a \<open>v\<close> read from
  \<^verbatim>\<open>params\<close>; \<^verbatim>\<open>undefined\<close> is only ever converted by \<^verbatim>\<open>String\<close> later,
  so it is kept as the string it becomes.
\<close>

fun stored :: "json option \<Rightarrow> json" where
  "stored (Some j) = j"
| "stored None = JStr ''undefined''"

text \<open>\<^verbatim>\<open>Object.keys(v).length\<close>; \<^verbatim>\<open>null\<close> and \<^verbatim>\<open>undefined\<close> throw.\<close>

fun keys_count :: "json option \<Rightarrow> js_error + nat" where
  "keys_count None = Inl TypeError"
| "keys_count (Some JNull) = Inl TypeError"
| "keys_count (Some (JObj kvs)) = Inr (length kvs)"
| "keys_count (Some (JArr xs)) = Inr (length xs)"
| "keys_count (Some (JStr s)) = Inr (length s)"
| "keys_count (Some (JNum n)) = Inr 0"
| "keys_count (Some (JBool b)) = Inr 0"

text \<open>
  \<^verbatim>\<open>mq.relation = 'AND'\<close> in strict mode: an object gains the property, a
  non-empty string throws, a non-empty array gains a named property that neither
  \<^verbatim>\<open>JSON.stringify\<close> nor \<^verbatim>\<open>String\<close> shows.
\<close>

fun set_relation :: "json \<Rightarrow> js_error + json" where
  "set_relation (JObj kvs) = Inr (JObj (obj_set kvs ''relation'' (JStr ''AND'')))"
| "set_relation (JStr s) = Inl TypeError"
| "set_relation v = Inr v"

text \<open>Lines 96-99: \<^verbatim>\<open>pagenum\<close> is renamed \<^verbatim>\<open>page\<close> when it is truthy.\<close>

definition rename_pagenum :: "json obj \<Rightarrow> json obj" where
  "rename_pagenum qp =
     (case obj_get qp ''pagenum'' of
        Some p \<Rightarrow> if js_truthy p then obj_del (obj_set qp ''page'' p) ''pagenum'' else qp
      | None \<Rightarrow> qp)"

text \<open>Lines 101-109: the \<^verbatim>\<open>orderby\<close> resolution against the configured meta fields.\<close>

definition resolve_orderby :: "json obj \<Rightarrow> json option \<Rightarrow> json obj \<Rightarrow> js_error + json obj" where
  "resolve_orderby meta_fields orderby qp =
     (let mf = prop_get (JObj meta_fields) (prop_key orderby) in
      if mf = Some (JV (JStr ''number'')) then
        Inr (obj_set (obj_set qp ''orderby'' (JStr ''meta_value_num'')) ''meta_key'' (stored orderby))
      else if val_truthy mf then
        Inr (obj_set (obj_set qp ''orderby'' (JStr ''meta_value'')) ''meta_key'' (stored orderby))
      else if (\<exists>s \<in> set valid_orderbys. orderby = Some (JStr s)) then Inr qp
      else Inl (Thrown orderby_error))"

text \<open>
  Lines 111-114: a non-empty \<^verbatim>\<open>meta_query\<close> gains \<^verbatim>\<open>relation = 'AND'\<close>, in
  the request and, through the shared object, in \<^verbatim>\<open>this.params\<close>.
\<close>

definition add_relation :: "json obj \<Rightarrow> json obj \<Rightarrow> js_error + (json obj \<times> json obj)" where
  "add_relation qp params =
     (let mq = obj_get qp ''meta_query'' in
      case keys_count mq of
        Inl e \<Rightarrow> Inl e
      | Inr n \<Rightarrow>
          if 0 < n then
            (case set_relation (stored mq) of
               Inl e \<Rightarrow> Inl e
             | Inr mq' \<Rightarrow> Inr (obj_set qp ''meta_query'' mq', obj_set params ''meta_query'' mq'))
          else Inr (qp, params))"

text \<open>
  The whole computed property.  The result is the pair of the request
  parameters and \<^verbatim>\<open>this.params\<close> afterwards.
\<close>

definition query_params :: "json obj \<Rightarrow> json obj \<Rightarrow> js_error + (json obj \<times> json obj)" where
  "query_params meta_fields params =
     (case resolve_orderby meta_fields (obj_get params ''orderby'') (rename_pagenum params) of
        Inl e \<Rightarrow> Inl e
      | Inr qp \<Rightarrow> add_relation qp params)"

subsection \<open>The REST request\<close>

text \<open>
  \<^verbatim>\<open>constructURL\<close>: the path \<^verbatim>\<open>/wp-json/wp/v2/<post_type>\<close> (after the page's
  origin) and the query arguments in the order \<^verbatim>\<open>URLSearchParams.append\<close> adds
  them, each value converted by \<^verbatim>\<open>String\<close>.  An exception of \<^verbatim>\<open>query_params\<close> is
  re-thrown wrapped in an \<^verbatim>\<open>Error\<close>.
\<close>

record api_request =
  req_path :: string
  req_args :: "(string \<times> string) list"

definition api_base_url :: string where
  "api_base_url = ''/wp-json/wp/v2/''"

definition construct_url :: "string \<Rightarrow> json obj \<Rightarrow> json obj \<Rightarrow> js_error + (api_request \<times> json obj)" where
  "construct_url post_type meta_fields params =
     (case query_params meta_fields params of
        Inl e \<Rightarrow> Inl (WrappedError e)
      | Inr (qp, params') \<Rightarrow>
          Inr (\<lparr>req_path = api_base_url @ post_type,
                 req_args = [(''context'', ''embed''), (''_embed'', ''1'')]
                            @ map (\<lambda>(k, v). (k, js_to_string v)) qp\<rparr>, params'))"

subsection \<open>Properties\<close>

lemma rename_pagenum_get_other:
  "k \<noteq> ''page'' \<Longrightarrow> k \<noteq> ''pagenum'' \<Longrightarrow> obj_get (rename_pagenum qp) k = obj_get qp k"
  by (simp add: rename_pagenum_def obj_simps split: option.splits)

lemma rename_pagenum_wf: "obj_wf qp \<Longrightarrow> obj_wf (rename_pagenum qp)"
  by (simp add: rename_pagenum_def obj_simps split: option.splits)

lemma rename_pagenum_truthy:
  "obj_get qp ''pagenum'' = Some n \<Longrightarrow> js_truthy n \<Longrightarrow>
   obj_get (rename_pagenum qp) ''page'' = Some n \<and> obj_get (rename_pagenum qp) ''pagenum'' = None"
  by (simp add: rename_pagenum_def obj_simps)

lemma rename_pagenum_falsy:
  "obj_get qp ''pagenum'' = Some n \<Longrightarrow> \<not> js_truthy n \<Longrightarrow> rename_pagenum qp = qp"
  by (simp add: rename_pagenum_def)

lemma resolve_orderby_get_other:
  "resolve_orderby mf ob qp = Inr qp' \<Longrightarrow> k \<noteq> ''orderby'' \<Longrightarrow> k \<noteq> ''meta_key'' \<Longrightarrow>
   obj_get qp' k = obj_get qp k"
  by (auto simp: resolve_orderby_def Let_def obj_simps split: if_splits)

lemma resolve_orderby_wf: "resolve_orderby mf ob qp = Inr qp' \<Longrightarrow> obj_wf qp \<Longrightarrow> obj_wf qp'"
  by (auto simp: resolve_orderby_def Let_def obj_simps split: if_splits)

lemma resolve_orderby_Inl:
  "resolve_orderby mf ob qp = Inl e \<longleftrightarrow>
   e = Thrown orderby_error \<and> \<not> val_truthy (prop_get (JObj mf) (prop_key ob)) \<and>
   (\<forall>s \<in> set valid_orderbys. ob \<noteq> Some (JStr s))"
  by (auto simp: resolve_orderby_def Let_def)

lemma add_relation_Inr:
  "add_relation qp p = Inr (qp', p') \<Longrightarrow>
   obj_get qp' ''meta_query'' = obj_get p' ''meta_query'' \<or> (qp' = qp \<and> p' = p)"
  by (auto simp: add_relation_def Let_def obj_simps split: sum.splits if_splits)

lemma add_relation_Inl: "add_relation qp p = Inl e \<Longrightarrow> e = TypeError"
  by (cases "obj_get qp ''meta_query''" rule: keys_count.cases)
     (auto simp: add_relation_def Let_def split: if_splits)

lemma add_relation_get_other:
  "add_relation qp p = Inr (qp', p') \<Longrightarrow> k \<noteq> ''meta_query'' \<Longrightarrow>
   obj_get qp' k = obj_get qp k \<and> obj_get p' k = obj_get p k"
  by (auto simp: add_relation_def Let_def obj_simps split: sum.splits if_splits)

lemma add_relation_wf:
  "add_relation qp p = Inr (qp', p') \<Longrightarrow> obj_wf qp \<Longrightarrow> obj_wf p \<Longrightarrow> obj_wf qp' \<and> obj_wf p'"
  by (auto simp: add_relation_def Let_def obj_simps split: sum.splits if_splits)

lemma add_relation_JObj:
  "obj_get qp ''meta_query'' = Some (JObj mq) \<Longrightarrow>
   add_relation qp p =
     (if mq = [] then Inr (qp, p)
      else Inr (obj_set qp ''meta_query'' (JObj (obj_set mq ''relation'' (JStr ''AND''))),
                obj_set p ''meta_query'' (JObj (obj_set mq ''relation'' (JStr ''AND'')))))"
  by (simp add: add_relation_def)

lemma query_params_Inr_E:
  assumes "query_params mf p = Inr (qp, p')"
  obtains qp0 where "resolve_orderby mf (obj_get p ''orderby'') (rename_pagenum p) = Inr qp0"
    and "add_relation qp0 p = Inr (qp, p')"
  using assms by (auto simp: query_params_def split: sum.splits)

lemma query_params_meta_query_shared:
  "query_params mf p = Inr (qp, p') \<Longrightarrow> obj_get qp ''meta_query'' = obj_get p' ''meta_query''"
proof (elim query_params_Inr_E)
  fix qp0
  assume r: "resolve_orderby mf (obj_get p ''orderby'') (rename_pagenum p) = Inr qp0"
    and a: "add_relation qp0 p = Inr (qp, p')"
  from r have "obj_get qp0 ''meta_query'' = obj_get p ''meta_query''"
    by (simp add: resolve_orderby_get_other rename_pagenum_get_other)
  with a show ?thesis
    by (auto simp: add_relation_def Let_def obj_simps split: sum.splits if_splits)
qed

lemma query_params_get_other:
  "query_params mf p = Inr (qp, p') \<Longrightarrow> k \<noteq> ''meta_query'' \<Longrightarrow> obj_get p' k = obj_get p k"
  by (elim query_params_Inr_E) (simp add: add_relation_get_other)

lemma query_params_page_keys:
  "query_params mf p = Inr (qp, p') \<Longrightarrow> k \<in> {''page'', ''pagenum''} \<Longrightarrow>
   obj_get qp k = obj_get (rename_pagenum p) k"
proof (elim query_params_Inr_E)
  fix qp0
  assume r: "resolve_orderby mf (obj_get p ''orderby'') (rename_pagenum p) = Inr qp0"
    and a: "add_relation qp0 p = Inr (qp, p')" and k: "k \<in> {''page'', ''pagenum''}"
  then show "obj_get qp k = obj_get (rename_pagenum p) k"
    using add_relation_get_other [OF a, of k] resolve_orderby_get_other [OF r, of k] by auto
qed

lemma query_params_idem:
  assumes q: "query_params mf p = Inr (qp, p')"
  shows "\<exists>qp2. query_params mf p' = Inr (qp2, p')"
proof -
  from q obtain qp0 where r: "resolve_orderby mf (obj_get p ''orderby'') (rename_pagenum p) = Inr qp0"
    and a: "add_relation qp0 p = Inr (qp, p')" by (elim query_params_Inr_E)
  have ob: "obj_get p' ''orderby'' = obj_get p ''orderby''" using query_params_get_other [OF q] by simp
  obtain qp0' where r': "resolve_orderby mf (obj_get p' ''orderby'') (rename_pagenum p') = Inr qp0'"
  proof (cases "resolve_orderby mf (obj_get p' ''orderby'') (rename_pagenum p')")
    case (Inl err)
    then have "resolve_orderby mf (obj_get p ''orderby'') (rename_pagenum p) = Inl err"
      using ob by (simp add: resolve_orderby_Inl)
    then show ?thesis using r by simp
  qed
  have mq0: "obj_get qp0 ''meta_query'' = obj_get p ''meta_query''"
    using resolve_orderby_get_other [OF r, of "''meta_query''"] rename_pagenum_get_other [of "''meta_query''"] by simp
  have mq0': "obj_get qp0' ''meta_query'' = obj_get p' ''meta_query''"
    using resolve_orderby_get_other [OF r', of "''meta_query''"] rename_pagenum_get_other [of "''meta_query''"] by simp
  have "\<exists>qp2. add_relation qp0' p' = Inr (qp2, p')"
    using a mq0 mq0'
    by (cases "obj_get p ''meta_query''" rule: keys_count.cases)
       (auto simp: add_relation_def Let_def obj_simps split: if_splits sum.splits)
  then show ?thesis using r' by (simp add: query_params_def)
qed

lemma query_params_wf:
  assumes wf: "obj_wf p" and q: "query_params mf p = Inr (qp, p')"
  shows "obj_wf qp \<and> obj_wf p'"
  using q
proof (elim query_params_Inr_E)
  fix qp0
  assume r: "resolve_orderby mf (obj_get p ''orderby'') (rename_pagenum p) = Inr qp0"
    and a: "add_relation qp0 p = Inr (qp, p')"
  from r wf have "obj_wf qp0"
    by (blast intro: resolve_orderby_wf rename_pagenum_wf)
  then show ?thesis using add_relation_wf [OF a _ wf] by blast
qed


text \<open>
  C22: when \<^verbatim>\<open>orderby\<close> names a meta field configured with type
  \<^verbatim>\<open>"number"\<close>, the request orders by \<^verbatim>\<open>meta_value_num\<close> with that field as
  \<^verbatim>\<open>meta_key\<close>.
\<close>

theorem query_params_meta_number:
  assumes mf: "obj_get mf s = Some (JStr ''number'')"
    and ob: "obj_get p ''orderby'' = Some (JStr s)"
    and mq: "obj_get p ''meta_query'' = Some (JObj mq)"
  shows "\<exists>qp p'. query_params mf p = Inr (qp, p') \<and>
           obj_get qp ''orderby'' = Some (JStr ''meta_value_num'') \<and> obj_get qp ''meta_key'' = Some (JStr s)"
proof -
  let ?qp0 = "obj_set (obj_set (rename_pagenum p) ''orderby'' (JStr ''meta_value_num'')) ''meta_key'' (JStr s)"
  have r: "resolve_orderby mf (obj_get p ''orderby'') (rename_pagenum p) = Inr ?qp0"
    using mf ob by (simp add: resolve_orderby_def obj_get_def)
  have "obj_get ?qp0 ''meta_query'' = Some (JObj mq)"
    using mq by (simp add: obj_simps rename_pagenum_get_other)
  then have "\<exists>qp p'. add_relation ?qp0 p = Inr (qp, p')"
    by (simp add: add_relation_JObj)
  then obtain qp p' where a: "add_relation ?qp0 p = Inr (qp, p')"
    by blast
  have "obj_get qp ''orderby'' = Some (JStr ''meta_value_num'') \<and> obj_get qp ''meta_key'' = Some (JStr s)"
    using add_relation_get_other [OF a, of "''orderby''"] add_relation_get_other [OF a, of "''meta_key''"]
    by (simp add: obj_simps)
  with r a show ?thesis by (auto simp: query_params_def)
qed

text \<open>
  C23: \<^verbatim>\<open>query_params\<close> throws the orderby message exactly when \<^verbatim>\<open>orderby\<close>
  is neither a truthy entry of \<^verbatim>\<open>meta_fields\<close> (own or inherited) nor one
  of the nine valid WordPress orderby values.
\<close>

theorem query_params_Inl_orderby:
  "query_params mf p = Inl (Thrown orderby_error) \<longleftrightarrow>
   \<not> val_truthy (prop_get (JObj mf) (prop_key (obj_get p ''orderby''))) \<and>
   (\<forall>s \<in> set valid_orderbys. obj_get p ''orderby'' \<noteq> Some (JStr s))"
proof (cases "resolve_orderby mf (obj_get p ''orderby'') (rename_pagenum p)")
  case (Inl e)
  moreover from Inl have "e = Thrown orderby_error \<and>
    \<not> val_truthy (prop_get (JObj mf) (prop_key (obj_get p ''orderby''))) \<and>
    (\<forall>s \<in> set valid_orderbys. obj_get p ''orderby'' \<noteq> Some (JStr s))"
    using resolve_orderby_Inl by blast
  ultimately show ?thesis by (simp add: query_params_def)
next
  case (Inr qp0)
  then have "\<not> (resolve_orderby mf (obj_get p ''orderby'') (rename_pagenum p) = Inl (Thrown orderby_error))"
    by simp
  with Inr show ?thesis
    unfolding resolve_orderby_Inl by (auto simp: query_params_def dest: add_relation_Inl)
qed

text \<open>
  C24: a truthy \<^verbatim>\<open>pagenum\<close> is sent as \<^verbatim>\<open>page\<close> and removed; a falsy
  one (\<^verbatim>\<open>0\<close>, \<^verbatim>\<open>""\<close>) is sent unchanged as \<^verbatim>\<open>pagenum\<close>.
\<close>

theorem query_params_pagenum:
  assumes q: "query_params mf p = Inr (qp, p')" and n: "obj_get p ''pagenum'' = Some n"
  shows "obj_get qp ''pagenum'' = (if js_truthy n then None else Some n) \<and>
         (js_truthy n \<longrightarrow> obj_get qp ''page'' = Some n)"
  using q
proof (elim query_params_Inr_E)
  fix qp0
  assume r: "resolve_orderby mf (obj_get p ''orderby'') (rename_pagenum p) = Inr qp0"
    and a: "add_relation qp0 p = Inr (qp, p')"
  have "obj_get qp k = obj_get (rename_pagenum p) k" if "k \<in> {''page'', ''pagenum''}" for k
    using that add_relation_get_other [OF a, of k] resolve_orderby_get_other [OF r, of k] by auto
  then show ?thesis
    using n rename_pagenum_truthy [OF n] rename_pagenum_falsy [OF n] by auto
qed

text \<open>
  C25: computing the request from a non-empty \<^verbatim>\<open>meta_query\<close> object adds
  \<^verbatim>\<open>relation: 'AND'\<close> to the component's own \<^verbatim>\<open>params.meta_query\<close> (the copy
  is shallow); the request carries that same object and nothing else of
  \<^verbatim>\<open>params\<close> changes.
\<close>

theorem query_params_alias:
  assumes q: "query_params mf p = Inr (qp, p')"
    and mq: "obj_get p ''meta_query'' = Some (JObj mq)" and ne: "mq \<noteq> []"
  shows "obj_get p' ''meta_query'' = Some (JObj (obj_set mq ''relation'' (JStr ''AND''))) \<and>
         obj_get qp ''meta_query'' = obj_get p' ''meta_query'' \<and>
         (\<forall>k. k \<noteq> ''meta_query'' \<longrightarrow> obj_get p' k = obj_get p k)"
  using q
proof (elim query_params_Inr_E)
  fix qp0
  assume r: "resolve_orderby mf (obj_get p ''orderby'') (rename_pagenum p) = Inr qp0"
    and a: "add_relation qp0 p = Inr (qp, p')"
  from r mq have "obj_get qp0 ''meta_query'' = Some (JObj mq)"
    by (simp add: resolve_orderby_get_other rename_pagenum_get_other)
  with a ne have "p' = obj_set p ''meta_query'' (JObj (obj_set mq ''relation'' (JStr ''AND'')))"
    by (simp add: add_relation_JObj)
  then show ?thesis
    using query_params_meta_query_shared [OF q] by (simp add: obj_simps)
qed

lemma query_params_meta_obj:
  assumes q: "query_params mf p = Inr (qp, p')" and mq: "obj_get p ''meta_query'' = Some (JObj mq)"
  shows "\<exists>mq'. obj_get qp ''meta_query'' = Some (JObj mq')"
  using q
proof (elim query_params_Inr_E)
  fix qp0
  assume r: "resolve_orderby mf (obj_get p ''orderby'') (rename_pagenum p) = Inr qp0"
    and a: "add_relation qp0 p = Inr (qp, p')"
  from r mq have "obj_get qp0 ''meta_query'' = Some (JObj mq)"
    by (simp add: resolve_orderby_get_other rename_pagenum_get_other)
  with a show ?thesis
    by (auto simp: add_relation_JObj obj_simps split: if_splits)
qed

text \<open>
  C26: whenever \<^verbatim>\<open>params.meta_query\<close> is an object, the REST request carries
  the argument \<^verbatim>\<open>meta_query=[object Object]\<close>: \<^verbatim>\<open>URLSearchParams.append\<close>
  converts the object with \<^verbatim>\<open>String\<close>, so no meta filter reaches the backend.
\<close>

theorem construct_url_meta_query_object:
  assumes c: "construct_url pt mf p = Inr (r, p')" and mq: "obj_get p ''meta_query'' = Some (JObj mq)"
  shows "(''meta_query'', ''[object Object]'') \<in> set (req_args r)"
proof -
  from c obtain qp where q: "query_params mf p = Inr (qp, p')"
    and r: "req_args r = [(''context'', ''embed''), (''_embed'', ''1'')] @ map (\<lambda>(k, v). (k, js_to_string v)) qp"
    by (auto simp: construct_url_def split: sum.splits)
  from query_params_meta_obj [OF q mq] obtain mq' where "obj_get qp ''meta_query'' = Some (JObj mq')"
    by blast
  then have "(''meta_query'', JObj mq') \<in> set qp"
    by (simp add: obj_get_def map_of_SomeD)
  then show ?thesis
    using r by force
qed


subsection \<open>Witnesses\<close>

lemma query_params_meta_number_witness:
  "obj_get [(''price'', JStr ''number'')] ''price'' = Some (JStr ''number'') \<and>
   (\<exists>qp p'. query_params [(''price'', JStr ''number'')]
                [(''orderby'', JStr ''price''), (''meta_query'', JObj [])] = Inr (qp, p') \<and>
      obj_get qp ''orderby'' = Some (JStr ''meta_value_num'') \<and> obj_get qp ''meta_key'' = Some (JStr ''price''))"
  using query_params_meta_number [of "[(''price'', JStr ''number'')]" "''price''"
      "[(''orderby'', JStr ''price''), (''meta_query'', JObj [])]" "[]"]
  by (simp add: obj_get_def)

lemma query_params_Inl_orderby_witness:
  "query_params [] [(''orderby'', JStr ''bogus''), (''meta_query'', JObj [])] = Inl (Thrown orderby_error)"
  using query_params_Inl_orderby [of "[]" "[(''orderby'', JStr ''bogus''), (''meta_query'', JObj [])]"]
  by (simp add: obj_get_def inherited_def object_proto_props_def valid_orderbys_def)

lemma query_params_pagenum_witness:
  "query_params [] [(''orderby'', JStr ''date''), (''pagenum'', JNum 3), (''meta_query'', JObj [])]
     = Inr ([(''orderby'', JStr ''date''), (''meta_query'', JObj []), (''page'', JNum 3)],
            [(''orderby'', JStr ''date''), (''pagenum'', JNum 3), (''meta_query'', JObj [])]) \<and>
   obj_get [(''orderby'', JStr ''date''), (''meta_query'', JObj []), (''page'', JNum 3)] ''page'' = Some (JNum 3)"
proof -
  have q: "query_params [] [(''orderby'', JStr ''date''), (''pagenum'', JNum 3), (''meta_query'', JObj [])]
     = Inr ([(''orderby'', JStr ''date''), (''meta_query'', JObj []), (''page'', JNum 3)],
            [(''orderby'', JStr ''date''), (''pagenum'', JNum 3), (''meta_query'', JObj [])])"
    by (simp add: query_params_def resolve_orderby_def rename_pagenum_def add_relation_def obj_get_def
        obj_del_def inherited_def object_proto_props_def valid_orderbys_def)
  show ?thesis
    using q query_params_pagenum [OF q, of "JNum 3"] by (simp add: obj_get_def)
qed

lemma query_params_alias_witness:
  "query_params [] [(''orderby'', JStr ''date''), (''meta_query'', JObj [(''color'', JStr ''red'')])]
     = Inr ([(''orderby'', JStr ''date''), (''meta_query'', JObj [(''color'', JStr ''red''), (''relation'', JStr ''AND'')])],
            [(''orderby'', JStr ''date''), (''meta_query'', JObj [(''color'', JStr ''red''), (''relation'', JStr ''AND'')])]) \<and>
   obj_get [(''orderby'', JStr ''date''), (''meta_query'', JObj [(''color'', JStr ''red''), (''relation'', JStr ''AND'')])]
     ''meta_query'' = Some (JObj (obj_set [(''color'', JStr ''red'')] ''relation'' (JStr ''AND'')))"
proof -
  have q: "query_params [] [(''orderby'', JStr ''date''), (''meta_query'', JObj [(''color'', JStr ''red'')])]
     = Inr ([(''orderby'', JStr ''date''), (''meta_query'', JObj [(''color'', JStr ''red''), (''relation'', JStr ''AND'')])],
            [(''orderby'', JStr ''date''), (''meta_query'', JObj [(''color'', JStr ''red''), (''relation'', JStr ''AND'')])])"
    by (simp add: query_params_def resolve_orderby_def rename_pagenum_def add_relation_def obj_get_def
        inherited_def object_proto_props_def valid_orderbys_def)
  show ?thesis
    using q query_params_alias [OF q, of "[(''color'', JStr ''red'')]"] by (simp add: obj_get_def)
qed

lemma construct_url_meta_query_object_witness:
  "construct_url ''posts'' [] [(''orderby'', JStr ''date''), (''meta_query'', JObj [])]
     = Inr (\<lparr>req_path = ''/wp-json/wp/v2/posts'',
             req_args = [(''context'', ''embed''), (''_embed'', ''1''), (''orderby'', ''date''),
                         (''meta_query'', ''[object Object]'')]\<rparr>,
            [(''orderby'', JStr ''date''), (''meta_query'', JObj [])]) \<and>
   (''meta_query'', ''[object Object]'') \<in> set [(''context'', ''embed''), (''_embed'', ''1''), (''orderby'', ''date''),
                         (''meta_query'', ''[object Object]'')]"
proof -
  have c: "construct_url ''posts'' [] [(''orderby'', JStr ''date''), (''meta_query'', JObj [])]
     = Inr (\<lparr>req_path = ''/wp-json/wp/v2/posts'',
             req_args = [(''context'', ''embed''), (''_embed'', ''1''), (''orderby'', ''date''),
                         (''meta_query'', ''[object Object]'')]\<rparr>,
            [(''orderby'', JStr ''date''), (''meta_query'', JObj [])])"
    by (simp add: construct_url_def query_params_def resolve_orderby_def rename_pagenum_def add_relation_def
        obj_get_def inherited_def object_proto_props_def valid_orderbys_def api_base_url_def)
  show ?thesis
    using c construct_url_meta_query_object [OF c, of "[]"] by (simp add: obj_get_def)
qed

end
