(* ===== verification/JsonCodec.thy ===== *)
theory JsonCodec
  imports JsValue
begin

text \<open>
  \<^verbatim>\<open>JSON.stringify\<close> and \<^verbatim>\<open>JSON.parse\<close> on the values of \<open>json\<close>, as
  \<^verbatim>\<open>serializeParams\<close> and \<^verbatim>\<open>unserializeParams\<close>
  (src/resource-library.js, lines 579-610) call them.  Strings are sequences of
  UTF-16 code units; the model's \<open>char\<close> covers the units 0 to 255, so a
  \<^verbatim>\<open>\u\<close> escape above 255 is outside the model and parses to
  \<open>OutOfModel\<close>, as does a number with a fraction or an exponent (the program
  only stores integers).
\<close>

subsection \<open>Serialisation\<close>

definition hex_lower :: "nat \<Rightarrow> char" where
  "hex_lower d = ''0123456789abcdef'' ! d"

definition backslash :: char where
  "backslash = CHR 0x5C"

definition dquote :: char where
  "dquote = CHR 0x22"

text \<open>\<^verbatim>\<open>QuoteJSONString\<close>, one code unit at a time.\<close>

definition quote_char :: "char \<Rightarrow> string" where
  "quote_char c =
     (let n = (of_char c :: nat) in
      if n = 8 then [backslash, CHR ''b'']
      else if n = 9 then [backslash, CHR ''t'']
      else if n = 10 then [backslash, CHR ''n'']
      else if n = 12 then [backslash, CHR ''f'']
      else if n = 13 then [backslash, CHR ''r'']
      else if c = dquote then [backslash, dquote]
      else if c = backslash then [backslash, backslash]
      else if n < 32 then [backslash, CHR ''u'', CHR ''0'', CHR ''0'', hex_lower (n div 16), hex_lower (n mod 16)]
      else [c])"

definition json_quote :: "string \<Rightarrow> string" where
  "json_quote s = dquote # concat (map quote_char s) @ [dquote]"

fun json_stringify :: "json \<Rightarrow> string"
  and stringify_elems :: "json list \<Rightarrow> string list"
  and stringify_members :: "(string \<times> json) list \<Rightarrow> string list" where
  "json_stringify JNull = ''null''"
| "json_stringify (JBool b) = (if b then ''true'' else ''false'')"
| "json_stringify (JNum n) = int_to_dec n"
| "json_stringify (JStr s) = json_quote s"
| "json_stringify (JArr xs) = CHR ''['' # join_with CHR '','' (stringify_elems xs) @ [CHR '']'']"
| "json_stringify (JObj kvs) = CHR ''{'' # join_with CHR '','' (stringify_members kvs) @ [CHR ''}'']"
| "stringify_elems [] = []"
| "stringify_elems (x # xs) = json_stringify x # stringify_elems xs"
| "stringify_members [] = []"
| "stringify_members ((k, v) # kvs) = (json_quote k @ CHR '':'' # json_stringify v) # stringify_members kvs"

subsection \<open>Parsing\<close>

definition json_ws :: "char \<Rightarrow> bool" where
  "json_ws c \<longleftrightarrow> c \<in> set [CHR 0x20, CHR 0x09, CHR 0x0A, CHR 0x0D]"

definition skip_ws :: "string \<Rightarrow> string" where
  "skip_ws s = dropWhile json_ws s"

definition hex_val :: "char \<Rightarrow> nat option" where
  "hex_val c =
     (let n = (of_char c :: nat) in
      if 48 \<le> n \<and> n \<le> 57 then Some (n - 48)
      else if 65 \<le> n \<and> n \<le> 70 then Some (n - 55)
      else if 97 \<le> n \<and> n \<le> 102 then Some (n - 87)
      else None)"

text \<open>The character a one-letter escape \<^verbatim>\<open>\\x\<close> stands for.\<close>

definition simple_escape :: "char \<Rightarrow> char option" where
  "simple_escape e =
     (if e = dquote then Some dquote
      else if e = backslash then Some backslash
      else if e = CHR ''/'' then Some (CHR ''/'')
      else if e = CHR ''b'' then Some (CHR 0x08)
      else if e = CHR ''f'' then Some (CHR 0x0C)
      else if e = CHR ''n'' then Some (CHR 0x0A)
      else if e = CHR ''r'' then Some (CHR 0x0D)
      else if e = CHR ''t'' then Some (CHR 0x09)
      else None)"

definition cons_result :: "char \<Rightarrow> js_error + (string \<times> string) \<Rightarrow> js_error + (string \<times> string)" where
  "cons_result c r = (case r of Inl e \<Rightarrow> Inl e | Inr (str, rest) \<Rightarrow> Inr (c # str, rest))"

text \<open>The body of a string literal after its opening quote: the string and the rest of the input.\<close>

fun jp_string :: "string \<Rightarrow> js_error + (string \<times> string)" where
  "jp_string [] = Inl SyntaxError"
| "jp_string (c # r) =
     (if c = dquote then Inr ([], r)
      else if c = backslash then
        (case r of
           [] \<Rightarrow> Inl SyntaxError
         | e # r' \<Rightarrow>
             if e = CHR ''u'' then
               (case r' of
                  h1 # h2 # h3 # h4 # r'' \<Rightarrow>
                    (case (hex_val h1, hex_val h2, hex_val h3, hex_val h4) of
                       (Some a, Some b, Some d, Some f) \<Rightarrow>
                         let u = ((a * 16 + b) * 16 + d) * 16 + f in
                         if u < 256 then cons_result (char_of u) (jp_string r'') else Inl OutOfModel
                     | _ \<Rightarrow> Inl SyntaxError)
                | _ \<Rightarrow> Inl SyntaxError)
             else (case simple_escape e of
                     Some x \<Rightarrow> cons_result x (jp_string r')
                   | None \<Rightarrow> Inl SyntaxError))
      else if (of_char c :: nat) < 32 then Inl SyntaxError
      else cons_result c (jp_string r))"

text \<open>
  A number literal: \<^verbatim>\<open>-\<close>, then \<^verbatim>\<open>0\<close> or digits without a leading zero.
  A fraction or exponent, or a magnitude of \<open>2^53\<close> or more (where JavaScript
  rounds), is outside the model.
\<close>

definition jp_number :: "string \<Rightarrow> js_error + (json \<times> string)" where
  "jp_number s =
     (let (neg, r) = (case s of c # r \<Rightarrow> if c = CHR ''-'' then (True, r) else (False, s) | [] \<Rightarrow> (False, s));
          ds = takeWhile is_digit r; rest = dropWhile is_digit r
      in if ds = [] then Inl SyntaxError
         else if hd ds = CHR ''0'' \<and> ds \<noteq> ''0'' then Inr (JNum 0, tl r)
         else if rest \<noteq> [] \<and> hd rest \<in> set ''.eE'' then Inl OutOfModel
         else if 2 ^ 53 \<le> digits_int ds then Inl OutOfModel
         else Inr (JNum (if neg then - digits_int ds else digits_int ds), rest))"

text \<open>
  The recursive descent: \<open>jp_value\<close> reads one value, \<open>jp_elems\<close> the rest of an
  array after an element, \<open>jp_members\<close> the members of an object.  Every call
  consumes input before it recurses; the fuel (\<open>length + 1\<close> in
  \<open>json_parse\<close>) bounds the depth of the calls.
\<close>

fun jp_value :: "nat \<Rightarrow> string \<Rightarrow> js_error + (json \<times> string)"
  and jp_elems :: "nat \<Rightarrow> json list \<Rightarrow> string \<Rightarrow> js_error + (json \<times> string)"
  and jp_members :: "nat \<Rightarrow> json obj \<Rightarrow> string \<Rightarrow> js_error + (json \<times> string)" where
  "jp_value 0 s = Inl SyntaxError"
| "jp_value (Suc f) s =
     (case skip_ws s of
        [] \<Rightarrow> Inl SyntaxError
      | c # r \<Rightarrow>
          if c = CHR ''{'' then
            (case skip_ws r of
               c' # r' \<Rightarrow> if c' = CHR ''}'' then Inr (JObj [], r') else jp_members f [] r
             | [] \<Rightarrow> Inl SyntaxError)
          else if c = CHR ''['' then
            (case skip_ws r of
               c' # r' \<Rightarrow>
                 if c' = CHR '']'' then Inr (JArr [], r')
                 else (case jp_value f r of Inl e \<Rightarrow> Inl e | Inr (v, r'') \<Rightarrow> jp_elems f [v] r'')
             | [] \<Rightarrow> Inl SyntaxError)
          else if c = dquote then
            (case jp_string r of Inl e \<Rightarrow> Inl e | Inr (str, r') \<Rightarrow> Inr (JStr str, r'))
          else if take 4 (c # r) = ''true'' then Inr (JBool True, drop 3 r)
          else if take 5 (c # r) = ''false'' then Inr (JBool False, drop 4 r)
          else if take 4 (c # r) = ''null'' then Inr (JNull, drop 3 r)
          else if c = CHR ''-'' \<or> is_digit c then jp_number (c # r)
          else Inl SyntaxError)"
| "jp_elems 0 acc s = Inl SyntaxError"
| "jp_elems (Suc f) acc s =
     (case skip_ws s of
        c # r \<Rightarrow>
          if c = CHR '','' then
            (case jp_value f r of Inl e \<Rightarrow> Inl e | Inr (v, r') \<Rightarrow> jp_elems f (acc @ [v]) r')
          else if c = CHR '']'' then Inr (JArr acc, r)
          else Inl SyntaxError
      | [] \<Rightarrow> Inl SyntaxError)"
| "jp_members 0 acc s = Inl SyntaxError"
| "jp_members (Suc f) acc s =
     (case skip_ws s of
        c # r \<Rightarrow>
          if c = dquote then
            (case jp_string r of
               Inl e \<Rightarrow> Inl e
             | Inr (k, r') \<Rightarrow>
                 (case skip_ws r' of
                    c' # r'' \<Rightarrow>
                      if c' = CHR '':'' then
                        (case jp_value f r'' of
                           Inl e \<Rightarrow> Inl e
                         | Inr (v, r3) \<Rightarrow>
                             (case skip_ws r3 of
                                c'' # r4 \<Rightarrow>
                                  if c'' = CHR '','' then jp_members f (obj_set acc k v) r4
                                  else if c'' = CHR ''}'' then Inr (JObj (obj_set acc k v), r4)
                                  else Inl SyntaxError
                              | [] \<Rightarrow> Inl SyntaxError))
                      else Inl SyntaxError
                  | [] \<Rightarrow> Inl SyntaxError))
          else Inl SyntaxError
      | [] \<Rightarrow> Inl SyntaxError)"

text \<open>\<^verbatim>\<open>JSON.parse(s)\<close>: one value, surrounded by white space only.\<close>

definition json_parse :: "string \<Rightarrow> js_error + json" where
  "json_parse s =
     (case jp_value (length s + 1) s of
        Inl e \<Rightarrow> Inl e
      | Inr (v, r) \<Rightarrow> if skip_ws r = [] then Inr v else Inl SyntaxError)"

subsection \<open>Round trip\<close>

text \<open>
  The values \<^verbatim>\<open>JSON.stringify\<close> and \<^verbatim>\<open>JSON.parse\<close> agree on: integers of
  magnitude below \<open>2^53\<close> and objects with distinct keys.  \<open>num_end\<close> says what
  may follow a value so that a number literal ends with it.
\<close>

fun json_safe :: "json \<Rightarrow> bool" where
  "json_safe (JNum n) = (\<bar>n\<bar> < 2 ^ 53)"
| "json_safe (JArr xs) = (\<forall>x \<in> set xs. json_safe x)"
| "json_safe (JObj kvs) = (distinct (map fst kvs) \<and> (\<forall>kv \<in> set kvs. json_safe (snd kv)))"
| "json_safe _ = True"

definition num_end :: "string \<Rightarrow> bool" where
  "num_end r \<longleftrightarrow> r = [] \<or> (\<not> is_digit (hd r) \<and> hd r \<notin> set ''.eE'')"

subsection \<open>Properties\<close>

lemma hex_lower_val: "d < 16 \<Longrightarrow> hex_val (hex_lower d) = Some d"
proof -
  have "\<forall>d \<in> set [0..<16]. hex_val (hex_lower d) = Some d" by code_simp
  moreover assume "d < 16"
  ultimately show ?thesis by simp
qed

lemma jp_string_quote_char:
  "jp_string (quote_char c @ r) = cons_result c (jp_string r)"
proof -
  define n where "n = (of_char c :: nat)"
  have n256: "n < 256" using nat_of_char_less_256 n_def by simp
  have cn: "char_of n = c" by (simp add: n_def)
  have esc: "simple_escape (CHR ''b'') = Some (char_of (8::nat))" "simple_escape (CHR ''t'') = Some (char_of (9::nat))"
    "simple_escape (CHR ''n'') = Some (char_of (10::nat))" "simple_escape (CHR ''f'') = Some (char_of (12::nat))"
    "simple_escape (CHR ''r'') = Some (char_of (13::nat))" "simple_escape dquote = Some dquote"
    "simple_escape backslash = Some backslash"
    by code_simp+
  have hx: "hex_val (CHR ''0'') = Some 0" by (simp add: hex_val_def)
  consider "n = 8" | "n = 9" | "n = 10" | "n = 12" | "n = 13"
    | "n \<notin> {8, 9, 10, 12, 13}" "c = dquote" | "n \<notin> {8, 9, 10, 12, 13}" "c = backslash"
    | "n \<notin> {8, 9, 10, 12, 13}" "c \<noteq> dquote" "c \<noteq> backslash" "n < 32"
    | "n \<notin> {8, 9, 10, 12, 13}" "c \<noteq> dquote" "c \<noteq> backslash" "\<not> n < 32"
    by blast
  then show ?thesis
  proof cases
    case 8
    then show ?thesis
      using n256 hex_lower_val [of "n div 16"] hex_lower_val [of "n mod 16"] cn hx
      by (simp add: quote_char_def n_def [symmetric] Let_def backslash_def dquote_def)
  qed (use esc cn in \<open>simp_all add: quote_char_def n_def [symmetric] Let_def backslash_def dquote_def\<close>)
qed


lemma jp_string_quoted: "jp_string (concat (map quote_char s) @ dquote # r) = Inr (s, r)"
  by (induction s) (simp_all add: jp_string_quote_char cons_result_def)

lemma digit_char_val: "d < 10 \<Longrightarrow> digit_val (digit_char d) = d \<and> is_digit (digit_char d)"
proof -
  have "\<forall>d \<in> set [0..<10]. digit_val (digit_char d) = d \<and> is_digit (digit_char d)" by code_simp
  moreover assume "d < 10"
  ultimately show ?thesis by simp
qed

lemma digit_char_nonzero: "0 < d \<Longrightarrow> d < 10 \<Longrightarrow> digit_char d \<noteq> CHR ''0''"
proof -
  have "\<forall>d \<in> set [1..<10]. digit_char d \<noteq> CHR ''0''" by code_simp
  moreover assume "0 < d" "d < 10"
  ultimately show ?thesis by simp
qed

lemma nat_to_dec_facts:
  "nat_to_dec m \<noteq> [] \<and> (\<forall>c \<in> set (nat_to_dec m). is_digit c) \<and>
   digits_int (nat_to_dec m) = int m \<and> (0 < m \<longrightarrow> hd (nat_to_dec m) \<noteq> CHR ''0'')"
proof (induction m rule: nat_to_dec.induct)
  case (1 m)
  show ?case
  proof (cases "m < 10")
    case True
    then show ?thesis using digit_char_val [of m] digit_char_nonzero [of m]
      by (simp add: nat_to_dec.simps digits_int_def)
  next
    case False
    then have ih: "nat_to_dec (m div 10) \<noteq> [] \<and> (\<forall>c \<in> set (nat_to_dec (m div 10)). is_digit c) \<and>
      digits_int (nat_to_dec (m div 10)) = int (m div 10) \<and> hd (nat_to_dec (m div 10)) \<noteq> CHR ''0''"
      using 1 by simp
    have "digits_int (nat_to_dec (m div 10) @ [digit_char (m mod 10)]) = 10 * int (m div 10) + int (m mod 10)"
      using ih digit_char_val [of "m mod 10"] by (simp add: digits_int_def)
    also have "\<dots> = int m" by (simp add: zdiv_int zmod_int)
    finally show ?thesis using False ih digit_char_val [of "m mod 10"] by (simp add: nat_to_dec.simps [of m])
  qed
qed

lemma digits_prefix:
  "\<forall>c \<in> set ds. is_digit c \<Longrightarrow> num_end r \<Longrightarrow> takeWhile is_digit (ds @ r) = ds \<and> dropWhile is_digit (ds @ r) = r"
  by (cases r) (auto simp: num_end_def)

lemma jp_number_dec:
  assumes "\<bar>n\<bar> < 2 ^ 53" and "num_end r"
  shows "jp_number (int_to_dec n @ r) = Inr (JNum n, r)"
proof -
  define m where "m = nat \<bar>n\<bar>"
  have f: "nat_to_dec m \<noteq> []" "\<forall>c \<in> set (nat_to_dec m). is_digit c" "digits_int (nat_to_dec m) = int m"
    "0 < m \<longrightarrow> hd (nat_to_dec m) \<noteq> CHR ''0''"
    using nat_to_dec_facts [of m] by simp_all
  have t: "takeWhile is_digit (nat_to_dec m @ r) = nat_to_dec m" "dropWhile is_digit (nat_to_dec m @ r) = r"
    using digits_prefix [OF f(2) assms(2)] by simp_all
  have z: "hd (nat_to_dec m) = CHR ''0'' \<longrightarrow> nat_to_dec m = ''0''"
    using f(4) by (cases "m = 0") (simp_all add: nat_to_dec.simps digit_char_def)
  have big: "\<not> 2 ^ 53 \<le> int m" using assms(1) by (simp add: m_def)
  have e: "r \<noteq> [] \<longrightarrow> hd r \<notin> set ''.eE''" using assms(2) by (auto simp: num_end_def)
  obtain c cs where cs: "nat_to_dec m = c # cs" using f(1) by (cases "nat_to_dec m") auto
  have nd: "c \<noteq> CHR ''-''" using f(2) cs by (auto simp: is_digit_def)
  show ?thesis
  proof (cases "n < 0")
    case True
    then have "int_to_dec n = CHR ''-'' # nat_to_dec m" by (simp add: int_to_dec_def m_def)
    then show ?thesis using t z big e f(1,3) True by (auto simp: jp_number_def m_def Let_def)
  next
    case False
    then have "int_to_dec n = nat_to_dec m" by (simp add: int_to_dec_def m_def)
    then show ?thesis using t z big e f(1,3) False cs nd by (auto simp: jp_number_def m_def Let_def)
  qed
qed


lemma stringify_elems_map: "stringify_elems xs = map json_stringify xs"
  by (induction xs) simp_all

lemma stringify_members_map:
  "stringify_members kvs = map (\<lambda>(k, v). json_quote k @ CHR '':'' # json_stringify v) kvs"
  by (induction kvs) auto

lemma obj_set_fresh: "k \<notin> set (obj_keys acc) \<Longrightarrow> obj_set acc k v = acc @ [(k, v)]"
  by (induction acc) (auto simp: obj_keys_def)

lemma int_to_dec_head: "\<exists>c cs. int_to_dec n = c # cs \<and> (c = CHR ''-'' \<or> is_digit c)"
proof -
  obtain c cs where "nat_to_dec (nat \<bar>n\<bar>) = c # cs" "is_digit c"
    using nat_to_dec_facts [of "nat \<bar>n\<bar>"] by (cases "nat_to_dec (nat \<bar>n\<bar>)") auto
  then show ?thesis by (auto simp: int_to_dec_def)
qed

lemma stringify_head: "\<exists>c cs. json_stringify v = c # cs \<and> \<not> json_ws c \<and> c \<noteq> CHR '']'' \<and> c \<noteq> CHR ''}''"
proof (cases v)
  case (JNum n)
  then show ?thesis using int_to_dec_head [of n] by (auto simp: json_ws_def is_digit_def)
qed (auto simp: json_quote_def json_ws_def dquote_def)

lemma num_end_punct [simp]:
  "num_end (CHR '','' # r)" "num_end (CHR '']'' # r)" "num_end (CHR ''}'' # r)"
  by (simp_all add: num_end_def is_digit_def)

lemma skip_ws_stringify [simp]: "skip_ws (json_stringify v @ r) = json_stringify v @ r"
  using stringify_head [of v] by (auto simp: skip_ws_def)


lemma jp_elems_tail:
  assumes "\<forall>x \<in> set xs. \<forall>f r. length (json_stringify x) < f \<longrightarrow> num_end r \<longrightarrow>
                              jp_value f (json_stringify x @ r) = Inr (x, r)"
    and "length (concat (map (\<lambda>x. CHR '','' # json_stringify x) xs)) < f"
  shows "jp_elems f acc (concat (map (\<lambda>x. CHR '','' # json_stringify x) xs) @ CHR '']'' # r) = Inr (JArr (acc @ xs), r)"
  using assms
proof (induction xs arbitrary: f acc)
  case Nil
  then obtain f' where "f = Suc f'" by (cases f) auto
  then show ?case by (simp add: skip_ws_def json_ws_def)
next
  case (Cons x xs)
  then obtain f' where f: "f = Suc f'" by (cases f) auto
  let ?t = "concat (map (\<lambda>x. CHR '','' # json_stringify x) xs) @ CHR '']'' # r"
  have nt: "num_end ?t" by (cases xs) simp_all
  have v: "jp_value f' (json_stringify x @ ?t) = Inr (x, ?t)"
    using Cons.prems f nt by simp
  have "jp_elems f' (acc @ [x]) ?t = Inr (JArr (acc @ x # xs), r)"
    using Cons.IH [of f' "acc @ [x]"] Cons.prems f by simp
  then show ?case using v f by (simp add: skip_ws_def json_ws_def)
qed

lemma jp_members_tail:
  assumes "\<forall>kv \<in> set kvs. \<forall>f r. length (json_stringify (snd kv)) < f \<longrightarrow> num_end r \<longrightarrow>
                              jp_value f (json_stringify (snd kv) @ r) = Inr (snd kv, r)"
    and "kvs \<noteq> []" and "distinct (map fst kvs)" and "set (map fst kvs) \<inter> set (obj_keys acc) = {}"
    and "length (join_with CHR '','' (stringify_members kvs)) < f"
  shows "jp_members f acc (join_with CHR '','' (stringify_members kvs) @ CHR ''}'' # r) = Inr (JObj (acc @ kvs), r)"
  using assms
proof (induction kvs arbitrary: f acc)
  case Nil
  then show ?case by simp
next
  case (Cons kv kvs)
  obtain k v where kv: "kv = (k, v)" by (cases kv)
  then obtain f' where f: "f = Suc f'" using Cons.prems by (cases f) auto
  let ?t = "(if kvs = [] then [] else CHR '','' # join_with CHR '','' (stringify_members kvs)) @ CHR ''}'' # r"
  have tx: "join_with CHR '','' (stringify_members (kv # kvs)) @ CHR ''}'' # r =
      dquote # concat (map quote_char k) @ dquote # CHR '':'' # json_stringify v @ ?t"
    by (cases kvs) (simp_all add: kv json_quote_def stringify_members_map split: prod.splits)
  have nt: "num_end ?t" by simp
  have len: "length (json_stringify v) < f'"
    using Cons.prems(5) f arg_cong [OF tx, of length] by (simp split: if_splits)
  have v: "jp_value f' (json_stringify v @ ?t) = Inr (v, ?t)"
    using Cons.prems(1) len nt kv by simp
  have fresh: "obj_set acc k v = acc @ [(k, v)]"
    using Cons.prems(4) kv by (simp add: obj_set_fresh)
  have dq: "\<not> json_ws dquote" by (simp add: json_ws_def dquote_def)
  show ?case
  proof (cases "kvs = []")
    case True
    show ?thesis unfolding tx using v fresh f kv True dq
      by (simp add: jp_string_quoted skip_ws_def json_ws_def)
  next
    case False
    have "jp_members f' (acc @ [(k, v)]) (join_with CHR '','' (stringify_members kvs) @ CHR ''}'' # r) =
          Inr (JObj (acc @ [(k, v)] @ kvs), r)"
      using Cons.IH [where f = f' and acc = "acc @ [(k, v)]"] Cons.prems False f kv
        length_join_with_le [of "CHR '',''" "stringify_members kvs"]
      by (auto simp: obj_keys_def join_with_Cons json_quote_def stringify_members_map)
    then show ?thesis unfolding tx using v fresh f kv False dq
      by (simp add: jp_string_quoted skip_ws_def json_ws_def)
  qed
qed


lemma dquote_facts [simp]: "\<not> json_ws dquote" "dquote \<noteq> CHR ''{''" "dquote \<noteq> CHR ''[''"
  by (simp_all add: json_ws_def dquote_def)

lemma jp_value_stringify:
  "json_safe v \<Longrightarrow> length (json_stringify v) < f \<Longrightarrow> num_end r \<Longrightarrow>
   jp_value f (json_stringify v @ r) = Inr (v, r)"
proof (induction v arbitrary: f r)
  case JNull
  then obtain f' where "f = Suc f'" by (cases f) auto
  then show ?case by (simp add: skip_ws_def json_ws_def dquote_def)
next
  case (JBool b)
  then obtain f' where "f = Suc f'" by (cases f) auto
  then show ?case by (simp add: skip_ws_def json_ws_def dquote_def)
next
  case (JNum n)
  then obtain f' where f: "f = Suc f'" by (cases f) auto
  obtain c cs where c: "int_to_dec n = c # cs" "c = CHR ''-'' \<or> is_digit c" using int_to_dec_head [of n] by blast
  have nw: "\<not> json_ws c" "c \<noteq> CHR ''{''" "c \<noteq> CHR ''[''" "c \<noteq> dquote" "c \<noteq> CHR ''t''" "c \<noteq> CHR ''f''" "c \<noteq> CHR ''n''"
    using c(2) by (auto simp: json_ws_def is_digit_def dquote_def)
  have "jp_number (int_to_dec n @ r) = Inr (JNum n, r)" using JNum.prems by (simp add: jp_number_dec)
  then show ?case using f c nw by (simp add: skip_ws_def)
next
  case (JStr s)
  then obtain f' where "f = Suc f'" by (cases f) auto
  then show ?case by (simp add: skip_ws_def json_quote_def jp_string_quoted)
next
  case (JArr xs)
  then obtain f' where f: "f = Suc f'" by (cases f) auto
  show ?case
  proof (cases xs)
    case Nil
    then show ?thesis using f by (simp add: skip_ws_def json_ws_def)
  next
    case (Cons x xs')
    let ?t = "concat (map (\<lambda>x. CHR '','' # json_stringify x) xs') @ CHR '']'' # r"
    have tx: "json_stringify (JArr xs) @ r = CHR ''['' # json_stringify x @ ?t"
      using Cons by (simp add: stringify_elems_map join_with_Cons o_def)
    have ih: "\<forall>y \<in> set xs. \<forall>f r. length (json_stringify y) < f \<longrightarrow> num_end r \<longrightarrow>
                jp_value f (json_stringify y @ r) = Inr (y, r)"
      using JArr.IH JArr.prems(1) by simp
    have lens: "length (json_stringify x) < f'" "length (concat (map (\<lambda>x. CHR '','' # json_stringify x) xs')) < f'"
      using JArr.prems(2) arg_cong [OF tx, of length] f by simp_all
    have v: "jp_value f' (json_stringify x @ ?t) = Inr (x, ?t)"
      using ih Cons lens(1) by (cases xs') simp_all
    have e: "jp_elems f' [x] ?t = Inr (JArr ([x] @ xs'), r)"
      by (rule jp_elems_tail) (use ih Cons lens(2) in simp_all)
    obtain c cs where c: "json_stringify x = c # cs" "\<not> json_ws c" "c \<noteq> CHR '']''"
      using stringify_head [of x] by blast
    show ?thesis unfolding tx using v e c f Cons by (simp add: skip_ws_def json_ws_def)
  qed
next
  case (JObj kvs)
  then obtain f' where f: "f = Suc f'" by (cases f) auto
  show ?case
  proof (cases kvs)
    case Nil
    then show ?thesis using f by (simp add: skip_ws_def json_ws_def)
  next
    case (Cons kv kvs')
    obtain k v where kv: "kv = (k, v)" by (cases kv)
    let ?m = "join_with CHR '','' (stringify_members kvs) @ CHR ''}'' # r"
    have tx: "json_stringify (JObj kvs) @ r = CHR ''{'' # ?m" by simp
    have hd: "?m = dquote # concat (map quote_char k) @ dquote # CHR '':'' # json_stringify v @
        (if kvs' = [] then [] else CHR '','' # join_with CHR '','' (stringify_members kvs')) @ CHR ''}'' # r"
      using Cons kv by (cases kvs') (simp_all add: json_quote_def stringify_members_map split: prod.splits)
    have ih: "\<forall>kv \<in> set kvs. \<forall>f r. length (json_stringify (snd kv)) < f \<longrightarrow> num_end r \<longrightarrow>
                jp_value f (json_stringify (snd kv) @ r) = Inr (snd kv, r)"
      using JObj.IH JObj.prems(1) by (fastforce simp: snds.simps)
    have lens: "length (join_with CHR '','' (stringify_members kvs)) < f'"
      using JObj.prems(2) f by simp
    have m: "jp_members f' [] ?m = Inr (JObj ([] @ kvs), r)"
      by (rule jp_members_tail) (use ih Cons lens JObj.prems(1) in \<open>simp_all add: obj_keys_def\<close>)
    have "skip_ws ?m = ?m" using hd by (simp add: skip_ws_def)
    then show ?thesis unfolding tx using m f hd by (simp add: skip_ws_def json_ws_def dquote_def)
  qed
qed


text \<open>
  \<^verbatim>\<open>JSON.parse(JSON.stringify(v))\<close> gives \<open>v\<close> back for every value
  of the model whose numbers are safe integers and whose objects have distinct
  keys (as JavaScript objects do); the parser's fuel \<open>length + 1\<close> is enough.
\<close>

theorem json_parse_stringify: "json_safe v \<Longrightarrow> json_parse (json_stringify v) = Inr v"
  using jp_value_stringify [of v "length (json_stringify v) + 1" "[]"]
  by (simp add: json_parse_def num_end_def skip_ws_def)


subsection \<open>Witnesses\<close>

lemma json_parse_stringify_witness:
  "json_safe (JObj [(''a'', JArr [JNum 1, JStr ''x'']), (''b'', JNull)]) \<and>
   json_parse (json_stringify (JObj [(''a'', JArr [JNum 1, JStr ''x'']), (''b'', JNull)])) =
     Inr (JObj [(''a'', JArr [JNum 1, JStr ''x'']), (''b'', JNull)])"
proof -
  have h: "json_safe (JObj [(''a'', JArr [JNum 1, JStr ''x'']), (''b'', JNull)])" by simp
  then show ?thesis using json_parse_stringify [OF h] by simp
qed

end
