(* ===== verification/UriCodec.thy ===== *)
theory UriCodec
  imports JsValue
begin

text \<open>
  \<^verbatim>\<open>encodeURIComponent\<close> and \<^verbatim>\<open>decodeURIComponent\<close> as
  \<^verbatim>\<open>serializeParams\<close> and \<^verbatim>\<open>unserializeParams\<close> call them
  (src/resource-library.js, lines 585 and 606).  A \<open>char\<close> is a UTF-16 code
  unit between 0 and 255, that is a code point of Latin-1; it is encoded as its
  one or two UTF-8 bytes, each written \<^verbatim>\<open>%XX\<close> with upper-case hex digits,
  unless it is one of the unreserved characters.
\<close>

definition hex_upper :: "nat \<Rightarrow> char" where
  "hex_upper d = ''0123456789ABCDEF'' ! d"

definition pct_byte :: "nat \<Rightarrow> string" where
  "pct_byte b = [CHR ''%'', hex_upper (b div 16), hex_upper (b mod 16)]"

text \<open>The characters \<^verbatim>\<open>encodeURIComponent\<close> leaves alone: \<^verbatim>\<open>A-Z a-z 0-9 - _ . ! ~ * ' ( )\<close>.\<close>

definition uri_unreserved :: "char \<Rightarrow> bool" where
  "uri_unreserved c =
     (let n = (of_char c :: nat) in
      (65 \<le> n \<and> n \<le> 90) \<or> (97 \<le> n \<and> n \<le> 122) \<or> (48 \<le> n \<and> n \<le> 57) \<or>
      c \<in> set [CHR ''-'', CHR ''_'', CHR ''.'', CHR ''!'', CHR ''~'', CHR ''*'', CHR 0x27, CHR ''('', CHR '')''])"

definition encode_char :: "char \<Rightarrow> string" where
  "encode_char c =
     (let n = (of_char c :: nat) in
      if uri_unreserved c then [c]
      else if n < 128 then pct_byte n
      else pct_byte (192 + n div 64) @ pct_byte (128 + n mod 64))"

definition encode_uri_component :: "string \<Rightarrow> string" where
  "encode_uri_component s = concat (map encode_char s)"

subsection \<open>Decoding\<close>

definition hex_digit_val :: "char \<Rightarrow> nat option" where
  "hex_digit_val c =
     (let n = (of_char c :: nat) in
      if 48 \<le> n \<and> n \<le> 57 then Some (n - 48)
      else if 65 \<le> n \<and> n \<le> 70 then Some (n - 55)
      else if 97 \<le> n \<and> n \<le> 102 then Some (n - 87)
      else None)"

definition pct_val :: "char \<Rightarrow> char \<Rightarrow> nat option" where
  "pct_val h1 h2 =
     (case (hex_digit_val h1, hex_digit_val h2) of (Some a, Some b) \<Rightarrow> Some (16 * a + b) | _ \<Rightarrow> None)"

definition prepend :: "char \<Rightarrow> js_error + string \<Rightarrow> js_error + string" where
  "prepend c r = (case r of Inl e \<Rightarrow> Inl e | Inr s \<Rightarrow> Inr (c # s))"

text \<open>
  \<^verbatim>\<open>decodeURIComponent\<close>: each \<^verbatim>\<open>%XX\<close> is a byte; a byte below 128 is a
  character, a two-byte UTF-8 sequence for a code point below 256 is that
  character, and a malformed escape, a stray continuation byte or an overlong
  sequence throws \<open>URIError\<close>.  Sequences for code points above 255 are
  outside the model.
\<close>

fun decode_uri_component :: "string \<Rightarrow> js_error + string" where
  "decode_uri_component [] = Inr []"
| "decode_uri_component (c # r) =
     (if c \<noteq> CHR ''%'' then prepend c (decode_uri_component r)
      else case r of
        h1 # h2 # r' \<Rightarrow>
          (case pct_val h1 h2 of
             None \<Rightarrow> Inl URIError
           | Some b \<Rightarrow>
               if b < 128 then prepend (char_of b) (decode_uri_component r')
               else if b < 192 \<or> 248 \<le> b then Inl URIError
               else if b < 224 then
                 (case r' of
                    p # h3 # h4 # r'' \<Rightarrow>
                      (case pct_val h3 h4 of
                         Some b2 \<Rightarrow>
                           if p = CHR ''%'' \<and> 128 \<le> b2 \<and> b2 < 192 then
                             (let v = (b - 192) * 64 + (b2 - 128) in
                              if v < 128 then Inl URIError
                              else if v < 256 then prepend (char_of v) (decode_uri_component r'')
                              else Inl OutOfModel)
                           else Inl URIError
                       | None \<Rightarrow> Inl URIError)
                  | _ \<Rightarrow> Inl URIError)
               else Inl OutOfModel)
      | _ \<Rightarrow> Inl URIError)"

subsection \<open>Properties\<close>

lemma hex_upper_val: "d < 16 \<Longrightarrow> hex_digit_val (hex_upper d) = Some d"
proof -
  have "\<forall>d \<in> set [0..<16]. hex_digit_val (hex_upper d) = Some d" by code_simp
  moreover assume "d < 16"
  ultimately show ?thesis by simp
qed

lemma pct_val_byte: "b < 256 \<Longrightarrow> pct_val (hex_upper (b div 16)) (hex_upper (b mod 16)) = Some b"
  by (simp add: pct_val_def hex_upper_val less_mult_imp_div_less)

lemma unreserved_not_pct: "uri_unreserved c \<Longrightarrow> c \<noteq> CHR ''%''"
  by (auto simp: uri_unreserved_def)

lemma decode_encode_char:
  "decode_uri_component (encode_char c @ r) = prepend c (decode_uri_component r)"
proof -
  define n where "n = (of_char c :: nat)"
  have n256: "n < 256" using nat_of_char_less_256 n_def by simp
  have cn: "char_of n = c" by (simp add: n_def)
  consider (u) "uri_unreserved c" | (a) "\<not> uri_unreserved c" "n < 128" | (b) "\<not> uri_unreserved c" "\<not> n < 128"
    by blast
  then show ?thesis
  proof cases
    case u
    then show ?thesis by (simp add: encode_char_def unreserved_not_pct)
  next
    case a
    have "pct_val (hex_upper (n div 16)) (hex_upper (n mod 16)) = Some n" using n256 by (rule pct_val_byte)
    then show ?thesis using a cn by (simp add: encode_char_def pct_byte_def n_def [symmetric])
  next
    case b
    define b1 where "b1 = 192 + n div 64"
    define b2 where "b2 = 128 + n mod 64"
    have b1: "192 \<le> b1" "b1 < 224" "b1 < 256" using n256 by (simp_all add: b1_def)
    have b2: "128 \<le> b2" "b2 < 192" "b2 < 256" by (simp_all add: b2_def)
    have v: "(b1 - 192) * 64 + (b2 - 128) = n" by (simp add: b1_def b2_def)
    have p1: "pct_val (hex_upper (b1 div 16)) (hex_upper (b1 mod 16)) = Some b1" using b1 by (simp add: pct_val_byte)
    have p2: "pct_val (hex_upper (b2 div 16)) (hex_upper (b2 mod 16)) = Some b2" using b2 by (simp add: pct_val_byte)
    have enc: "encode_char c = pct_byte b1 @ pct_byte b2"
      using b by (simp add: encode_char_def n_def [symmetric] b1_def b2_def)
    show ?thesis using b p1 p2 b1 b2 v n256 cn
      by (simp add: enc pct_byte_def Let_def)
  qed
qed

text \<open>
  \<^verbatim>\<open>decodeURIComponent(encodeURIComponent(s))\<close> is \<open>s\<close> for every
  string of code units 0 to 255.
\<close>

theorem decode_encode_uri_component:
  "decode_uri_component (encode_uri_component s) = Inr s"
  by (induction s) (simp_all add: encode_uri_component_def decode_encode_char prepend_def)

lemma hex_upper_mem: "d < 16 \<Longrightarrow> hex_upper d \<in> set ''0123456789ABCDEF''"
  unfolding hex_upper_def by (rule nth_mem) simp

lemma encode_free:
  assumes "x \<in> set (encode_uri_component s)"
  shows "x \<noteq> CHR ''&'' \<and> x \<noteq> CHR ''=''"
proof -
  from assms obtain c where c: "x \<in> set (encode_char c)" by (auto simp: encode_uri_component_def)
  have n: "(of_char c :: nat) < 256" by (rule nat_of_char_less_256)
  have n2: "(of_char c :: nat) div 64 < 64" "(of_char c :: nat) mod 64 < 128" using n by linarith+
  have pb: "y \<in> set (pct_byte b) \<Longrightarrow> b < 256 \<Longrightarrow> y \<noteq> CHR ''&'' \<and> y \<noteq> CHR ''=''" for y b
    using hex_upper_mem [of "b div 16"] hex_upper_mem [of "b mod 16"]
    by (auto simp: pct_byte_def less_mult_imp_div_less)
  show ?thesis
  proof (cases "uri_unreserved c")
    case True
    then show ?thesis using c by (auto simp: encode_char_def uri_unreserved_def)
  next
    case False
    then show ?thesis using c n n2 pb [of x "of_char c"] pb [of x "192 + of_char c div 64"] pb [of x "128 + of_char c mod 64"]
      by (auto simp: encode_char_def Let_def split: if_splits)
  qed
qed

end
