(* ===== verification/Serializer.thy ===== *)
theory Serializer
  imports JsonCodec UriCodec
begin

text \<open>
  \<^verbatim>\<open>serializeParams\<close> (src/resource-library.js, lines 579-588): the truthy
  entries of an object, in key order, as \<^verbatim>\<open>key=value\<close> pairs joined by
  \<^verbatim>\<open>&\<close>, the key URI-encoded and the value JSON-encoded, then URI-encoded.
\<close>

definition serialize_entry :: "string \<times> json \<Rightarrow> string" where
  "serialize_entry kv =
     (case kv of (k, v) \<Rightarrow> encode_uri_component k @ CHR ''='' # encode_uri_component (json_stringify v))"

definition serialize_params :: "json obj \<Rightarrow> string" where
  "serialize_params params =
     join_with CHR ''&'' (map serialize_entry (filter (\<lambda>(k, v). js_truthy v) params))"

text \<open>
  \<^verbatim>\<open>unserializeParams\<close> (lines 595-610): drop the leading \<^verbatim>\<open>?\<close>, split on
  \<^verbatim>\<open>&\<close>, split each piece on \<^verbatim>\<open>=\<close>, and assign the decoded first part
  the JSON value of the decoded second part; a piece without \<^verbatim>\<open>=\<close> has the
  second part \<^verbatim>\<open>undefined\<close>, which \<^verbatim>\<open>decodeURIComponent\<close> turns into the
  string \<^verbatim>\<open>"undefined"\<close>; parts after a second \<^verbatim>\<open>=\<close> are ignored.  The key
  is decoded before the value; the first exception aborts the whole call.
\<close>

definition second_part :: "string list \<Rightarrow> string" where
  "second_part parts = (case parts of _ # v # _ \<Rightarrow> v | _ \<Rightarrow> ''undefined'')"

definition unserialize_entry :: "json obj \<Rightarrow> string \<Rightarrow> js_error + json obj" where
  "unserialize_entry params item =
     (let parts = split_on CHR ''='' item in
      case decode_uri_component (hd parts) of
        Inl e \<Rightarrow> Inl e
      | Inr k \<Rightarrow>
          (case decode_uri_component (second_part parts) of
             Inl e \<Rightarrow> Inl e
           | Inr vs \<Rightarrow>
               (case json_parse vs of
                  Inl e \<Rightarrow> Inl e
                | Inr v \<Rightarrow> Inr (obj_set params k v))))"

fun unserialize_entries :: "json obj \<Rightarrow> string list \<Rightarrow> js_error + json obj" where
  "unserialize_entries params [] = Inr params"
| "unserialize_entries params (item # items) =
     (case unserialize_entry params item of
        Inl e \<Rightarrow> Inl e
      | Inr params' \<Rightarrow> unserialize_entries params' items)"

definition unserialize_params :: "string \<Rightarrow> js_error + json obj" where
  "unserialize_params param_string = unserialize_entries [] (split_on CHR ''&'' (drop 1 param_string))"

subsection \<open>Properties\<close>

lemma unserialize_serialize_entry:
  assumes "json_safe v" and "k \<notin> set (obj_keys acc)"
  shows "unserialize_entry acc (serialize_entry (k, v)) = Inr (acc @ [(k, v)])"
proof -
  have sp: "split_on CHR ''='' (serialize_entry (k, v)) = [encode_uri_component k, encode_uri_component (json_stringify v)]"
    using split_join [of "[encode_uri_component k, encode_uri_component (json_stringify v)]" "CHR ''=''"] encode_free
    by (auto simp: serialize_entry_def)
  show ?thesis using assms
    by (simp add: unserialize_entry_def sp second_part_def decode_encode_uri_component json_parse_stringify obj_set_fresh)
qed

lemma unserialize_serialize_entries:
  "\<forall>kv \<in> set q. json_safe (snd kv) \<Longrightarrow> distinct (map fst q) \<Longrightarrow> set (map fst q) \<inter> set (obj_keys acc) = {} \<Longrightarrow>
   unserialize_entries acc (map serialize_entry q) = Inr (acc @ q)"
proof (induction q arbitrary: acc)
  case (Cons kv q)
  obtain k v where kv: "kv = (k, v)" by (cases kv)
  have "unserialize_entry acc (serialize_entry (k, v)) = Inr (acc @ [(k, v)])"
    using Cons.prems kv by (intro unserialize_serialize_entry) (auto simp: obj_keys_def)
  moreover have "unserialize_entries (acc @ [(k, v)]) (map serialize_entry q) = Inr (acc @ [(k, v)] @ q)"
    using Cons.IH [of "acc @ [(k, v)]"] Cons.prems kv by (auto simp: obj_keys_def)
  ultimately show ?case using kv by simp
qed simp

text \<open>
  C27: a parameter object read back from the URL that \<^verbatim>\<open>serializeParams\<close>
  wrote for it is its truthy part: the falsy values are lost, the others come
  back unchanged and in order, provided the values are within the JSON model and
  at least one value is truthy.
\<close>

theorem unserialize_serialize:
  assumes wf: "obj_wf p" and safe: "\<forall>kv \<in> set p. json_safe (snd kv)"
    and ne: "filter (\<lambda>(k, v). js_truthy v) p \<noteq> []"
  shows "unserialize_params (CHR ''?'' # serialize_params p) = Inr (filter (\<lambda>(k, v). js_truthy v) p)"
proof -
  let ?q = "filter (\<lambda>(k, v). js_truthy v) p"
  have d: "distinct (map fst ?q)" using wf by (simp add: obj_wf_def obj_keys_def distinct_map_filter)
  have sq: "\<forall>kv \<in> set ?q. json_safe (snd kv)" using safe by simp
  have free: "\<forall>w \<in> set (map serialize_entry ?q). CHR ''&'' \<notin> set w"
    using encode_free by (fastforce simp: serialize_entry_def)
  have "split_on CHR ''&'' (serialize_params p) = map serialize_entry ?q"
    unfolding serialize_params_def using split_join [of "map serialize_entry ?q" "CHR ''&''"] ne free by simp
  then show ?thesis
    using unserialize_serialize_entries [OF sq d, of "[]"] by (simp add: unserialize_params_def obj_keys_def)
qed


text \<open>
  C30: \<^verbatim>\<open>unserializeParams\<close> splits an item on every \<^verbatim>\<open>=\<close> and keeps the
  second part only: whatever follows a second \<^verbatim>\<open>=\<close> is ignored, where a split
  on the first \<^verbatim>\<open>=\<close> would keep it in the value.
\<close>

theorem unserialize_extra_eq:
  assumes "CHR ''&'' \<notin> set (k @ v1 @ v2)" and "CHR ''='' \<notin> set k" and "CHR ''='' \<notin> set v1"
  shows "unserialize_params (CHR ''?'' # k @ CHR ''='' # v1 @ CHR ''='' # v2) =
         unserialize_params (CHR ''?'' # k @ CHR ''='' # v1)"
proof -
  obtain w ws where w: "split_on CHR ''='' v2 = w # ws" using split_on_nonempty by (cases "split_on CHR ''='' v2") auto
  have "CHR ''&'' \<notin> set (k @ CHR ''='' # v1 @ CHR ''='' # v2)" "CHR ''&'' \<notin> set (k @ CHR ''='' # v1)"
    using assms(1) by auto
  then show ?thesis
    using assms(2,3) w
    by (simp add: unserialize_params_def split_on_free unserialize_entry_def split_on_append_free second_part_def
        split: sum.split)
qed



text \<open>
  \<^verbatim>\<open>serializeParams\<close> keeps exactly the truthy values: an empty array
  and an empty object are truthy in JavaScript and are written to the URL, while
  \<open>0\<close> and the empty string are dropped.
\<close>

theorem serialize_params_truthiness:
  "serialize_params [(''tags'', JArr []), (''meta_query'', JObj []), (''pagenum'', JNum 0), (''search'', JStr [])]
     = ''tags=%5B%5D&meta_query=%7B%7D''"
  by code_simp

subsection \<open>Witnesses\<close>

lemma unserialize_serialize_witness:
  "obj_wf [(''search'', JStr ''cat''), (''pagenum'', JNum 2), (''order'', JStr [])] \<and>
   json_safe (JStr ''cat'') \<and> json_safe (JNum 2) \<and> json_safe (JStr []) \<and>
   filter (\<lambda>(k, v). js_truthy v) [(''search'', JStr ''cat''), (''pagenum'', JNum 2), (''order'', JStr [])] \<noteq> [] \<and>
   unserialize_params (CHR ''?'' # serialize_params [(''search'', JStr ''cat''), (''pagenum'', JNum 2), (''order'', JStr [])]) =
     Inr [(''search'', JStr ''cat''), (''pagenum'', JNum 2)]"
proof -
  have h: "obj_wf [(''search'', JStr ''cat''), (''pagenum'', JNum 2), (''order'', JStr [])] \<and>
   (\<forall>kv \<in> set [(''search'', JStr ''cat''), (''pagenum'', JNum 2), (''order'', JStr [])]. json_safe (snd kv)) \<and>
   filter (\<lambda>(k, v). js_truthy v) [(''search'', JStr ''cat''), (''pagenum'', JNum 2), (''order'', JStr [])] \<noteq> []"
    by (simp add: obj_wf_def obj_keys_def)
  then show ?thesis
    using unserialize_serialize [of "[(''search'', JStr ''cat''), (''pagenum'', JNum 2), (''order'', JStr [])]"] by simp
qed

lemma unserialize_extra_eq_witness:
  "CHR ''&'' \<notin> set (''a'' @ ''1'' @ ''2'') \<and> CHR ''='' \<notin> set ''a'' \<and> CHR ''='' \<notin> set ''1'' \<and>
   unserialize_params ''?a=1=2'' = unserialize_params ''?a=1'' \<and>
   unserialize_params ''?a=1'' = Inr [(''a'', JNum 1)]"
proof -
  have h: "CHR ''&'' \<notin> set (''a'' @ ''1'' @ ''2'')" "CHR ''='' \<notin> set ''a''" "CHR ''='' \<notin> set ''1''" by simp_all
  have "unserialize_params ''?a=1'' = Inr [(''a'', JNum 1)]" by code_simp
  then show ?thesis using unserialize_extra_eq [OF h] h by simp
qed

end
