(* ===== verification/Params.thy ===== *)
theory Params
  imports JsValue "HOL-Library.Multiset"
begin

text \<open>
  The query-parameter object and what changes it (src/resource-library.js):
  the component's props (lines 24-71) as the record \<open>config\<close>;
  \<^verbatim>\<open>initialParams\<close> (lines 544-554); lodash \<^verbatim>\<open>merge\<close> (\<open>lmerge_value\<close>), which
  \<^verbatim>\<open>reset\<close> (lines 559-563) and \<^verbatim>\<open>created\<close> (line 678) use; and Vue 2's
  reactivity rules for assignments to \<^verbatim>\<open>this.params\<close>, which decide whether
  the deep \<^verbatim>\<open>params\<close> watcher runs.  Vue observes the properties an object has
  when it is assigned to a reactive property (\<open>reactive\<close> lists them for
  \<^verbatim>\<open>params\<close>, \<open>mq_reactive\<close> for \<^verbatim>\<open>params.meta_query\<close>); a plain assignment to
  a new property adds it without notifying anyone, and an assignment of an equal
  primitive value does not notify.  An array or object assigned by the program is
  always a new object, so assigning it notifies.
\<close>

record config =
  ver :: int
  post_type :: string
  per_page :: int
  meta_fields :: "json obj"
  initial_page :: int
  initial_search :: string
  initial_order :: string
  initial_orderby :: string
  initial_taxonomies :: "json obj"
  initial_meta_query :: "json obj"

text \<open>The prop defaults (lines 24-71).\<close>

definition default_config :: config where
  "default_config =
     \<lparr>ver = 1, post_type = ''posts'', per_page = 10, meta_fields = [], initial_page = 1,
      initial_search = [], initial_order = ''desc'', initial_orderby = ''date'',
      initial_taxonomies = [], initial_meta_query = []\<rparr>"

definition initial_params :: "config \<Rightarrow> json obj" where
  "initial_params cfg =
     [(''per_page'', JNum (per_page cfg)),
      (''search'', JStr (initial_search cfg)),
      (''order'', JStr (initial_order cfg)),
      (''orderby'', JStr (initial_orderby cfg)),
      (''pagenum'', JNum (initial_page cfg)),
      (''meta_query'', JObj (initial_meta_query cfg)),
      (''ver'', JNum (ver cfg))]"

subsection \<open>lodash merge\<close>

text \<open>
  \<^verbatim>\<open>merge(object, source)\<close> assigns every property of the source: a primitive
  replaces, an array is merged index by index into the destination array (or
  into a new one), a plain object is merged key by key into the destination
  object (or into a new one).  Merging an object into an array is not modelled:
  the model gives the merged object.
\<close>

fun lmerge_value :: "json option \<Rightarrow> json \<Rightarrow> json"
  and lmerge_obj :: "json obj \<Rightarrow> (string \<times> json) list \<Rightarrow> json obj"
  and lmerge_arr :: "json list \<Rightarrow> json list \<Rightarrow> json list" where
  "lmerge_value (Some (JArr xs)) (JArr ys) = JArr (lmerge_arr xs ys)"
| "lmerge_value _ (JArr ys) = JArr (lmerge_arr [] ys)"
| "lmerge_value (Some (JObj dst)) (JObj kvs) = JObj (lmerge_obj dst kvs)"
| "lmerge_value _ (JObj kvs) = JObj (lmerge_obj [] kvs)"
| "lmerge_value _ v = v"
| "lmerge_obj dst [] = dst"
| "lmerge_obj dst ((k, v) # kvs) = lmerge_obj (obj_set dst k (lmerge_value (obj_get dst k) v)) kvs"
| "lmerge_arr xs [] = xs"
| "lmerge_arr [] (y # ys) = lmerge_value None y # lmerge_arr [] ys"
| "lmerge_arr (x # xs) (y # ys) = lmerge_value (Some x) y # lmerge_arr xs ys"

text \<open>\<^verbatim>\<open>reset\<close>: \<^verbatim>\<open>merge({}, this.initialParams(), this.initial_taxonomies)\<close>.\<close>

definition reset_params :: "config \<Rightarrow> json obj" where
  "reset_params cfg = lmerge_obj (lmerge_obj [] (initial_params cfg)) (initial_taxonomies cfg)"

subsection \<open>Reactive assignment\<close>

text \<open>Whether an assignment of \<open>v\<close> over the old value \<open>old\<close> is a change for Vue's setter.\<close>

fun is_object :: "json \<Rightarrow> bool" where
  "is_object (JArr xs) = True"
| "is_object (JObj kvs) = True"
| "is_object _ = False"

definition setter_changes :: "json option \<Rightarrow> json \<Rightarrow> bool" where
  "setter_changes old v \<longleftrightarrow> is_object v \<or> old \<noteq> Some v"

text \<open>\<^verbatim>\<open>this.params[k] = v\<close>: the new object and whether the watcher is notified.\<close>

definition vue_assign :: "string list \<Rightarrow> json obj \<Rightarrow> string \<Rightarrow> json \<Rightarrow> json obj \<times> bool" where
  "vue_assign reactive p k v = (obj_set p k v, k \<in> set reactive \<and> setter_changes (obj_get p k) v)"

text \<open>The properties Vue observes when an object becomes the value of \<^verbatim>\<open>params\<close>.\<close>

definition mq_keys :: "json obj \<Rightarrow> string list" where
  "mq_keys p = (case obj_get p ''meta_query'' of Some (JObj mq) \<Rightarrow> obj_keys mq | _ \<Rightarrow> [])"

subsection \<open>Taxonomy term lists\<close>

text \<open>The \<^verbatim>\<open>terms\<close> argument: a single term is wrapped in an array (lines 363-365).\<close>

fun terms_arg :: "json \<Rightarrow> js_error + json list" where
  "terms_arg JNull = Inl TypeError"
| "terms_arg (JArr ts) = Inr ts"
| "terms_arg t = Inr [t]"

text \<open>Lines 367-371: push each term that \<^verbatim>\<open>indexOf\<close> does not find.\<close>

definition add_terms_list :: "json list \<Rightarrow> json list \<Rightarrow> json list" where
  "add_terms_list xs ts = foldl (\<lambda>acc t. if t \<in> set acc then acc else acc @ [t]) xs ts"

text \<open>Lines 389-395: \<^verbatim>\<open>splice\<close> out the first occurrence of each term found.\<close>

definition remove_terms_list :: "json list \<Rightarrow> json list \<Rightarrow> json list" where
  "remove_terms_list xs ts = foldl (\<lambda>acc t. if t \<in> set acc then remove1 t acc else acc) xs ts"

text \<open>
  Reference definitions for the two loops: the terms of a list in the order of
  their first occurrences, and the difference of multisets.
\<close>

fun first_occurrences :: "'a list \<Rightarrow> 'a list" where
  "first_occurrences [] = []"
| "first_occurrences (x # xs) = x # first_occurrences (filter (\<lambda>y. y \<noteq> x) xs)"


subsection \<open>Properties\<close>

lemma lmerge_obj_get_other:
  "k \<notin> set (obj_keys kvs) \<Longrightarrow> obj_get (lmerge_obj dst kvs) k = obj_get dst k"
  by (induction kvs arbitrary: dst) (auto simp: obj_simps obj_keys_def)

lemma add_terms_list_foldl:
  "foldl (\<lambda>acc t. if t \<in> set acc then acc else acc @ [t]) acc ts =
   acc @ first_occurrences (filter (\<lambda>t. t \<notin> set acc) ts)"
  by (induction ts arbitrary: acc) (auto simp: filter_filter conj_commute)

lemma set_first_occurrences [simp]: "set (first_occurrences xs) = set xs"
  by (induction xs rule: first_occurrences.induct) auto

lemma distinct_first_occurrences [simp]: "distinct (first_occurrences xs)"
  by (induction xs rule: first_occurrences.induct) auto

lemma remove_terms_list_remove1: "remove_terms_list xs ts = foldl (\<lambda>acc t. remove1 t acc) xs ts"
  unfolding remove_terms_list_def by (rule foldl_cong) (auto simp: remove1_idem)

text \<open>
  C35: the loop of \<^verbatim>\<open>addTerms\<close> (lines 367-371) appends, in order, the first
  occurrence of each given term that the list does not already hold.
\<close>

theorem add_terms_list_ref: "add_terms_list xs ts = xs @ first_occurrences (filter (\<lambda>t. t \<notin> set xs) ts)"
  by (simp add: add_terms_list_def add_terms_list_foldl)

text \<open>
  C36: the loop of \<^verbatim>\<open>removeTerms\<close> (lines 389-395) removes one occurrence
  per given term: the result is the multiset difference, and on a list without
  duplicates it is the list without the given terms.
\<close>

theorem remove_terms_list_spec:
  "mset (remove_terms_list xs ts) = mset xs - mset ts \<and>
   (distinct xs \<longrightarrow> remove_terms_list xs ts = filter (\<lambda>x. x \<notin> set ts) xs)"
proof
  show "mset (remove_terms_list xs ts) = mset xs - mset ts"
    unfolding remove_terms_list_remove1 by (induction ts arbitrary: xs) (auto simp: mset_remove1 add_mset_commute)
  show "distinct xs \<longrightarrow> remove_terms_list xs ts = filter (\<lambda>x. x \<notin> set ts) xs"
    unfolding remove_terms_list_remove1
    by (induction ts arbitrary: xs)
       (auto simp: distinct_remove1_removeAll removeAll_filter_not_eq filter_filter intro!: filter_cong)
qed

lemma remove_terms_list_spec_witness:
  "mset (remove_terms_list [JNum 1, JNum 2, JNum 1] [JNum 1]) = {#JNum 2, JNum 1#} \<and>
   distinct [JNum 3, JNum 4] \<and> remove_terms_list [JNum 3, JNum 4] [JNum 3, JNum 5] = [JNum 4]"
  using remove_terms_list_spec [of "[JNum 1, JNum 2, JNum 1]" "[JNum 1]"]
    remove_terms_list_spec [of "[JNum 3, JNum 4]" "[JNum 3, JNum 5]"] by simp

end
