(* ===== verification/Component.thy ===== *)
theory Component
  imports QueryBuilder Serializer Params
begin

text \<open>
  The component instance (src/resource-library.js, lines 73-683) as a state
  machine.  \<open>rl_state\<close> holds the reactive data (\<^verbatim>\<open>params\<close>, \<^verbatim>\<open>wp_data\<close>,
  \<^verbatim>\<open>pagination_data\<close>, \<^verbatim>\<open>error\<close>, \<^verbatim>\<open>loading\<close>), the private flags set in
  \<^verbatim>\<open>created\<close> (\<^verbatim>\<open>__page_updated\<close>, \<^verbatim>\<open>__suppress_history_state\<close>,
  \<^verbatim>\<open>__is_initial_load\<close>), the browser's session history, the requests in
  flight, whether \<^verbatim>\<open>__initHistory\<close> has run (\<open>history_ready\<close>), whether the deep \<^verbatim>\<open>params\<close> watcher is queued (\<open>dirty\<close>), and the
  log of what the component did to the outside (events dispatched, requests
  sent, history entries pushed, hooks called).

  The methods change \<^verbatim>\<open>params\<close> and queue the watcher when Vue's setter
  notifies.  Vue runs the queued watcher at the end of the task
  (\<open>flush\<close>), again while its own run notifies, at most
  \<open>max_update_count\<close> times.  The watcher handler (lines 644-661) resets the
  page, starts the request (the synchronous part of \<^verbatim>\<open>__fetchData\<close>, lines
  292-298), pushes a history entry and calls \<^verbatim>\<open>onParamsChange\<close>.  The rest of
  \<^verbatim>\<open>__fetchData\<close> runs when the response arrives (\<open>respond\<close>), in any order
  with other responses.  A back/forward navigation runs the history listener
  (lines 619-629).  \<open>rl_step\<close> is the relation of all these steps; every user
  task and every navigation ends with the flush.
\<close>

datatype hist_entry = HEntry string "json obj option"

record browser_history =
  entries :: "hist_entry list"
  hindex :: nat

datatype log_event =
    RootEvent string
  | FetchStarted nat api_request
  | HistoryPushed string
  | InitialLoad
  | ParamsChanged
  | AfterCreated

datatype fetch_outcome = NetworkError | BadJson | Response json "int option" "int option"

text \<open>
  The page the component runs in: its path and query string when the component
  is created, and whether \<^verbatim>\<open>Vue\<close> and lodash's \<^verbatim>\<open>_\<close> are globals (the
  module imports neither name but uses both).
\<close>

record env =
  pathname :: string
  search :: string
  global_vue :: bool
  global_lodash :: bool

record rl_state =
  params :: "json obj"
  reactive :: "string list"
  mq_reactive :: "string list"
  wp_data :: json
  total :: "int option"
  total_pages :: "int option"
  error :: "js_error option"
  loading :: bool
  page_updated :: bool
  suppress_history :: bool
  is_initial_load :: bool
  history :: browser_history
  history_ready :: bool
  pending :: "(nat \<times> api_request) list"
  next_request :: nat
  dirty :: bool
  events :: "log_event list"

text \<open>\<^verbatim>\<open>data()\<close> (lines 74-85), with the page's first history entry.\<close>

definition data_init :: "env \<Rightarrow> rl_state" where
  "data_init e =
     \<lparr>params = [], reactive = [], mq_reactive = [], wp_data = JObj [], total = Some 0,
      total_pages = Some 0, error = None, loading = True, page_updated = False,
      suppress_history = False, is_initial_load = False,
      history = \<lparr>entries = [HEntry (pathname e @ search e) None], hindex = 0\<rparr>,
      history_ready = False, pending = [], next_request = 0, dirty = False, events = []\<rparr>"

subsection \<open>Methods\<close>

text \<open>\<^verbatim>\<open>this.params[k] = v\<close>.\<close>

definition assign_param :: "rl_state \<Rightarrow> string \<Rightarrow> json \<Rightarrow> rl_state" where
  "assign_param s k v =
     (case vue_assign (reactive s) (params s) k v of
        (p', n) \<Rightarrow> s\<lparr>params := p', dirty := dirty s \<or> n\<rparr>)"

text \<open>\<^verbatim>\<open>this.params = p\<close>: Vue observes the new object, and the watcher is notified.\<close>

definition replace_params :: "rl_state \<Rightarrow> json obj \<Rightarrow> rl_state" where
  "replace_params s p = s\<lparr>params := p, reactive := obj_keys p, mq_reactive := mq_keys p, dirty := True\<rparr>"

text \<open>\<^verbatim>\<open>selectPage\<close> (lines 321-328): the one-shot flag first, then the page.\<close>

definition select_page :: "rl_state \<Rightarrow> json \<Rightarrow> rl_state" where
  "select_page s page = assign_param (s\<lparr>page_updated := True\<rparr>) ''pagenum'' page"

definition set_search :: "rl_state \<Rightarrow> json \<Rightarrow> rl_state" where
  "set_search s q = assign_param s ''search'' q"

definition reset_terms :: "rl_state \<Rightarrow> string \<Rightarrow> rl_state" where
  "reset_terms s taxonomy = assign_param s taxonomy (JArr [])"

text \<open>
  \<^verbatim>\<open>addTerms\<close> and \<^verbatim>\<open>removeTerms\<close> (lines 362-400): \<^verbatim>\<open>indexOf\<close> on a missing
  taxonomy throws; each \<^verbatim>\<open>push\<close> or \<^verbatim>\<open>splice\<close> on an observed array notifies.
\<close>

definition update_terms :: "(json list \<Rightarrow> json list \<Rightarrow> json list) \<Rightarrow> rl_state \<Rightarrow> string \<Rightarrow> json \<Rightarrow> js_error + rl_state" where
  "update_terms upd s taxonomy terms =
     (case terms_arg terms of
        Inl e \<Rightarrow> Inl e
      | Inr ts \<Rightarrow>
          if ts = [] then Inr s
          else (case obj_get (params s) taxonomy of
                  Some (JArr xs) \<Rightarrow>
                    (let xs' = upd xs ts in
                     Inr (s\<lparr>params := obj_set (params s) taxonomy (JArr xs'),
                            dirty := dirty s \<or> (taxonomy \<in> set (reactive s) \<and> xs' \<noteq> xs)\<rparr>))
                | None \<Rightarrow> Inl TypeError
                | Some JNull \<Rightarrow> Inl TypeError
                | Some _ \<Rightarrow> Inl OutOfModel))"

definition add_terms :: "rl_state \<Rightarrow> string \<Rightarrow> json \<Rightarrow> js_error + rl_state" where
  "add_terms = update_terms add_terms_list"

definition remove_terms :: "rl_state \<Rightarrow> string \<Rightarrow> json \<Rightarrow> js_error + rl_state" where
  "remove_terms = update_terms remove_terms_list"

definition set_terms :: "rl_state \<Rightarrow> string \<Rightarrow> json \<Rightarrow> js_error + rl_state" where
  "set_terms s taxonomy terms =
     (case terms_arg terms of Inl e \<Rightarrow> Inl e | Inr ts \<Rightarrow> Inr (assign_param s taxonomy (JArr ts)))"

definition set_order :: "rl_state \<Rightarrow> json \<Rightarrow> js_error + rl_state" where
  "set_order s order =
     (if order \<noteq> JStr ''asc'' \<and> order \<noteq> JStr ''desc'' then Inl (Thrown ''Order must be either asc or desc'')
      else Inr (assign_param s ''order'' order))"

definition set_orderby :: "rl_state \<Rightarrow> json \<Rightarrow> rl_state" where
  "set_orderby s orderby = assign_param s ''orderby'' orderby"

definition toggle_order :: "rl_state \<Rightarrow> js_error + rl_state" where
  "toggle_order s =
     (if obj_get (params s) ''order'' = Some (JStr ''asc'') then set_order s (JStr ''desc'')
      else set_order s (JStr ''asc''))"

text \<open>\<^verbatim>\<open>selectOrderBy\<close> (lines 474-490); an omitted \<^verbatim>\<open>default_order\<close> is \<open>None\<close>.\<close>

definition select_orderby :: "rl_state \<Rightarrow> json \<Rightarrow> json option \<Rightarrow> js_error + rl_state" where
  "select_orderby s orderby default_order =
     (let d = (case default_order of Some v \<Rightarrow> if js_truthy v then v else JStr ''asc'' | None \<Rightarrow> JStr ''asc'') in
      case (if obj_get (params s) ''orderby'' = Some orderby then toggle_order s else set_order s d) of
        Inl e \<Rightarrow> Inl e
      | Inr s' \<Rightarrow> Inr (set_orderby s' orderby))"

text \<open>\<^verbatim>\<open>isOrderedBy\<close> (lines 498-500).\<close>

definition is_ordered_by :: "rl_state \<Rightarrow> json \<Rightarrow> json \<Rightarrow> bool" where
  "is_ordered_by s orderby order \<longleftrightarrow>
     obj_get (params s) ''orderby'' = Some orderby \<and> obj_get (params s) ''order'' = Some order"

text \<open>
  \<^verbatim>\<open>setMetaFilter\<close> (lines 518-523): \<^verbatim>\<open>Vue.set\<close> adds a new key reactively and
  notifies; on an existing key it assigns through the key's setter, which
  notifies only if the key is reactive.
\<close>

definition set_meta_filter :: "env \<Rightarrow> rl_state \<Rightarrow> string \<Rightarrow> json \<Rightarrow> js_error + rl_state" where
  "set_meta_filter e s field value =
     (if \<not> global_vue e then Inl ReferenceError
      else case obj_get (params s) ''meta_query'' of
        Some (JObj mq) \<Rightarrow>
          (let fresh = field \<notin> set (obj_keys mq);
               mq' = obj_set mq field (JObj [(''field'', JStr field), (''value'', value)])
           in Inr (s\<lparr>params := obj_set (params s) ''meta_query'' (JObj mq'),
                    mq_reactive := (if fresh then mq_reactive s @ [field] else mq_reactive s),
                    dirty := dirty s \<or> (''meta_query'' \<in> set (reactive s) \<and>
                                         (fresh \<or> field \<in> set (mq_reactive s)))\<rparr>))
      | None \<Rightarrow> Inl TypeError
      | Some JNull \<Rightarrow> Inl TypeError
      | Some _ \<Rightarrow> Inl OutOfModel)"

text \<open>\<^verbatim>\<open>removeMetaFilter\<close> (lines 529-531): \<^verbatim>\<open>Vue.delete\<close> of an existing key notifies.\<close>

definition remove_meta_filter :: "env \<Rightarrow> rl_state \<Rightarrow> string \<Rightarrow> js_error + rl_state" where
  "remove_meta_filter e s field =
     (if \<not> global_vue e then Inl ReferenceError
      else case obj_get (params s) ''meta_query'' of
        Some (JObj mq) \<Rightarrow>
          if field \<in> set (obj_keys mq) then
            Inr (s\<lparr>params := obj_set (params s) ''meta_query'' (JObj (obj_del mq field)),
                   mq_reactive := filter (\<lambda>k. k \<noteq> field) (mq_reactive s),
                   dirty := dirty s \<or> ''meta_query'' \<in> set (reactive s)\<rparr>)
          else Inr s
      | None \<Rightarrow> Inl TypeError
      | Some JNull \<Rightarrow> Inl TypeError
      | Some (JNum n) \<Rightarrow> Inr s
      | Some (JBool b) \<Rightarrow> Inr s
      | Some _ \<Rightarrow> Inl OutOfModel)"

text \<open>
  \<^verbatim>\<open>clearMetaFilters\<close> (lines 536-538) reads the undeclared identifier
  \<^verbatim>\<open>meta_query\<close>, which throws in a module.
\<close>

definition clear_meta_filters :: "rl_state \<Rightarrow> js_error + rl_state" where
  "clear_meta_filters s = Inl ReferenceError"

definition reset :: "config \<Rightarrow> rl_state \<Rightarrow> rl_state" where
  "reset cfg s = replace_params s (reset_params cfg)"

datatype action =
    SelectPage json
  | SetSearch json
  | ResetTerms string
  | AddTerms string json
  | RemoveTerms string json
  | SetTerms string json
  | SetOrder json
  | SetOrderBy json
  | SelectOrderBy json "json option"
  | ToggleOrder
  | SetMetaFilter string json
  | RemoveMetaFilter string
  | ClearMetaFilters
  | Reset

fun run_action :: "config \<Rightarrow> env \<Rightarrow> rl_state \<Rightarrow> action \<Rightarrow> js_error + rl_state" where
  "run_action cfg e s (SelectPage p) = Inr (select_page s p)"
| "run_action cfg e s (SetSearch q) = Inr (set_search s q)"
| "run_action cfg e s (ResetTerms t) = Inr (reset_terms s t)"
| "run_action cfg e s (AddTerms t ts) = add_terms s t ts"
| "run_action cfg e s (RemoveTerms t ts) = remove_terms s t ts"
| "run_action cfg e s (SetTerms t ts) = set_terms s t ts"
| "run_action cfg e s (SetOrder o') = set_order s o'"
| "run_action cfg e s (SetOrderBy ob) = Inr (set_orderby s ob)"
| "run_action cfg e s (SelectOrderBy ob d) = select_orderby s ob d"
| "run_action cfg e s ToggleOrder = toggle_order s"
| "run_action cfg e s (SetMetaFilter f v) = set_meta_filter e s f v"
| "run_action cfg e s (RemoveMetaFilter f) = remove_meta_filter e s f"
| "run_action cfg e s ClearMetaFilters = clear_meta_filters s"
| "run_action cfg e s Reset = Inr (reset cfg s)"

text \<open>Method calls made in one task; an exception ends the task and is reported.\<close>

fun run_actions :: "config \<Rightarrow> env \<Rightarrow> rl_state \<Rightarrow> action list \<Rightarrow> js_error option \<times> rl_state" where
  "run_actions cfg e s [] = (None, s)"
| "run_actions cfg e s (a # as) =
     (case run_action cfg e s a of
        Inl err \<Rightarrow> (Some err, s)
      | Inr s' \<Rightarrow> run_actions cfg e s' as)"

subsection \<open>The watcher\<close>

text \<open>
  Whether the assignment \<^verbatim>\<open>query_params.meta_query.relation = 'AND'\<close> notifies:
  only when \<^verbatim>\<open>relation\<close> is already a reactive key holding another value.
\<close>

definition relation_notify :: "rl_state \<Rightarrow> bool" where
  "relation_notify s =
     (case obj_get (params s) ''meta_query'' of
        Some (JObj mq) \<Rightarrow>
          mq \<noteq> [] \<and> ''meta_query'' \<in> set (reactive s) \<and> ''relation'' \<in> set (mq_reactive s) \<and>
          obj_get mq ''relation'' \<noteq> Some (JStr ''AND'')
      | _ \<Rightarrow> False)"

text \<open>
  The synchronous part of \<^verbatim>\<open>__fetchData\<close>: set \<^verbatim>\<open>loading\<close>, dispatch the
  \<^verbatim>\<open>loading\<close> event, build the URL (which may throw into the \<^verbatim>\<open>catch\<close>) and
  send the request.
\<close>

definition fetch_data :: "config \<Rightarrow> rl_state \<Rightarrow> rl_state" where
  "fetch_data cfg s =
     (let s1 = s\<lparr>loading := True, events := events s @ [RootEvent ''loading'']\<rparr> in
      case construct_url (post_type cfg) (meta_fields cfg) (params s1) of
        Inl err \<Rightarrow> s1\<lparr>error := Some err, loading := False\<rparr>
      | Inr (req, p') \<Rightarrow>
          s1\<lparr>params := p', dirty := dirty s1 \<or> relation_notify s1,
             pending := pending s1 @ [(next_request s1, req)],
             next_request := Suc (next_request s1),
             events := events s1 @ [FetchStarted (next_request s1) req]\<rparr>)"

text \<open>\<^verbatim>\<open>__pushHistoryState\<close> (lines 636-638) with the URL of line 653.\<close>

definition push_history :: "env \<Rightarrow> rl_state \<Rightarrow> rl_state" where
  "push_history e s =
     (let url = pathname e @ CHR ''?'' # serialize_params (params s);
          h = history s
      in s\<lparr>history := \<lparr>entries = take (Suc (hindex h)) (entries h) @ [HEntry url (Some (params s))],
                        hindex = Suc (hindex h)\<rparr>,
           events := events s @ [HistoryPushed url]\<rparr>)"

text \<open>
  The watcher handler.  If \<^verbatim>\<open>created\<close> threw before \<^verbatim>\<open>__initHistory\<close>,
  \<^verbatim>\<open>this.__history\<close> is undefined and the push throws, ending the handler.
\<close>

definition watch_params :: "config \<Rightarrow> env \<Rightarrow> rl_state \<Rightarrow> rl_state" where
  "watch_params cfg e s =
     (let s1 = (if \<not> page_updated s then assign_param s ''pagenum'' (JNum 1) else s);
          s2 = fetch_data cfg s1;
          s3 = s2\<lparr>page_updated := False\<rparr>
      in if \<not> suppress_history s3 \<and> \<not> history_ready s3 then s3
         else
           (let s4 = (if \<not> suppress_history s3 then push_history e s3 else s3);
                s5 = s4\<lparr>suppress_history := False\<rparr>
            in s5\<lparr>events := events s5 @ [ParamsChanged]\<rparr>))"

text \<open>Vue's scheduler: run the queued watcher until it is no longer re-queued.\<close>

definition max_update_count :: nat where
  "max_update_count = 100"

fun flush_watcher :: "config \<Rightarrow> env \<Rightarrow> nat \<Rightarrow> rl_state \<Rightarrow> rl_state" where
  "flush_watcher cfg e 0 s = s"
| "flush_watcher cfg e (Suc n) s =
     (if dirty s then flush_watcher cfg e n (watch_params cfg e (s\<lparr>dirty := False\<rparr>)) else s)"

definition flush :: "config \<Rightarrow> env \<Rightarrow> rl_state \<Rightarrow> rl_state" where
  "flush cfg e s = flush_watcher cfg e max_update_count s"

subsection \<open>Responses, navigation, creation\<close>

text \<open>The continuation of \<^verbatim>\<open>__fetchData\<close> (lines 299-313) for request \<open>i\<close>.\<close>

definition respond :: "rl_state \<Rightarrow> nat \<Rightarrow> fetch_outcome \<Rightarrow> rl_state" where
  "respond s i outcome =
     (let s1 = s\<lparr>pending := filter (\<lambda>(j, _). j \<noteq> i) (pending s)\<rparr> in
      case outcome of
        NetworkError \<Rightarrow> s1\<lparr>error := Some FetchFailed, loading := False\<rparr>
      | BadJson \<Rightarrow> s1\<lparr>error := Some SyntaxError, loading := False\<rparr>
      | Response body t tp \<Rightarrow>
          (let s2 = s1\<lparr>wp_data := body, total := t, total_pages := tp, loading := False\<rparr> in
           if is_initial_load s2 then s2\<lparr>events := events s2 @ [InitialLoad], is_initial_load := False\<rparr>
           else s2))"

text \<open>The history listener on a \<^verbatim>\<open>POP\<close> to entry \<open>j\<close> (lines 619-629).\<close>

definition pop_listener :: "config \<Rightarrow> rl_state \<Rightarrow> nat \<Rightarrow> rl_state" where
  "pop_listener cfg s j =
     (let s1 = s\<lparr>history := (history s)\<lparr>hindex := j\<rparr>, suppress_history := True\<rparr> in
      case entries (history s) ! j of
        HEntry url (Some st) \<Rightarrow> replace_params (s1\<lparr>page_updated := True\<rparr>) st
      | HEntry url None \<Rightarrow> reset cfg s1)"

text \<open>
  A back/forward navigation to entry \<open>j\<close>: the listener runs if it was
  installed, and the watcher flush follows.
\<close>

definition navigate :: "config \<Rightarrow> env \<Rightarrow> rl_state \<Rightarrow> nat \<Rightarrow> rl_state" where
  "navigate cfg e s j =
     (if history_ready s then flush cfg e (pop_listener cfg s j)
      else s\<lparr>history := (history s)\<lparr>hindex := j\<rparr>\<rparr>)"

text \<open>
  \<^verbatim>\<open>created\<close> (lines 667-683).  With a query string it calls \<^verbatim>\<open>_.merge\<close>;
  an exception leaves the component with the state reached so far.
\<close>

definition created :: "config \<Rightarrow> env \<Rightarrow> js_error option \<times> rl_state" where
  "created cfg e =
     (let s0 = (data_init e)\<lparr>page_updated := True, suppress_history := True, is_initial_load := True\<rparr>;
          done = (\<lambda>s. s\<lparr>events := events s @ [AfterCreated]\<rparr>)
      in if search e = [] then (None, done ((reset cfg s0)\<lparr>history_ready := True\<rparr>))
         else if \<not> global_lodash e then (Some ReferenceError, s0)
         else case unserialize_params (search e) of
                Inl err \<Rightarrow> (Some err, s0)
              | Inr up \<Rightarrow>
                  (None, done ((replace_params s0 (lmerge_obj (initial_params cfg) up))\<lparr>history_ready := True\<rparr>)))"

definition initial_state :: "config \<Rightarrow> env \<Rightarrow> rl_state" where
  "initial_state cfg e = flush cfg e (snd (created cfg e))"

subsection \<open>Steps and reachable states\<close>

inductive rl_step :: "config \<Rightarrow> env \<Rightarrow> rl_state \<Rightarrow> rl_state \<Rightarrow> bool" for cfg e where
  user_task: "rl_step cfg e s (flush cfg e (snd (run_actions cfg e s as)))"
| navigate: "j < length (entries (history s)) \<Longrightarrow> j \<noteq> hindex (history s) \<Longrightarrow>
     rl_step cfg e s (navigate cfg e s j)"
| response: "i \<in> fst ` set (pending s) \<Longrightarrow> rl_step cfg e s (respond s i outcome)"

inductive reachable :: "config \<Rightarrow> env \<Rightarrow> rl_state \<Rightarrow> bool" for cfg e where
  init: "reachable cfg e (initial_state cfg e)"
| step: "reachable cfg e s \<Longrightarrow> rl_step cfg e s t \<Longrightarrow> reachable cfg e t"

subsection \<open>Requests and single watcher runs\<close>

lemma construct_url_Inr_E:
  assumes "construct_url pt mf p = Inr (r, p')"
  obtains qp where "query_params mf p = Inr (qp, p')"
    and "req_args r = [(''context'', ''embed''), (''_embed'', ''1'')] @ map (\<lambda>(k, v). (k, js_to_string v)) qp"
  using assms by (auto simp: construct_url_def split: sum.splits)

lemma construct_url_arg:
  assumes "construct_url pt mf p = Inr (r, p')" and "query_params mf p = Inr (qp, p')"
    and "obj_get qp k = Some v"
  shows "(k, js_to_string v) \<in> set (req_args r)"
proof -
  from assms(3) have "(k, v) \<in> set qp" by (simp add: obj_get_def map_of_SomeD)
  with assms(1,2) show ?thesis
    by (auto elim!: construct_url_Inr_E)
qed

lemma construct_url_page_arg:
  assumes c: "construct_url pt mf p = Inr (r, p')"
    and n: "obj_get p ''pagenum'' = Some n" and t: "js_truthy n"
  shows "(''page'', js_to_string n) \<in> set (req_args r)"
proof -
  from c obtain qp where q: "query_params mf p = Inr (qp, p')"
    by (elim construct_url_Inr_E)
  have "obj_get qp ''page'' = Some n"
    using query_params_page_keys [OF q, of "''page''"] rename_pagenum_truthy [OF n t] by simp
  with c q show ?thesis by (rule construct_url_arg)
qed

lemma relation_notify_iff:
  "relation_notify s \<longleftrightarrow>
   (\<exists>mq. obj_get (params s) ''meta_query'' = Some (JObj mq) \<and> mq \<noteq> [] \<and>
     ''meta_query'' \<in> set (reactive s) \<and> ''relation'' \<in> set (mq_reactive s) \<and>
     obj_get mq ''relation'' \<noteq> Some (JStr ''AND''))"
  by (simp add: relation_notify_def split: option.splits json.splits)

lemma fetch_data_Inl:
  "construct_url (post_type cfg) (meta_fields cfg) (params s) = Inl err \<Longrightarrow>
   fetch_data cfg s = s\<lparr>loading := False, events := events s @ [RootEvent ''loading''], error := Some err\<rparr>"
  by (simp add: fetch_data_def)

lemma fetch_data_Inr:
  "construct_url (post_type cfg) (meta_fields cfg) (params s) = Inr (req, p') \<Longrightarrow>
   fetch_data cfg s = s\<lparr>loading := True, events := events s @ [RootEvent ''loading'', FetchStarted (next_request s) req],
      params := p', dirty := dirty s \<or> relation_notify s,
      pending := pending s @ [(next_request s, req)], next_request := Suc (next_request s)\<rparr>"
  by (simp add: fetch_data_def relation_notify_iff Let_def)

lemma fetch_data_frame [simp]:
  "page_updated (fetch_data cfg s) = page_updated s \<and> suppress_history (fetch_data cfg s) = suppress_history s \<and>
   history (fetch_data cfg s) = history s \<and> history_ready (fetch_data cfg s) = history_ready s \<and>
   reactive (fetch_data cfg s) = reactive s \<and> mq_reactive (fetch_data cfg s) = mq_reactive s"
  by (simp add: fetch_data_def Let_def split: sum.splits prod.splits)

lemma fetch_data_new_fetch:
  "FetchStarted i r \<in> set (events (fetch_data cfg s)) \<Longrightarrow> FetchStarted i r \<notin> set (events s) \<Longrightarrow>
   \<exists>p'. construct_url (post_type cfg) (meta_fields cfg) (params s) = Inr (r, p')"
  by (auto simp: fetch_data_def Let_def split: sum.splits)

lemma push_history_frame [simp]:
  "params (push_history e s) = params s \<and> pending (push_history e s) = pending s \<and>
   dirty (push_history e s) = dirty s"
  by (simp add: push_history_def Let_def)

lemma push_history_events: "events (push_history e s) = events s @ [HistoryPushed (pathname e @ CHR ''?'' # serialize_params (params s))]"
  by (simp add: push_history_def Let_def)


lemma watch_params_fetch:
  assumes "FetchStarted i r \<in> set (events (watch_params cfg e s))" and "FetchStarted i r \<notin> set (events s)"
  shows "\<exists>p'. construct_url (post_type cfg) (meta_fields cfg)
                (params (if \<not> page_updated s then assign_param s ''pagenum'' (JNum 1) else s)) = Inr (r, p')"
proof -
  let ?s1 = "if \<not> page_updated s then assign_param s ''pagenum'' (JNum 1) else s"
  have ev1: "events ?s1 = events s" by (simp add: assign_param_def split: prod.splits)
  have "set (events (watch_params cfg e s)) \<subseteq> set (events (fetch_data cfg ?s1)) \<union> {ParamsChanged} \<union> range HistoryPushed"
    by (auto simp: watch_params_def Let_def push_history_events)
  with assms have "FetchStarted i r \<in> set (events (fetch_data cfg ?s1))" by auto
  with assms(2) ev1 show ?thesis by (metis fetch_data_new_fetch)
qed



lemma assign_param_eq:
  "assign_param s k v = s\<lparr>params := obj_set (params s) k v,
     dirty := dirty s \<or> (k \<in> set (reactive s) \<and> setter_changes (obj_get (params s) k) v)\<rparr>"
  by (simp add: assign_param_def vue_assign_def)

lemma assign_param_same:
  "obj_get (params s) k = Some v \<Longrightarrow> \<not> is_object v \<Longrightarrow> assign_param s k v = s"
  by (simp add: assign_param_eq setter_changes_def obj_simps)

lemma watch_params_core:
  assumes "s1 = (if \<not> page_updated s then assign_param s ''pagenum'' (JNum 1) else s)"
  shows "params (watch_params cfg e s) = params (fetch_data cfg s1) \<and>
         dirty (watch_params cfg e s) = dirty (fetch_data cfg s1) \<and>
         reactive (watch_params cfg e s) = reactive s \<and> mq_reactive (watch_params cfg e s) = mq_reactive s \<and>
         \<not> page_updated (watch_params cfg e s)"
  using assms by (simp add: watch_params_def Let_def push_history_def assign_param_eq)

lemma construct_url_params:
  assumes "construct_url pt mf p = Inr (r, p')"
  shows "obj_get p' ''pagenum'' = obj_get p ''pagenum'' \<and>
         (case obj_get p' ''meta_query'' of
            Some (JObj mq) \<Rightarrow> mq = [] \<or> obj_get mq ''relation'' = Some (JStr ''AND'')
          | _ \<Rightarrow> True)"
proof -
  from assms obtain qp where q: "query_params mf p = Inr (qp, p')" by (elim construct_url_Inr_E)
  then obtain qp0 where r: "resolve_orderby mf (obj_get p ''orderby'') (rename_pagenum p) = Inr qp0"
    and a: "add_relation qp0 p = Inr (qp, p')" by (elim query_params_Inr_E)
  have pn: "obj_get p' ''pagenum'' = obj_get p ''pagenum''"
    using query_params_get_other [OF q] by simp
  have mq0: "obj_get qp0 ''meta_query'' = obj_get p ''meta_query''"
    using resolve_orderby_get_other [OF r, of "''meta_query''"] rename_pagenum_get_other [of "''meta_query''"] by simp
  have "case obj_get p' ''meta_query'' of
            Some (JObj mq) \<Rightarrow> mq = [] \<or> obj_get mq ''relation'' = Some (JStr ''AND'')
          | _ \<Rightarrow> True"
    using a mq0 by (cases "obj_get p ''meta_query''" rule: keys_count.cases)
      (auto simp: add_relation_def Let_def obj_simps split: if_splits sum.splits json.splits option.splits)
  with pn show ?thesis by simp
qed

lemma fetch_data_quiet:
  assumes "construct_url (post_type cfg) (meta_fields cfg) (params s) = Inr (r, p')"
  shows "\<not> relation_notify (fetch_data cfg s)"
  using construct_url_params [OF assms]
  by (auto simp: fetch_data_Inr [OF assms] relation_notify_iff)

lemma fetch_data_pagenum:
  "obj_get (params (fetch_data cfg s)) ''pagenum'' = obj_get (params s) ''pagenum''"
  by (cases "construct_url (post_type cfg) (meta_fields cfg) (params s)")
     (auto simp: fetch_data_Inl fetch_data_Inr dest: construct_url_params)



lemma construct_url_idem:
  assumes "construct_url pt mf p = Inr (r, p')"
  shows "\<exists>r2. construct_url pt mf p' = Inr (r2, p')"
proof -
  from assms obtain qp where "query_params mf p = Inr (qp, p')" by (elim construct_url_Inr_E)
  then obtain qp2 where "query_params mf p' = Inr (qp2, p')" using query_params_idem by blast
  then show ?thesis by (simp add: construct_url_def)
qed

lemma watch_params_ready_run:
  assumes s1: "s1 = (if \<not> page_updated s then assign_param s ''pagenum'' (JNum 1) else s)"
    and rdy: "history_ready s" and ns: "\<not> suppress_history s"
    and c: "construct_url (post_type cfg) (meta_fields cfg) (params s1) = Inr (r, p')"
  shows "events (watch_params cfg e s) = events s @
           [RootEvent ''loading'', FetchStarted (next_request s) r,
            HistoryPushed (pathname e @ CHR ''?'' # serialize_params p'), ParamsChanged] \<and>
         params (watch_params cfg e s) = p' \<and> next_request (watch_params cfg e s) = Suc (next_request s) \<and>
         history_ready (watch_params cfg e s) \<and> \<not> suppress_history (watch_params cfg e s) \<and>
         \<not> page_updated (watch_params cfg e s) \<and>
         reactive (watch_params cfg e s) = reactive s \<and> mq_reactive (watch_params cfg e s) = mq_reactive s \<and>
         dirty (watch_params cfg e s) = (dirty s1 \<or> relation_notify s1) \<and>
         history (watch_params cfg e s) =
           \<lparr>entries = take (Suc (hindex (history s))) (entries (history s)) @
              [HEntry (pathname e @ CHR ''?'' # serialize_params p') (Some p')],
            hindex = Suc (hindex (history s))\<rparr>"
proof -
  have f: "fetch_data cfg s1 = s1\<lparr>loading := True, events := events s1 @ [RootEvent ''loading'', FetchStarted (next_request s1) r],
      params := p', dirty := dirty s1 \<or> relation_notify s1,
      pending := pending s1 @ [(next_request s1, r)], next_request := Suc (next_request s1)\<rparr>"
    by (rule fetch_data_Inr [OF c])
  have "events s1 = events s \<and> next_request s1 = next_request s \<and> history_ready s1 \<and> \<not> suppress_history s1 \<and>
        reactive s1 = reactive s \<and> mq_reactive s1 = mq_reactive s \<and> history s1 = history s"
    using s1 rdy ns by (simp add: assign_param_eq)
  then show ?thesis
    unfolding watch_params_def Let_def s1 [symmetric] by (simp add: f push_history_def Let_def)
qed


lemma watch_params_suppressed_run:
  assumes s1: "s1 = (if \<not> page_updated s then assign_param s ''pagenum'' (JNum 1) else s)"
    and sup: "suppress_history s"
    and c: "construct_url (post_type cfg) (meta_fields cfg) (params s1) = Inr (r, p')"
  shows "events (watch_params cfg e s) = events s @ [RootEvent ''loading'', FetchStarted (next_request s) r, ParamsChanged] \<and>
         params (watch_params cfg e s) = p' \<and> next_request (watch_params cfg e s) = Suc (next_request s) \<and>
         history (watch_params cfg e s) = history s \<and> history_ready (watch_params cfg e s) = history_ready s \<and>
         \<not> suppress_history (watch_params cfg e s) \<and> \<not> page_updated (watch_params cfg e s) \<and>
         reactive (watch_params cfg e s) = reactive s \<and> mq_reactive (watch_params cfg e s) = mq_reactive s \<and>
         dirty (watch_params cfg e s) = (dirty s1 \<or> relation_notify s1)"
proof -
  have f: "fetch_data cfg s1 = s1\<lparr>loading := True, events := events s1 @ [RootEvent ''loading'', FetchStarted (next_request s1) r],
      params := p', dirty := dirty s1 \<or> relation_notify s1,
      pending := pending s1 @ [(next_request s1, r)], next_request := Suc (next_request s1)\<rparr>"
    by (rule fetch_data_Inr [OF c])
  have "events s1 = events s \<and> next_request s1 = next_request s \<and> history_ready s1 = history_ready s \<and>
        suppress_history s1 \<and> reactive s1 = reactive s \<and> mq_reactive s1 = mq_reactive s \<and> history s1 = history s"
    using s1 sup by (simp add: assign_param_eq)
  then show ?thesis
    unfolding watch_params_def Let_def s1 [symmetric] by (simp add: f)
qed

lemma fixed_point_quiet:
  "construct_url (post_type cfg) (meta_fields cfg) (params s) = Inr (r, params s) \<Longrightarrow> \<not> relation_notify s"
  by (drule construct_url_params) (auto simp: relation_notify_iff)

lemma reset_params_pagenum:
  "''pagenum'' \<notin> set (obj_keys (initial_taxonomies cfg)) \<Longrightarrow>
   obj_get (reset_params cfg) ''pagenum'' = Some (JNum (initial_page cfg))"
  by (simp add: reset_params_def lmerge_obj_get_other) (simp add: initial_params_def obj_get_def)

lemma page_one_arg:
  "construct_url pt mf p = Inr (r, p') \<Longrightarrow> obj_get p ''pagenum'' = Some (JNum 1) \<Longrightarrow> (''page'', ''1'') \<in> set (req_args r)"
  using construct_url_page_arg [of pt mf p r p' "JNum 1"] by (simp add: int_to_dec_def nat_to_dec.simps digit_char_def)

text \<open>
  A second run of the watcher after a run whose request was built from
  parameters on page 1: the page is left alone, the same parameters are sent
  again and pushed again, and the watcher is not re-queued.
\<close>

lemma rerun_after_fetch:
  fixes a w :: rl_state
  assumes ca: "construct_url (post_type cfg) (meta_fields cfg) (params a) = Inr (r, p')"
    and pa: "obj_get (params a) ''pagenum'' = Some (JNum 1)"
    and w: "params w = p'" "reactive w = reactive a" "mq_reactive w = mq_reactive a"
      "history_ready w" "\<not> suppress_history w" "\<not> page_updated w"
  shows "\<exists>r2. events (watch_params cfg e (w\<lparr>dirty := False\<rparr>)) = events w @
             [RootEvent ''loading'', FetchStarted (next_request w) r2,
              HistoryPushed (pathname e @ CHR ''?'' # serialize_params p'), ParamsChanged] \<and>
           \<not> dirty (watch_params cfg e (w\<lparr>dirty := False\<rparr>)) \<and>
           history (watch_params cfg e (w\<lparr>dirty := False\<rparr>)) =
             \<lparr>entries = take (Suc (hindex (history w))) (entries (history w)) @
                [HEntry (pathname e @ CHR ''?'' # serialize_params p') (Some p')],
              hindex = Suc (hindex (history w))\<rparr> \<and>
           (''page'', ''1'') \<in> set (req_args r2)"
proof -
  let ?s1 = "w\<lparr>dirty := False\<rparr>"
  have pn: "obj_get p' ''pagenum'' = Some (JNum 1)"
    using construct_url_params [OF ca] pa by simp
  have same: "assign_param ?s1 ''pagenum'' (JNum 1) = ?s1"
    using pn w by (simp add: assign_param_same)
  obtain r2 where c2: "construct_url (post_type cfg) (meta_fields cfg) p' = Inr (r2, p')"
    using construct_url_idem [OF ca] by blast
  have quiet: "\<not> relation_notify ?s1"
    using fetch_data_quiet [OF ca] w fetch_data_Inr [OF ca] by (simp add: relation_notify_iff)
  show ?thesis
    using watch_params_ready_run [OF refl, where s = ?s1 and cfg = cfg and e = e and r = r2 and p' = p']
      w same c2 quiet page_one_arg [OF c2 pn]
    by auto
qed

lemma construct_url_other_arg:
  assumes c: "construct_url pt mf p = Inr (r, p')" and v: "obj_get p k = Some v"
    and k: "k \<notin> {''page'', ''pagenum'', ''orderby'', ''meta_key'', ''meta_query''}"
  shows "(k, js_to_string v) \<in> set (req_args r)"
proof -
  from c obtain qp where q: "query_params mf p = Inr (qp, p')" by (elim construct_url_Inr_E)
  then obtain qp0 where r: "resolve_orderby mf (obj_get p ''orderby'') (rename_pagenum p) = Inr qp0"
    and a: "add_relation qp0 p = Inr (qp, p')" by (elim query_params_Inr_E)
  have "obj_get qp k = Some v"
    using add_relation_get_other [OF a, of k] resolve_orderby_get_other [OF r, of k]
      rename_pagenum_get_other [of k p] k v by simp
  with c q show ?thesis by (rule construct_url_arg)
qed

end
