(* ===== verification/Watcher.thy ===== *)
theory Watcher
  imports Component
begin

text \<open>
  The scheduling of the deep \<^verbatim>\<open>params\<close> watcher and the invariant of the
  component's reachable states.  \<open>watcher_settled\<close> describes a state from
  which one more run of the watcher cannot re-queue it; the lemmas show that
  any state is settled after at most two runs, so a flush ends after three.
  \<open>rl_inv\<close> is the invariant kept by every step of \<open>rl_step\<close>.
\<close>

text \<open>
  The watcher is settled when its next run can neither reset the page nor
  re-notify through \<^verbatim>\<open>meta_query.relation\<close>: the page is already 1 and
  either the relation assignment is silent or the request cannot be built.
\<close>

definition watcher_settled :: "config \<Rightarrow> rl_state \<Rightarrow> bool" where
  "watcher_settled cfg s \<longleftrightarrow>
     \<not> page_updated s \<and> obj_get (params s) ''pagenum'' = Some (JNum 1) \<and>
     (\<not> relation_notify s \<or> isl (construct_url (post_type cfg) (meta_fields cfg) (params s)))"

text \<open>The invariant of reachable states.\<close>

definition pending_ok :: "rl_state \<Rightarrow> bool" where
  "pending_ok s \<longleftrightarrow> distinct (map fst (pending s)) \<and> (\<forall>i \<in> set (map fst (pending s)). i < next_request s)"

definition history_ok :: "rl_state \<Rightarrow> bool" where
  "history_ok s \<longleftrightarrow> hindex (history s) < length (entries (history s))"

definition rl_inv :: "rl_state \<Rightarrow> bool" where
  "rl_inv s \<longleftrightarrow> \<not> dirty s \<and> history_ok s \<and> pending_ok s \<and> (history_ready s \<longrightarrow> \<not> suppress_history s)"

text \<open>A page in its initial state, used by the witnesses below.\<close>

definition example_env :: env where
  "example_env = \<lparr>pathname = ''/library'', search = [], global_vue = True, global_lodash = True\<rparr>"

definition example_params :: "json obj" where
  "example_params =
     [(''per_page'', JNum 10), (''search'', JStr []), (''order'', JStr ''desc''), (''orderby'', JStr ''date''),
      (''pagenum'', JNum 3), (''meta_query'', JObj []), (''ver'', JNum 1)]"

definition example_state :: rl_state where
  "example_state =
     (data_init example_env)\<lparr>params := example_params, reactive := obj_keys example_params,
        loading := False, history_ready := True\<rparr>"

subsection \<open>The page reset\<close>

text \<open>
  C3: a watcher run that follows a change other than \<^verbatim>\<open>selectPage\<close> (the
  one-shot flag \<^verbatim>\<open>__page_updated\<close> is false) sends its request for page 1.
\<close>

theorem watch_params_resets_page:
  assumes "\<not> page_updated s"
    and "FetchStarted i r \<in> set (events (watch_params cfg e s))" and "FetchStarted i r \<notin> set (events s)"
  shows "(''page'', ''1'') \<in> set (req_args r)"
proof -
  obtain p' where c: "construct_url (post_type cfg) (meta_fields cfg) (params (assign_param s ''pagenum'' (JNum 1))) = Inr (r, p')"
    using watch_params_fetch [OF assms(2,3)] assms(1) by auto
  have "obj_get (params (assign_param s ''pagenum'' (JNum 1))) ''pagenum'' = Some (JNum 1)"
    by (simp add: assign_param_def vue_assign_def obj_simps)
  from construct_url_page_arg [OF c this] show ?thesis
    by (simp add: int_to_dec_def nat_to_dec.simps digit_char_def)
qed


subsection \<open>The flush settles\<close>

lemma watch_params_settles:
  assumes "\<not> page_updated s"
  shows "watcher_settled cfg (watch_params cfg e s)"
proof -
  let ?s1 = "assign_param s ''pagenum'' (JNum 1)"
  have core: "params (watch_params cfg e s) = params (fetch_data cfg ?s1)"
     "reactive (watch_params cfg e s) = reactive ?s1" "mq_reactive (watch_params cfg e s) = mq_reactive ?s1"
     "\<not> page_updated (watch_params cfg e s)"
    using watch_params_core [OF refl, where s=s and cfg=cfg and e=e] assms by (simp_all add: assign_param_eq)
  have pn: "obj_get (params (fetch_data cfg ?s1)) ''pagenum'' = Some (JNum 1)"
    by (simp add: fetch_data_pagenum assign_param_eq obj_simps)
  show ?thesis
  proof (cases "construct_url (post_type cfg) (meta_fields cfg) (params ?s1)")
    case (Inl err)
    then show ?thesis using core pn by (simp add: watcher_settled_def fetch_data_Inl)
  next
    case (Inr rp)
    then obtain r p' where c: "construct_url (post_type cfg) (meta_fields cfg) (params ?s1) = Inr (r, p')"
      by (cases rp) auto
    have "\<not> relation_notify (watch_params cfg e s)"
      using fetch_data_quiet [OF c] core by (simp add: relation_notify_iff)
    then show ?thesis using core pn by (simp add: watcher_settled_def)
  qed
qed

lemma watch_params_settled:
  assumes st: "watcher_settled cfg s" and d: "\<not> dirty s"
  shows "\<not> dirty (watch_params cfg e s) \<and> watcher_settled cfg (watch_params cfg e s)"
proof -
  have s1: "assign_param s ''pagenum'' (JNum 1) = s"
    using st by (simp add: watcher_settled_def assign_param_same)
  have dw: "dirty (watch_params cfg e s) = dirty (fetch_data cfg s)"
    using watch_params_core [OF refl, where s=s and cfg=cfg and e=e] st s1 by (simp add: watcher_settled_def)
  have "\<not> dirty (fetch_data cfg s)"
  proof (cases "construct_url (post_type cfg) (meta_fields cfg) (params s)")
    case (Inl err)
    then show ?thesis using d by (simp add: fetch_data_Inl)
  next
    case (Inr rp)
    then obtain r p' where c: "construct_url (post_type cfg) (meta_fields cfg) (params s) = Inr (r, p')"
      by (cases rp) auto
    then show ?thesis using d st by (simp add: fetch_data_Inr watcher_settled_def)
  qed
  moreover have "watcher_settled cfg (watch_params cfg e s)"
    using watch_params_settles st by (simp add: watcher_settled_def)
  ultimately show ?thesis using dw by simp
qed

lemma flush_watcher_clean: "\<not> dirty s \<Longrightarrow> flush_watcher cfg e n s = s"
  by (cases n) simp_all

lemma flush_watcher_settled:
  "watcher_settled cfg s \<Longrightarrow> \<not> dirty (flush_watcher cfg e (Suc n) s)"
proof (cases "dirty s")
  case True
  assume st: "watcher_settled cfg s"
  have "watcher_settled cfg (s\<lparr>dirty := False\<rparr>)" using st by (simp add: watcher_settled_def relation_notify_iff)
  then have "\<not> dirty (watch_params cfg e (s\<lparr>dirty := False\<rparr>))"
    using watch_params_settled by simp
  then show ?thesis using True by (simp add: flush_watcher_clean)
qed (simp add: flush_watcher_clean)

lemma flush_watcher_no_page:
  "\<not> page_updated s \<Longrightarrow> \<not> dirty (flush_watcher cfg e (Suc (Suc n)) s)"
proof (cases "dirty s")
  case True
  assume "\<not> page_updated s"
  then have "watcher_settled cfg (watch_params cfg e (s\<lparr>dirty := False\<rparr>))"
    using watch_params_settles by simp
  then show ?thesis using True flush_watcher_settled by simp
qed (simp add: flush_watcher_clean)

lemma flush_watcher_three: "\<not> dirty (flush_watcher cfg e (Suc (Suc (Suc n))) s)"
proof (cases "dirty s")
  case True
  have "\<not> page_updated (watch_params cfg e (s\<lparr>dirty := False\<rparr>))"
    using watch_params_core [OF refl] by blast
  then show ?thesis using True flush_watcher_no_page by simp
qed (simp add: flush_watcher_clean)

lemma flush_watcher_done:
  "\<not> dirty (flush_watcher cfg e m s) \<Longrightarrow> m \<le> n \<Longrightarrow> flush_watcher cfg e n s = flush_watcher cfg e m s"
proof (induction m arbitrary: n s)
  case 0
  then show ?case by (simp add: flush_watcher_clean)
next
  case (Suc m)
  then obtain n' where n: "n = Suc n'" and mn: "m \<le> n'" by (cases n) auto
  show ?case
  proof (cases "dirty s")
    case True
    then show ?thesis using Suc.IH [of "watch_params cfg e (s\<lparr>dirty := False\<rparr>)" n'] Suc.prems n mn by simp
  next
    case False
    then show ?thesis using n by simp
  qed
qed

lemma flush_one_run:
  "dirty s \<Longrightarrow> \<not> dirty (watch_params cfg e (s\<lparr>dirty := False\<rparr>)) \<Longrightarrow>
   flush cfg e s = watch_params cfg e (s\<lparr>dirty := False\<rparr>)"
  using flush_watcher.simps(2) [of cfg e 99 s] by (simp add: flush_def max_update_count_def flush_watcher_clean)

lemma flush_two_runs:
  "dirty s \<Longrightarrow> dirty (watch_params cfg e (s\<lparr>dirty := False\<rparr>)) \<Longrightarrow>
   \<not> dirty (watch_params cfg e ((watch_params cfg e (s\<lparr>dirty := False\<rparr>))\<lparr>dirty := False\<rparr>)) \<Longrightarrow>
   flush cfg e s = watch_params cfg e ((watch_params cfg e (s\<lparr>dirty := False\<rparr>))\<lparr>dirty := False\<rparr>)"
  using flush_watcher.simps(2) [of cfg e 99 s] flush_watcher.simps(2) [of cfg e 98 "watch_params cfg e (s\<lparr>dirty := False\<rparr>)"]
  by (simp add: flush_def max_update_count_def flush_watcher_clean)

text \<open>
  C2: Vue's scheduler never reaches its limit of 100 runs: the deep watcher on
  \<^verbatim>\<open>params\<close> stops re-queueing itself within three runs, whatever the state, so
  every flush ends with the watcher clean and equals the flush cut off after three runs.
\<close>

theorem flush_terminates:
  "\<not> dirty (flush cfg e s) \<and> flush cfg e s = flush_watcher cfg e 3 s"
proof -
  have "\<not> dirty (flush_watcher cfg e 3 s)" using flush_watcher_three [of cfg e 0 s] by (simp add: numeral_3_eq_3)
  moreover then have "flush_watcher cfg e max_update_count s = flush_watcher cfg e 3 s"
    by (rule flush_watcher_done) (simp add: max_update_count_def)
  ultimately show ?thesis by (simp add: flush_def)
qed


subsection \<open>The invariant of reachable states\<close>

lemma fetch_data_pending_ok: "pending_ok s \<Longrightarrow> pending_ok (fetch_data cfg s)"
  by (cases "construct_url (post_type cfg) (meta_fields cfg) (params s)")
     (fastforce simp: fetch_data_Inl fetch_data_Inr pending_ok_def)+

lemma push_history_ok: "history_ok s \<Longrightarrow> history_ok (push_history e s)"
  by (simp add: push_history_def history_ok_def Let_def)

lemma push_history_pending [simp]:
  "pending (push_history e s) = pending s \<and> next_request (push_history e s) = next_request s"
  by (simp add: push_history_def Let_def)

lemma fetch_data_history_ok [simp]: "history_ok (fetch_data cfg s) = history_ok s"
  by (simp add: history_ok_def)

lemma watch_params_ok:
  assumes "history_ok s" and "pending_ok s"
  shows "history_ok (watch_params cfg e s) \<and> pending_ok (watch_params cfg e s) \<and>
         history_ready (watch_params cfg e s) = history_ready s \<and>
         (history_ready s \<longrightarrow> \<not> suppress_history (watch_params cfg e s))"
proof -
  define s1 where "s1 = (if \<not> page_updated s then assign_param s ''pagenum'' (JNum 1) else s)"
  define s3 where "s3 = (fetch_data cfg s1)\<lparr>page_updated := False\<rparr>"
  have "history_ok s1" "pending_ok s1" "history_ready s1 = history_ready s" using assms
    by (simp_all add: s1_def assign_param_eq history_ok_def pending_ok_def)
  then have h3: "history_ok s3" "pending_ok s3" "history_ready s3 = history_ready s"
    using fetch_data_pending_ok [of s1 cfg]
    by (simp_all add: s3_def history_ok_def pending_ok_def)
  have w: "watch_params cfg e s =
    (if \<not> suppress_history s3 \<and> \<not> history_ready s3 then s3
     else (let s4 = (if \<not> suppress_history s3 then push_history e s3 else s3);
               s5 = s4\<lparr>suppress_history := False\<rparr> in s5\<lparr>events := events s5 @ [ParamsChanged]\<rparr>))"
    by (simp add: watch_params_def s1_def s3_def Let_def)
  have "history_ok (push_history e s3)" using h3(1) by (rule push_history_ok)
  moreover have "pending_ok (push_history e s3)" using h3 by (simp add: pending_ok_def)
  moreover have "history_ready (push_history e s3) = history_ready s3" by (simp add: push_history_def Let_def)
  ultimately show ?thesis using h3
    by (simp add: w Let_def history_ok_def pending_ok_def)
qed


lemma flush_watcher_inv:
  "(\<And>s. P s \<Longrightarrow> P (watch_params cfg e (s\<lparr>dirty := False\<rparr>))) \<Longrightarrow> P s \<Longrightarrow> P (flush_watcher cfg e n s)"
  by (induction n arbitrary: s) auto

lemma flush_clean: "\<not> dirty (flush cfg e s)"
  using flush_watcher_three [of cfg e 97 s] by (simp add: flush_def max_update_count_def)

lemma flush_rl_inv:
  assumes h: "history_ok s" and p: "pending_ok s" and r: "history_ready s \<longrightarrow> \<not> suppress_history s \<or> dirty s"
  shows "rl_inv (flush cfg e s) \<and> history_ready (flush cfg e s) = history_ready s"
proof -
  let ?P = "\<lambda>t. history_ok t \<and> pending_ok t \<and> history_ready t = history_ready s"
  have step: "?P (watch_params cfg e (t\<lparr>dirty := False\<rparr>))" if "?P t" for t
    using watch_params_ok [of "t\<lparr>dirty := False\<rparr>" cfg e] that
    by (simp add: history_ok_def pending_ok_def)
  have P: "?P (flush cfg e s)" unfolding flush_def
    by (rule flush_watcher_inv [where P = ?P]) (use step h p in auto)
  have "\<not> suppress_history (flush cfg e s)" if rdy: "history_ready s"
  proof (cases "dirty s")
    case True
    let ?Q = "\<lambda>t. history_ok t \<and> pending_ok t \<and> history_ready t \<and> \<not> suppress_history t"
    have qstep: "?Q (watch_params cfg e (t\<lparr>dirty := False\<rparr>))" if "?Q t" for t
      using watch_params_ok [of "t\<lparr>dirty := False\<rparr>" cfg e] that
      by (simp add: history_ok_def pending_ok_def)
    have q1: "?Q (watch_params cfg e (s\<lparr>dirty := False\<rparr>))"
      using watch_params_ok [of "s\<lparr>dirty := False\<rparr>" cfg e] h p rdy
      by (simp add: history_ok_def pending_ok_def)
    have "?Q (flush_watcher cfg e 99 (watch_params cfg e (s\<lparr>dirty := False\<rparr>)))"
      by (rule flush_watcher_inv [where P = ?Q]) (use qstep q1 in auto)
    moreover have "flush cfg e s = flush_watcher cfg e 99 (watch_params cfg e (s\<lparr>dirty := False\<rparr>))"
      using True flush_watcher.simps(2) [of cfg e 99 s] by (simp add: flush_def max_update_count_def)
    ultimately show ?thesis by simp
  next
    case False
    then show ?thesis using r rdy by (simp add: flush_def flush_watcher_clean)
  qed
  then show ?thesis using P flush_clean [of cfg e s] by (simp add: rl_inv_def)
qed


lemma run_action_frame:
  "run_action cfg e s a = Inr s' \<Longrightarrow>
   history s' = history s \<and> pending s' = pending s \<and> next_request s' = next_request s \<and>
   suppress_history s' = suppress_history s \<and> history_ready s' = history_ready s \<and>
   loading s' = loading s \<and> is_initial_load s' = is_initial_load s \<and> events s' = events s \<and>
   error s' = error s"
  by (cases a)
     (auto simp: select_page_def set_search_def reset_terms_def add_terms_def remove_terms_def
        update_terms_def set_terms_def set_order_def set_orderby_def toggle_order_def
        select_orderby_def set_meta_filter_def remove_meta_filter_def clear_meta_filters_def
        reset_def replace_params_def assign_param_eq Let_def
        split: sum.splits if_splits option.splits json.splits)

lemma run_actions_frame:
  "run_actions cfg e s as = (r, s') \<Longrightarrow>
   history s' = history s \<and> pending s' = pending s \<and> next_request s' = next_request s \<and>
   suppress_history s' = suppress_history s \<and> history_ready s' = history_ready s \<and>
   loading s' = loading s \<and> is_initial_load s' = is_initial_load s \<and> events s' = events s \<and>
   error s' = error s"
proof (induction as arbitrary: s)
  case Nil
  then show ?case by simp
next
  case (Cons a as)
  then show ?case
    by (cases "run_action cfg e s a") (fastforce dest: run_action_frame)+
qed

lemma user_task_inv:
  assumes "rl_inv s"
  shows "rl_inv (flush cfg e (snd (run_actions cfg e s as)))"
proof -
  obtain r s' where ra: "run_actions cfg e s as = (r, s')" by (cases "run_actions cfg e s as")
  from run_actions_frame [OF ra] assms have "history_ok s'" "pending_ok s'"
    "history_ready s' \<longrightarrow> \<not> suppress_history s' \<or> dirty s'"
    by (simp_all add: rl_inv_def history_ok_def pending_ok_def)
  then show ?thesis using flush_rl_inv ra by simp
qed

lemma respond_inv: "rl_inv s \<Longrightarrow> rl_inv (respond s i outcome)"
  by (cases outcome) (auto simp: respond_def rl_inv_def history_ok_def pending_ok_def Let_def distinct_map_filter)

lemma pop_listener_frame:
  "history (pop_listener cfg s j) = (history s)\<lparr>hindex := j\<rparr> \<and> pending (pop_listener cfg s j) = pending s \<and>
   next_request (pop_listener cfg s j) = next_request s \<and> dirty (pop_listener cfg s j) \<and>
   history_ready (pop_listener cfg s j) = history_ready s"
  by (simp add: pop_listener_def reset_def replace_params_def Let_def split: hist_entry.split option.split)

lemma navigate_inv:
  assumes "rl_inv s" and "j < length (entries (history s))"
  shows "rl_inv (navigate cfg e s j)"
proof (cases "history_ready s")
  case True
  have "history_ok (pop_listener cfg s j)" "pending_ok (pop_listener cfg s j)"
    using assms pop_listener_frame [of cfg s j] by (simp_all add: history_ok_def pending_ok_def rl_inv_def)
  then show ?thesis using True flush_rl_inv pop_listener_frame [of cfg s j] by (simp add: navigate_def)
next
  case False
  then show ?thesis using assms by (simp add: navigate_def rl_inv_def history_ok_def pending_ok_def)
qed

lemma created_inv:
  "created cfg e = (r, s) \<Longrightarrow>
   history_ok s \<and> pending_ok s \<and> (history_ready s \<longrightarrow> dirty s)"
  by (auto simp: created_def data_init_def history_ok_def pending_ok_def reset_def replace_params_def
           Let_def split: if_splits sum.splits)

text \<open>
  C1: every reachable state satisfies the component's invariant: no watcher
  run is left queued, the history index points into the history, the pending
  requests have distinct identifiers below the next one, and once the history
  is installed no history push is left suppressed.
\<close>

theorem reachable_rl_inv: "reachable cfg e s \<Longrightarrow> rl_inv s"
proof (induction rule: reachable.induct)
  case init
  obtain r s0 where c: "created cfg e = (r, s0)" by (cases "created cfg e")
  then show ?case using created_inv [OF c] flush_rl_inv [of s0 cfg e] by (simp add: initial_state_def)
next
  case (step s t)
  from step.hyps(2) step.IH show ?case
    by (cases rule: rl_step.cases) (simp_all add: user_task_inv respond_inv navigate_inv)
qed


subsection \<open>Without a global lodash\<close>

lemma watch_params_not_ready:
  "\<not> history_ready s \<Longrightarrow> history (watch_params cfg e s) = history s \<and> \<not> history_ready (watch_params cfg e s)"
  by (simp add: watch_params_def Let_def assign_param_eq)

lemma flush_not_ready:
  "\<not> history_ready s \<Longrightarrow> history (flush cfg e s) = history s \<and> \<not> history_ready (flush cfg e s)"
  unfolding flush_def
  by (rule flush_watcher_inv [where P = "\<lambda>t. history t = history s \<and> \<not> history_ready t"])
     (simp_all add: watch_params_not_ready)

lemma step_not_ready:
  assumes "rl_step cfg e s t" and "\<not> history_ready s"
  shows "\<not> history_ready t \<and> entries (history t) = entries (history s)"
  using assms
proof (cases rule: rl_step.cases)
  case (user_task as)
  obtain r s' where ra: "run_actions cfg e s as = (r, s')" by (cases "run_actions cfg e s as")
  then show ?thesis using user_task run_actions_frame [OF ra] flush_not_ready [of s' cfg e] assms(2) by simp
qed (simp_all add: navigate_def respond_def Let_def split: fetch_outcome.splits)

text \<open>
  C31: lodash is imported under its function names only, yet \<^verbatim>\<open>created\<close>
  calls \<^verbatim>\<open>_.merge\<close>; on a page opened with a query string and no global
  \<^verbatim>\<open>_\<close>, \<^verbatim>\<open>created\<close> throws before \<^verbatim>\<open>__initHistory\<close>, and in every
  reachable state the history listener is missing and no entry is ever pushed.
\<close>

theorem no_lodash_no_history:
  assumes "search e \<noteq> []" and "\<not> global_lodash e" and "reachable cfg e s"
  shows "\<not> history_ready s \<and> entries (history s) = [HEntry (pathname e @ search e) None]"
  using assms(3)
proof (induction rule: reachable.induct)
  case init
  have "created cfg e = (Some ReferenceError, (data_init e)\<lparr>page_updated := True, suppress_history := True, is_initial_load := True\<rparr>)"
    using assms(1,2) by (simp add: created_def)
  then show ?case using flush_not_ready by (simp add: initial_state_def data_init_def)
next
  case (step s t)
  then show ?case using step_not_ready by metis
qed


subsection \<open>Witnesses\<close>

lemma watch_params_resets_page_witness:
  "\<not> page_updated example_state \<and>
   FetchStarted 0 \<lparr>req_path = ''/wp-json/wp/v2/posts'',
      req_args = [(''context'', ''embed''), (''_embed'', ''1''), (''per_page'', ''10''), (''search'', ''''),
                  (''order'', ''desc''), (''orderby'', ''date''), (''meta_query'', ''[object Object]''),
                  (''ver'', ''1''), (''page'', ''1'')]\<rparr>
     \<in> set (events (watch_params default_config example_env example_state)) \<and>
   FetchStarted 0 \<lparr>req_path = ''/wp-json/wp/v2/posts'',
      req_args = [(''context'', ''embed''), (''_embed'', ''1''), (''per_page'', ''10''), (''search'', ''''),
                  (''order'', ''desc''), (''orderby'', ''date''), (''meta_query'', ''[object Object]''),
                  (''ver'', ''1''), (''page'', ''1'')]\<rparr> \<notin> set (events example_state) \<and>
   (''page'', ''1'') \<in> set (req_args \<lparr>req_path = ''/wp-json/wp/v2/posts'',
      req_args = [(''context'', ''embed''), (''_embed'', ''1''), (''per_page'', ''10''), (''search'', ''''),
                  (''order'', ''desc''), (''orderby'', ''date''), (''meta_query'', ''[object Object]''),
                  (''ver'', ''1''), (''page'', ''1'')]\<rparr>)"
proof -
  let ?r = "\<lparr>req_path = ''/wp-json/wp/v2/posts'',
      req_args = [(''context'', ''embed''), (''_embed'', ''1''), (''per_page'', ''10''), (''search'', ''''),
                  (''order'', ''desc''), (''orderby'', ''date''), (''meta_query'', ''[object Object]''),
                  (''ver'', ''1''), (''page'', ''1'')]\<rparr>"
  have h: "\<not> page_updated example_state \<and>
     FetchStarted 0 ?r \<in> set (events (watch_params default_config example_env example_state)) \<and>
     FetchStarted 0 ?r \<notin> set (events example_state)" by code_simp
  then show ?thesis using watch_params_resets_page [of example_state 0 ?r default_config example_env] by blast
qed

lemma reachable_rl_inv_witness:
  "reachable default_config example_env (initial_state default_config example_env) \<and>
   rl_inv (initial_state default_config example_env)"
  using reachable_rl_inv [OF reachable.init] reachable.init by blast

lemma no_lodash_no_history_witness:
  "''?a=1'' \<noteq> [] \<and> \<not> global_lodash \<lparr>pathname = ''/library'', search = ''?a=1'', global_vue = True, global_lodash = False\<rparr> \<and>
   reachable default_config \<lparr>pathname = ''/library'', search = ''?a=1'', global_vue = True, global_lodash = False\<rparr>
     (initial_state default_config \<lparr>pathname = ''/library'', search = ''?a=1'', global_vue = True, global_lodash = False\<rparr>) \<and>
   \<not> history_ready (initial_state default_config \<lparr>pathname = ''/library'', search = ''?a=1'', global_vue = True, global_lodash = False\<rparr>)"
  using no_lodash_no_history [OF _ _ reachable.init, of "\<lparr>pathname = ''/library'', search = ''?a=1'', global_vue = True, global_lodash = False\<rparr>" default_config]
    reachable.init by simp

end
