(* ===== verification/Navigation.thy ===== *)
theory Navigation
  imports Watcher
begin

text \<open>
  Whole flushes of the watcher after the changes that make it misbehave: a
  change of another parameter while the page is not 1, \<^verbatim>\<open>selectPage\<close>
  with the page already shown, and back/forward navigation through the
  history listener of \<^verbatim>\<open>__initHistory\<close> (src/resource-library.js,
  lines 616-630).
\<close>

subsection \<open>The double run\<close>

text \<open>
  C10: a change other than the page, made while the page is not 1, runs the
  watcher twice in one flush: the first run's reset of \<^verbatim>\<open>pagenum\<close> re-queues
  it.  Two requests for page 1 are sent and the same URL is pushed onto the
  history twice.
\<close>

theorem flush_double_run:
  assumes np: "\<not> page_updated s" and rdy: "history_ready s" and ns: "\<not> suppress_history s"
    and rp: "''pagenum'' \<in> set (reactive s)" and p1: "obj_get (params s) ''pagenum'' \<noteq> Some (JNum 1)"
    and c: "construct_url (post_type cfg) (meta_fields cfg) (obj_set (params s) ''pagenum'' (JNum 1)) = Inr (r, p')"
  shows "\<exists>r2 u. events (flush cfg e (s\<lparr>dirty := True\<rparr>)) = events s @
           [RootEvent ''loading'', FetchStarted (next_request s) r, HistoryPushed u, ParamsChanged,
            RootEvent ''loading'', FetchStarted (Suc (next_request s)) r2, HistoryPushed u, ParamsChanged] \<and>
           (''page'', ''1'') \<in> set (req_args r) \<and> (''page'', ''1'') \<in> set (req_args r2)"
proof -
  let ?s0 = "s\<lparr>dirty := False\<rparr>"
  let ?a = "assign_param ?s0 ''pagenum'' (JNum 1)"
  let ?w1 = "watch_params cfg e ?s0"
  let ?u = "pathname e @ CHR ''?'' # serialize_params p'"
  have a: "params ?a = obj_set (params s) ''pagenum'' (JNum 1)" "dirty ?a"
    using rp p1 by (simp_all add: assign_param_eq setter_changes_def)
  have ca: "construct_url (post_type cfg) (meta_fields cfg) (params ?a) = Inr (r, p')"
    using c a by simp
  have w1: "events ?w1 = events s @ [RootEvent ''loading'', FetchStarted (next_request s) r, HistoryPushed ?u, ParamsChanged]"
    "params ?w1 = p'" "next_request ?w1 = Suc (next_request s)" "history_ready ?w1" "\<not> suppress_history ?w1"
    "\<not> page_updated ?w1" "dirty ?w1" "reactive ?w1 = reactive ?a" "mq_reactive ?w1 = mq_reactive ?a"
    using watch_params_ready_run [OF refl, where s = ?s0 and cfg = cfg and e = e and r = r and p' = p'] np rdy ns c a
    by (simp_all add: assign_param_eq)
  obtain r2 where w2: "events (watch_params cfg e (?w1\<lparr>dirty := False\<rparr>)) = events ?w1 @
      [RootEvent ''loading'', FetchStarted (next_request ?w1) r2, HistoryPushed ?u, ParamsChanged]"
    "\<not> dirty (watch_params cfg e (?w1\<lparr>dirty := False\<rparr>))" "(''page'', ''1'') \<in> set (req_args r2)"
    using rerun_after_fetch [OF ca _ w1(2,8,9,4,5,6), of e] a by (auto simp: obj_simps)
  have "flush cfg e (s\<lparr>dirty := True\<rparr>) = watch_params cfg e (?w1\<lparr>dirty := False\<rparr>)"
    using w1(7) w2(2) flush_two_runs [of "s\<lparr>dirty := True\<rparr>" cfg e] by simp
  then show ?thesis using w1 w2 page_one_arg [OF c] by (auto simp: obj_simps)
qed


subsection \<open>The page flag\<close>

text \<open>
  C13: after \<^verbatim>\<open>selectPage(p)\<close> the watcher does not reset the page: the
  request it sends asks for page \<open>p\<close>, as \<^verbatim>\<open>String(p)\<close>, whenever \<open>p\<close> is truthy.
\<close>

theorem select_page_request:
  assumes t: "js_truthy p"
    and f: "FetchStarted i r \<in> set (events (watch_params cfg e ((select_page s p)\<lparr>dirty := False\<rparr>)))"
    and n: "FetchStarted i r \<notin> set (events s)"
  shows "(''page'', js_to_string p) \<in> set (req_args r)"
proof -
  let ?t = "(select_page s p)\<lparr>dirty := False\<rparr>"
  have t': "page_updated ?t" "events ?t = events s" "obj_get (params ?t) ''pagenum'' = Some p"
    by (simp_all add: select_page_def assign_param_eq obj_simps)
  obtain p' where "construct_url (post_type cfg) (meta_fields cfg) (params ?t) = Inr (r, p')"
    using watch_params_fetch [OF f] n t' by auto
  from construct_url_page_arg [OF this t'(3) t] show ?thesis .
qed

lemma select_page_same:
  assumes "\<not> dirty s" and "obj_get (params s) ''pagenum'' = Some p" and "\<not> is_object p"
  shows "flush cfg e (select_page s p) = s\<lparr>page_updated := True\<rparr>"
proof -
  have "select_page s p = s\<lparr>page_updated := True\<rparr>"
    using assms by (simp add: select_page_def assign_param_same)
  then show ?thesis using assms(1) by (simp add: flush_def flush_watcher_clean)
qed

text \<open>
  C14: \<^verbatim>\<open>selectPage\<close> with the page already shown changes nothing Vue sees,
  so the watcher does not run and \<^verbatim>\<open>__page_updated\<close> stays set: the next
  change of another parameter, here the search, is sent for the old page
  instead of page 1.
\<close>

theorem select_page_flag_leak:
  assumes d: "\<not> dirty s" and pn: "obj_get (params s) ''pagenum'' = Some (JNum n)" and nz: "n \<noteq> 0"
    and f: "FetchStarted i r \<in> set (events (watch_params cfg e ((set_search (flush cfg e (select_page s (JNum n))) q)\<lparr>dirty := False\<rparr>)))"
    and new: "FetchStarted i r \<notin> set (events s)"
  shows "(''page'', int_to_dec n) \<in> set (req_args r)"
proof -
  let ?t = "(set_search (flush cfg e (select_page s (JNum n))) q)\<lparr>dirty := False\<rparr>"
  have fl: "flush cfg e (select_page s (JNum n)) = s\<lparr>page_updated := True\<rparr>"
    using select_page_same [OF d pn] by simp
  have t': "page_updated ?t" "events ?t = events s" "obj_get (params ?t) ''pagenum'' = Some (JNum n)"
    using pn by (simp_all add: fl set_search_def assign_param_eq obj_simps)
  obtain p' where "construct_url (post_type cfg) (meta_fields cfg) (params ?t) = Inr (r, p')"
    using watch_params_fetch [OF f] new t' by auto
  from construct_url_page_arg [OF this t'(3)] nz show ?thesis by simp
qed


subsection \<open>Navigation\<close>

text \<open>
  C11: going back or forward to a history entry that holds a parameter
  snapshot (one the request code leaves unchanged, as every snapshot it pushed
  after a successful request is) restores exactly those parameters, sends one
  request for them and pushes no history entry.
\<close>

theorem navigate_snapshot:
  assumes rdy: "history_ready s" and ent: "entries (history s) ! j = HEntry u (Some st)"
    and c: "construct_url (post_type cfg) (meta_fields cfg) st = Inr (r, st)"
  shows "params (navigate cfg e s j) = st \<and> history (navigate cfg e s j) = (history s)\<lparr>hindex := j\<rparr> \<and>
         events (navigate cfg e s j) = events s @ [RootEvent ''loading'', FetchStarted (next_request s) r, ParamsChanged] \<and>
         \<not> suppress_history (navigate cfg e s j) \<and> \<not> page_updated (navigate cfg e s j)"
proof -
  let ?p = "pop_listener cfg s j"
  have p: "?p = s\<lparr>history := (history s)\<lparr>hindex := j\<rparr>, suppress_history := True, page_updated := True,
                  params := st, reactive := obj_keys st, mq_reactive := mq_keys st, dirty := True\<rparr>"
    using ent by (simp add: pop_listener_def replace_params_def Let_def)
  let ?q = "?p\<lparr>dirty := False\<rparr>"
  have q: "\<not> relation_notify ?q" using fixed_point_quiet [of cfg ?q r] c p by simp
  let ?w = "watch_params cfg e ?q"
  have w: "events ?w = events s @ [RootEvent ''loading'', FetchStarted (next_request s) r, ParamsChanged]"
    "params ?w = st" "history ?w = (history s)\<lparr>hindex := j\<rparr>" "\<not> suppress_history ?w" "\<not> page_updated ?w" "\<not> dirty ?w"
    using watch_params_suppressed_run [OF refl, where s = ?q and cfg = cfg and e = e and r = r and p' = st] p c q
    by simp_all
  have "navigate cfg e s j = ?w"
    using rdy p w(6) flush_one_run [of ?p cfg e] by (simp add: navigate_def)
  then show ?thesis using w by simp
qed


text \<open>
  C12: when the component starts with \<^verbatim>\<open>initial_page\<close> other than 1, going
  back to the page's first history entry (which holds no state) resets the
  parameters, and the watcher's page reset then re-runs it with history
  recording switched back on: it pushes a new entry after the one navigated to,
  so the entries that followed it (the forward history) are lost.
\<close>

theorem navigate_initial_entry:
  assumes rdy: "history_ready s" and np: "\<not> page_updated s"
    and ent: "entries (history s) ! j = HEntry u None"
    and ip: "initial_page cfg \<noteq> 1" and tx: "''pagenum'' \<notin> set (obj_keys (initial_taxonomies cfg))"
    and c: "construct_url (post_type cfg) (meta_fields cfg) (obj_set (reset_params cfg) ''pagenum'' (JNum 1)) = Inr (r, p')"
  shows "history (navigate cfg e s j) =
           \<lparr>entries = take (Suc j) (entries (history s)) @ [HEntry (pathname e @ CHR ''?'' # serialize_params p') (Some p')],
            hindex = Suc j\<rparr> \<and>
         (\<exists>r2. events (navigate cfg e s j) = events s @
            [RootEvent ''loading'', FetchStarted (next_request s) r, ParamsChanged,
             RootEvent ''loading'', FetchStarted (Suc (next_request s)) r2,
             HistoryPushed (pathname e @ CHR ''?'' # serialize_params p'), ParamsChanged])"
proof -
  let ?p = "pop_listener cfg s j"
  have p: "?p = s\<lparr>history := (history s)\<lparr>hindex := j\<rparr>, suppress_history := True,
                  params := reset_params cfg, reactive := obj_keys (reset_params cfg),
                  mq_reactive := mq_keys (reset_params cfg), dirty := True\<rparr>"
    using ent by (simp add: pop_listener_def reset_def replace_params_def Let_def)
  let ?q = "?p\<lparr>dirty := False\<rparr>"
  let ?a = "assign_param ?q ''pagenum'' (JNum 1)"
  let ?u = "pathname e @ CHR ''?'' # serialize_params p'"
  have pn: "obj_get (reset_params cfg) ''pagenum'' = Some (JNum (initial_page cfg))"
    using tx by (rule reset_params_pagenum)
  have a: "params ?a = obj_set (reset_params cfg) ''pagenum'' (JNum 1)" "dirty ?a"
    using p pn ip obj_get_keys [OF pn] by (simp_all add: assign_param_eq setter_changes_def)
  have ca: "construct_url (post_type cfg) (meta_fields cfg) (params ?a) = Inr (r, p')" using c a by simp
  let ?w1 = "watch_params cfg e ?q"
  have w1: "events ?w1 = events s @ [RootEvent ''loading'', FetchStarted (next_request s) r, ParamsChanged]"
    "params ?w1 = p'" "history ?w1 = (history s)\<lparr>hindex := j\<rparr>" "history_ready ?w1" "\<not> suppress_history ?w1"
    "\<not> page_updated ?w1" "dirty ?w1" "next_request ?w1 = Suc (next_request s)"
    "reactive ?w1 = reactive ?a" "mq_reactive ?w1 = mq_reactive ?a"
    using watch_params_suppressed_run [OF refl, where s = ?q and cfg = cfg and e = e and r = r and p' = p'] p np ca a rdy
    by (simp_all add: assign_param_eq)
  obtain r2 where w2: "events (watch_params cfg e (?w1\<lparr>dirty := False\<rparr>)) = events ?w1 @
      [RootEvent ''loading'', FetchStarted (next_request ?w1) r2, HistoryPushed ?u, ParamsChanged]"
    "\<not> dirty (watch_params cfg e (?w1\<lparr>dirty := False\<rparr>))"
    "history (watch_params cfg e (?w1\<lparr>dirty := False\<rparr>)) =
       \<lparr>entries = take (Suc j) (entries (history s)) @ [HEntry ?u (Some p')], hindex = Suc j\<rparr>"
    using rerun_after_fetch [OF ca _ w1(2,9,10,4,5,6), of e] a w1(3) by (auto simp: obj_simps)
  have "navigate cfg e s j = watch_params cfg e (?w1\<lparr>dirty := False\<rparr>)"
    using rdy p w1(7) w2(2) flush_two_runs [of ?p cfg e] by (simp add: navigate_def)
  then show ?thesis using w1 w2 by simp
qed


subsection \<open>Undeclared taxonomies\<close>

text \<open>
  C32: \<^verbatim>\<open>resetTerms\<close> on a taxonomy that was not declared in
  \<^verbatim>\<open>initial_taxonomies\<close> adds it to the parameters without Vue noticing: no
  request is sent then, but the next change of another parameter sends it with
  the request, as an empty argument.
\<close>

theorem reset_terms_unobserved:
  assumes nr: "tax \<notin> set (reactive s)" and d: "\<not> dirty s"
    and k: "tax \<notin> {''page'', ''pagenum'', ''orderby'', ''meta_key'', ''meta_query'', ''search''}"
    and f: "FetchStarted i r \<in> set (events (watch_params cfg e ((set_search (flush cfg e (reset_terms s tax)) q)\<lparr>dirty := False\<rparr>)))"
    and new: "FetchStarted i r \<notin> set (events s)"
  shows "flush cfg e (reset_terms s tax) = s\<lparr>params := obj_set (params s) tax (JArr [])\<rparr> \<and> (tax, []) \<in> set (req_args r)"
proof -
  have t: "flush cfg e (reset_terms s tax) = s\<lparr>params := obj_set (params s) tax (JArr [])\<rparr>"
    using nr d by (simp add: reset_terms_def assign_param_eq flush_def flush_watcher_clean)
  let ?t = "(set_search (s\<lparr>params := obj_set (params s) tax (JArr [])\<rparr>) q)\<lparr>dirty := False\<rparr>"
  let ?s1 = "if \<not> page_updated ?t then assign_param ?t ''pagenum'' (JNum 1) else ?t"
  have ev: "events ?t = events s" by (simp add: set_search_def assign_param_eq)
  obtain p' where c: "construct_url (post_type cfg) (meta_fields cfg) (params ?s1) = Inr (r, p')"
    using watch_params_fetch [of i r cfg e ?t] f new ev t by auto
  have "obj_get (params ?s1) tax = Some (JArr [])"
    using k by (simp add: set_search_def assign_param_eq obj_simps)
  from construct_url_other_arg [OF c this] k t show ?thesis by simp
qed

subsection \<open>Responses\<close>

text \<open>
  A response is applied whatever request it answers: the response to an
  older request replaces the results and clears \<^verbatim>\<open>loading\<close> while a newer
  request is still pending, and a successful response leaves a previous error in
  place (the specification says a success clears it).
\<close>

theorem respond_stale_response:
  assumes "(j, r) \<in> set (pending s)" and "j \<noteq> i"
  shows "wp_data (respond s i (Response b t tp)) = b \<and> \<not> loading (respond s i (Response b t tp)) \<and>
         error (respond s i (Response b t tp)) = error s \<and> (j, r) \<in> set (pending (respond s i (Response b t tp)))"
  using assms by (simp add: respond_def Let_def)


subsection \<open>Witnesses\<close>

lemma flush_double_run_witness:
  "\<not> page_updated example_state \<and> history_ready example_state \<and> \<not> suppress_history example_state \<and>
   ''pagenum'' \<in> set (reactive example_state) \<and> obj_get (params example_state) ''pagenum'' \<noteq> Some (JNum 1) \<and>
   construct_url (post_type default_config) (meta_fields default_config)
     (obj_set (params example_state) ''pagenum'' (JNum 1)) = Inr (\<lparr>req_path = ''/wp-json/wp/v2/posts'',
      req_args = [(''context'', ''embed''), (''_embed'', ''1''), (''per_page'', ''10''), (''search'', ''''),
                  (''order'', ''desc''), (''orderby'', ''date''), (''meta_query'', ''[object Object]''),
                  (''ver'', ''1''), (''page'', ''1'')]\<rparr>, [(''per_page'', JNum 10), (''search'', JStr []), (''order'', JStr ''desc''), (''orderby'', JStr ''date''), (''pagenum'', JNum 1), (''meta_query'', JObj []), (''ver'', JNum 1)]) \<and>
   (\<exists>r2 u. events (flush default_config example_env (example_state\<lparr>dirty := True\<rparr>)) = events example_state @
      [RootEvent ''loading'', FetchStarted 0 \<lparr>req_path = ''/wp-json/wp/v2/posts'',
      req_args = [(''context'', ''embed''), (''_embed'', ''1''), (''per_page'', ''10''), (''search'', ''''),
                  (''order'', ''desc''), (''orderby'', ''date''), (''meta_query'', ''[object Object]''),
                  (''ver'', ''1''), (''page'', ''1'')]\<rparr>, HistoryPushed u, ParamsChanged,
       RootEvent ''loading'', FetchStarted 1 r2, HistoryPushed u, ParamsChanged])"
proof -
  have h: "\<not> page_updated example_state \<and> history_ready example_state \<and> \<not> suppress_history example_state \<and>
   ''pagenum'' \<in> set (reactive example_state) \<and> obj_get (params example_state) ''pagenum'' \<noteq> Some (JNum 1) \<and>
   construct_url (post_type default_config) (meta_fields default_config)
     (obj_set (params example_state) ''pagenum'' (JNum 1)) = Inr (\<lparr>req_path = ''/wp-json/wp/v2/posts'',
      req_args = [(''context'', ''embed''), (''_embed'', ''1''), (''per_page'', ''10''), (''search'', ''''),
                  (''order'', ''desc''), (''orderby'', ''date''), (''meta_query'', ''[object Object]''),
                  (''ver'', ''1''), (''page'', ''1'')]\<rparr>, [(''per_page'', JNum 10), (''search'', JStr []), (''order'', JStr ''desc''), (''orderby'', JStr ''date''), (''pagenum'', JNum 1), (''meta_query'', JObj []), (''ver'', JNum 1)])" by code_simp
  have "next_request example_state = 0" by (simp add: example_state_def data_init_def)
  then show ?thesis using h flush_double_run [where s = example_state and cfg = default_config and e = example_env
    and r = "\<lparr>req_path = ''/wp-json/wp/v2/posts'',
      req_args = [(''context'', ''embed''), (''_embed'', ''1''), (''per_page'', ''10''), (''search'', ''''),
                  (''order'', ''desc''), (''orderby'', ''date''), (''meta_query'', ''[object Object]''),
                  (''ver'', ''1''), (''page'', ''1'')]\<rparr>" and p' = "[(''per_page'', JNum 10), (''search'', JStr []), (''order'', JStr ''desc''), (''orderby'', JStr ''date''), (''pagenum'', JNum 1), (''meta_query'', JObj []), (''ver'', JNum 1)]"] by auto
qed

lemma select_page_request_witness:
  "js_truthy (JNum 5) \<and>
   FetchStarted 0 \<lparr>req_path = ''/wp-json/wp/v2/posts'',
      req_args = [(''context'', ''embed''), (''_embed'', ''1''), (''per_page'', ''10''), (''search'', ''''),
                  (''order'', ''desc''), (''orderby'', ''date''), (''meta_query'', ''[object Object]''),
                  (''ver'', ''1''), (''page'', ''5'')]\<rparr> \<in> set (events (watch_params default_config example_env
      ((select_page example_state (JNum 5))\<lparr>dirty := False\<rparr>))) \<and>
   FetchStarted 0 \<lparr>req_path = ''/wp-json/wp/v2/posts'',
      req_args = [(''context'', ''embed''), (''_embed'', ''1''), (''per_page'', ''10''), (''search'', ''''),
                  (''order'', ''desc''), (''orderby'', ''date''), (''meta_query'', ''[object Object]''),
                  (''ver'', ''1''), (''page'', ''5'')]\<rparr> \<notin> set (events example_state) \<and>
   (''page'', js_to_string (JNum 5)) \<in> set (req_args \<lparr>req_path = ''/wp-json/wp/v2/posts'',
      req_args = [(''context'', ''embed''), (''_embed'', ''1''), (''per_page'', ''10''), (''search'', ''''),
                  (''order'', ''desc''), (''orderby'', ''date''), (''meta_query'', ''[object Object]''),
                  (''ver'', ''1''), (''page'', ''5'')]\<rparr>)"
proof -
  have h: "js_truthy (JNum 5) \<and>
   FetchStarted 0 \<lparr>req_path = ''/wp-json/wp/v2/posts'',
      req_args = [(''context'', ''embed''), (''_embed'', ''1''), (''per_page'', ''10''), (''search'', ''''),
                  (''order'', ''desc''), (''orderby'', ''date''), (''meta_query'', ''[object Object]''),
                  (''ver'', ''1''), (''page'', ''5'')]\<rparr> \<in> set (events (watch_params default_config example_env
      ((select_page example_state (JNum 5))\<lparr>dirty := False\<rparr>))) \<and>
   FetchStarted 0 \<lparr>req_path = ''/wp-json/wp/v2/posts'',
      req_args = [(''context'', ''embed''), (''_embed'', ''1''), (''per_page'', ''10''), (''search'', ''''),
                  (''order'', ''desc''), (''orderby'', ''date''), (''meta_query'', ''[object Object]''),
                  (''ver'', ''1''), (''page'', ''5'')]\<rparr> \<notin> set (events example_state)" by code_simp
  then show ?thesis using select_page_request [where s = example_state and p = "JNum 5" and i = 0 and r = "\<lparr>req_path = ''/wp-json/wp/v2/posts'',
      req_args = [(''context'', ''embed''), (''_embed'', ''1''), (''per_page'', ''10''), (''search'', ''''),
                  (''order'', ''desc''), (''orderby'', ''date''), (''meta_query'', ''[object Object]''),
                  (''ver'', ''1''), (''page'', ''5'')]\<rparr>"
    and cfg = default_config and e = example_env] by blast
qed

lemma select_page_flag_leak_witness:
  "\<not> dirty example_state \<and> obj_get (params example_state) ''pagenum'' = Some (JNum 3) \<and> (3::int) \<noteq> 0 \<and>
   FetchStarted 0 \<lparr>req_path = ''/wp-json/wp/v2/posts'',
      req_args = [(''context'', ''embed''), (''_embed'', ''1''), (''per_page'', ''10''), (''search'', ''cat''),
                  (''order'', ''desc''), (''orderby'', ''date''), (''meta_query'', ''[object Object]''),
                  (''ver'', ''1''), (''page'', ''3'')]\<rparr> \<in> set (events (watch_params default_config example_env
      ((set_search (flush default_config example_env (select_page example_state (JNum 3))) (JStr ''cat''))\<lparr>dirty := False\<rparr>))) \<and>
   FetchStarted 0 \<lparr>req_path = ''/wp-json/wp/v2/posts'',
      req_args = [(''context'', ''embed''), (''_embed'', ''1''), (''per_page'', ''10''), (''search'', ''cat''),
                  (''order'', ''desc''), (''orderby'', ''date''), (''meta_query'', ''[object Object]''),
                  (''ver'', ''1''), (''page'', ''3'')]\<rparr> \<notin> set (events example_state) \<and>
   (''page'', int_to_dec 3) \<in> set (req_args \<lparr>req_path = ''/wp-json/wp/v2/posts'',
      req_args = [(''context'', ''embed''), (''_embed'', ''1''), (''per_page'', ''10''), (''search'', ''cat''),
                  (''order'', ''desc''), (''orderby'', ''date''), (''meta_query'', ''[object Object]''),
                  (''ver'', ''1''), (''page'', ''3'')]\<rparr>)"
proof -
  have h: "\<not> dirty example_state \<and> obj_get (params example_state) ''pagenum'' = Some (JNum 3) \<and> (3::int) \<noteq> 0 \<and>
   FetchStarted 0 \<lparr>req_path = ''/wp-json/wp/v2/posts'',
      req_args = [(''context'', ''embed''), (''_embed'', ''1''), (''per_page'', ''10''), (''search'', ''cat''),
                  (''order'', ''desc''), (''orderby'', ''date''), (''meta_query'', ''[object Object]''),
                  (''ver'', ''1''), (''page'', ''3'')]\<rparr> \<in> set (events (watch_params default_config example_env
      ((set_search (flush default_config example_env (select_page example_state (JNum 3))) (JStr ''cat''))\<lparr>dirty := False\<rparr>))) \<and>
   FetchStarted 0 \<lparr>req_path = ''/wp-json/wp/v2/posts'',
      req_args = [(''context'', ''embed''), (''_embed'', ''1''), (''per_page'', ''10''), (''search'', ''cat''),
                  (''order'', ''desc''), (''orderby'', ''date''), (''meta_query'', ''[object Object]''),
                  (''ver'', ''1''), (''page'', ''3'')]\<rparr> \<notin> set (events example_state)" by code_simp
  then show ?thesis using select_page_flag_leak [where s = example_state and n = 3 and i = 0 and r = "\<lparr>req_path = ''/wp-json/wp/v2/posts'',
      req_args = [(''context'', ''embed''), (''_embed'', ''1''), (''per_page'', ''10''), (''search'', ''cat''),
                  (''order'', ''desc''), (''orderby'', ''date''), (''meta_query'', ''[object Object]''),
                  (''ver'', ''1''), (''page'', ''3'')]\<rparr>"
    and cfg = default_config and e = example_env and q = "JStr ''cat''"] by blast
qed

lemma navigate_snapshot_witness:
  "history_ready (example_state\<lparr>history := \<lparr>entries = [HEntry ''/library'' None, HEntry ''/library?p'' (Some [(''per_page'', JNum 10), (''search'', JStr []), (''order'', JStr ''desc''), (''orderby'', JStr ''date''), (''pagenum'', JNum 1), (''meta_query'', JObj []), (''ver'', JNum 1)])], hindex = 0\<rparr>\<rparr>) \<and>
   entries (history (example_state\<lparr>history := \<lparr>entries = [HEntry ''/library'' None, HEntry ''/library?p'' (Some [(''per_page'', JNum 10), (''search'', JStr []), (''order'', JStr ''desc''), (''orderby'', JStr ''date''), (''pagenum'', JNum 1), (''meta_query'', JObj []), (''ver'', JNum 1)])], hindex = 0\<rparr>\<rparr>)) ! 1
     = HEntry ''/library?p'' (Some [(''per_page'', JNum 10), (''search'', JStr []), (''order'', JStr ''desc''), (''orderby'', JStr ''date''), (''pagenum'', JNum 1), (''meta_query'', JObj []), (''ver'', JNum 1)]) \<and>
   construct_url (post_type default_config) (meta_fields default_config) [(''per_page'', JNum 10), (''search'', JStr []), (''order'', JStr ''desc''), (''orderby'', JStr ''date''), (''pagenum'', JNum 1), (''meta_query'', JObj []), (''ver'', JNum 1)] = Inr (\<lparr>req_path = ''/wp-json/wp/v2/posts'',
      req_args = [(''context'', ''embed''), (''_embed'', ''1''), (''per_page'', ''10''), (''search'', ''''),
                  (''order'', ''desc''), (''orderby'', ''date''), (''meta_query'', ''[object Object]''),
                  (''ver'', ''1''), (''page'', ''1'')]\<rparr>, [(''per_page'', JNum 10), (''search'', JStr []), (''order'', JStr ''desc''), (''orderby'', JStr ''date''), (''pagenum'', JNum 1), (''meta_query'', JObj []), (''ver'', JNum 1)]) \<and>
   params (navigate default_config example_env
     (example_state\<lparr>history := \<lparr>entries = [HEntry ''/library'' None, HEntry ''/library?p'' (Some [(''per_page'', JNum 10), (''search'', JStr []), (''order'', JStr ''desc''), (''orderby'', JStr ''date''), (''pagenum'', JNum 1), (''meta_query'', JObj []), (''ver'', JNum 1)])], hindex = 0\<rparr>\<rparr>) 1) = [(''per_page'', JNum 10), (''search'', JStr []), (''order'', JStr ''desc''), (''orderby'', JStr ''date''), (''pagenum'', JNum 1), (''meta_query'', JObj []), (''ver'', JNum 1)]"
proof -
  have h: "history_ready (example_state\<lparr>history := \<lparr>entries = [HEntry ''/library'' None, HEntry ''/library?p'' (Some [(''per_page'', JNum 10), (''search'', JStr []), (''order'', JStr ''desc''), (''orderby'', JStr ''date''), (''pagenum'', JNum 1), (''meta_query'', JObj []), (''ver'', JNum 1)])], hindex = 0\<rparr>\<rparr>) \<and>
   entries (history (example_state\<lparr>history := \<lparr>entries = [HEntry ''/library'' None, HEntry ''/library?p'' (Some [(''per_page'', JNum 10), (''search'', JStr []), (''order'', JStr ''desc''), (''orderby'', JStr ''date''), (''pagenum'', JNum 1), (''meta_query'', JObj []), (''ver'', JNum 1)])], hindex = 0\<rparr>\<rparr>)) ! 1
     = HEntry ''/library?p'' (Some [(''per_page'', JNum 10), (''search'', JStr []), (''order'', JStr ''desc''), (''orderby'', JStr ''date''), (''pagenum'', JNum 1), (''meta_query'', JObj []), (''ver'', JNum 1)]) \<and>
   construct_url (post_type default_config) (meta_fields default_config) [(''per_page'', JNum 10), (''search'', JStr []), (''order'', JStr ''desc''), (''orderby'', JStr ''date''), (''pagenum'', JNum 1), (''meta_query'', JObj []), (''ver'', JNum 1)] = Inr (\<lparr>req_path = ''/wp-json/wp/v2/posts'',
      req_args = [(''context'', ''embed''), (''_embed'', ''1''), (''per_page'', ''10''), (''search'', ''''),
                  (''order'', ''desc''), (''orderby'', ''date''), (''meta_query'', ''[object Object]''),
                  (''ver'', ''1''), (''page'', ''1'')]\<rparr>, [(''per_page'', JNum 10), (''search'', JStr []), (''order'', JStr ''desc''), (''orderby'', JStr ''date''), (''pagenum'', JNum 1), (''meta_query'', JObj []), (''ver'', JNum 1)])" by code_simp
  then show ?thesis
    using navigate_snapshot [where s = "example_state\<lparr>history := \<lparr>entries = [HEntry ''/library'' None, HEntry ''/library?p'' (Some [(''per_page'', JNum 10), (''search'', JStr []), (''order'', JStr ''desc''), (''orderby'', JStr ''date''), (''pagenum'', JNum 1), (''meta_query'', JObj []), (''ver'', JNum 1)])], hindex = 0\<rparr>\<rparr>"
      and j = 1 and u = "''/library?p''" and st = "[(''per_page'', JNum 10), (''search'', JStr []), (''order'', JStr ''desc''), (''orderby'', JStr ''date''), (''pagenum'', JNum 1), (''meta_query'', JObj []), (''ver'', JNum 1)]" and r = "\<lparr>req_path = ''/wp-json/wp/v2/posts'',
      req_args = [(''context'', ''embed''), (''_embed'', ''1''), (''per_page'', ''10''), (''search'', ''''),
                  (''order'', ''desc''), (''orderby'', ''date''), (''meta_query'', ''[object Object]''),
                  (''ver'', ''1''), (''page'', ''1'')]\<rparr>" and cfg = default_config and e = example_env] by blast
qed

lemma navigate_initial_entry_witness:
  "history_ready (example_state\<lparr>history := \<lparr>entries = [HEntry ''/library'' None, HEntry ''/library?p'' (Some [(''per_page'', JNum 10), (''search'', JStr []), (''order'', JStr ''desc''), (''orderby'', JStr ''date''), (''pagenum'', JNum 1), (''meta_query'', JObj []), (''ver'', JNum 1)])], hindex = 1\<rparr>\<rparr>) \<and>
   \<not> page_updated (example_state\<lparr>history := \<lparr>entries = [HEntry ''/library'' None, HEntry ''/library?p'' (Some [(''per_page'', JNum 10), (''search'', JStr []), (''order'', JStr ''desc''), (''orderby'', JStr ''date''), (''pagenum'', JNum 1), (''meta_query'', JObj []), (''ver'', JNum 1)])], hindex = 1\<rparr>\<rparr>) \<and>
   entries (history (example_state\<lparr>history := \<lparr>entries = [HEntry ''/library'' None, HEntry ''/library?p'' (Some [(''per_page'', JNum 10), (''search'', JStr []), (''order'', JStr ''desc''), (''orderby'', JStr ''date''), (''pagenum'', JNum 1), (''meta_query'', JObj []), (''ver'', JNum 1)])], hindex = 1\<rparr>\<rparr>)) ! 0
     = HEntry ''/library'' None \<and>
   initial_page (default_config\<lparr>initial_page := 2\<rparr>) \<noteq> 1 \<and>
   ''pagenum'' \<notin> set (obj_keys (initial_taxonomies (default_config\<lparr>initial_page := 2\<rparr>))) \<and>
   construct_url (post_type default_config) (meta_fields default_config)
     (obj_set (reset_params (default_config\<lparr>initial_page := 2\<rparr>)) ''pagenum'' (JNum 1)) = Inr (\<lparr>req_path = ''/wp-json/wp/v2/posts'',
      req_args = [(''context'', ''embed''), (''_embed'', ''1''), (''per_page'', ''10''), (''search'', ''''),
                  (''order'', ''desc''), (''orderby'', ''date''), (''meta_query'', ''[object Object]''),
                  (''ver'', ''1''), (''page'', ''1'')]\<rparr>, [(''per_page'', JNum 10), (''search'', JStr []), (''order'', JStr ''desc''), (''orderby'', JStr ''date''), (''pagenum'', JNum 1), (''meta_query'', JObj []), (''ver'', JNum 1)]) \<and>
   hindex (history (navigate (default_config\<lparr>initial_page := 2\<rparr>) example_env
     (example_state\<lparr>history := \<lparr>entries = [HEntry ''/library'' None, HEntry ''/library?p'' (Some [(''per_page'', JNum 10), (''search'', JStr []), (''order'', JStr ''desc''), (''orderby'', JStr ''date''), (''pagenum'', JNum 1), (''meta_query'', JObj []), (''ver'', JNum 1)])], hindex = 1\<rparr>\<rparr>) 0)) = 1 \<and>
   length (entries (history (navigate (default_config\<lparr>initial_page := 2\<rparr>) example_env
     (example_state\<lparr>history := \<lparr>entries = [HEntry ''/library'' None, HEntry ''/library?p'' (Some [(''per_page'', JNum 10), (''search'', JStr []), (''order'', JStr ''desc''), (''orderby'', JStr ''date''), (''pagenum'', JNum 1), (''meta_query'', JObj []), (''ver'', JNum 1)])], hindex = 1\<rparr>\<rparr>) 0))) = 2"
proof -
  have h: "history_ready (example_state\<lparr>history := \<lparr>entries = [HEntry ''/library'' None, HEntry ''/library?p'' (Some [(''per_page'', JNum 10), (''search'', JStr []), (''order'', JStr ''desc''), (''orderby'', JStr ''date''), (''pagenum'', JNum 1), (''meta_query'', JObj []), (''ver'', JNum 1)])], hindex = 1\<rparr>\<rparr>) \<and>
   \<not> page_updated (example_state\<lparr>history := \<lparr>entries = [HEntry ''/library'' None, HEntry ''/library?p'' (Some [(''per_page'', JNum 10), (''search'', JStr []), (''order'', JStr ''desc''), (''orderby'', JStr ''date''), (''pagenum'', JNum 1), (''meta_query'', JObj []), (''ver'', JNum 1)])], hindex = 1\<rparr>\<rparr>) \<and>
   entries (history (example_state\<lparr>history := \<lparr>entries = [HEntry ''/library'' None, HEntry ''/library?p'' (Some [(''per_page'', JNum 10), (''search'', JStr []), (''order'', JStr ''desc''), (''orderby'', JStr ''date''), (''pagenum'', JNum 1), (''meta_query'', JObj []), (''ver'', JNum 1)])], hindex = 1\<rparr>\<rparr>)) ! 0
     = HEntry ''/library'' None \<and>
   initial_page (default_config\<lparr>initial_page := 2\<rparr>) \<noteq> 1 \<and>
   ''pagenum'' \<notin> set (obj_keys (initial_taxonomies (default_config\<lparr>initial_page := 2\<rparr>))) \<and>
   construct_url (post_type (default_config\<lparr>initial_page := 2\<rparr>)) (meta_fields (default_config\<lparr>initial_page := 2\<rparr>))
     (obj_set (reset_params (default_config\<lparr>initial_page := 2\<rparr>)) ''pagenum'' (JNum 1)) = Inr (\<lparr>req_path = ''/wp-json/wp/v2/posts'',
      req_args = [(''context'', ''embed''), (''_embed'', ''1''), (''per_page'', ''10''), (''search'', ''''),
                  (''order'', ''desc''), (''orderby'', ''date''), (''meta_query'', ''[object Object]''),
                  (''ver'', ''1''), (''page'', ''1'')]\<rparr>, [(''per_page'', JNum 10), (''search'', JStr []), (''order'', JStr ''desc''), (''orderby'', JStr ''date''), (''pagenum'', JNum 1), (''meta_query'', JObj []), (''ver'', JNum 1)])" by code_simp
  then show ?thesis
    using navigate_initial_entry [where s = "example_state\<lparr>history := \<lparr>entries = [HEntry ''/library'' None, HEntry ''/library?p'' (Some [(''per_page'', JNum 10), (''search'', JStr []), (''order'', JStr ''desc''), (''orderby'', JStr ''date''), (''pagenum'', JNum 1), (''meta_query'', JObj []), (''ver'', JNum 1)])], hindex = 1\<rparr>\<rparr>"
      and j = 0 and u = "''/library''" and r = "\<lparr>req_path = ''/wp-json/wp/v2/posts'',
      req_args = [(''context'', ''embed''), (''_embed'', ''1''), (''per_page'', ''10''), (''search'', ''''),
                  (''order'', ''desc''), (''orderby'', ''date''), (''meta_query'', ''[object Object]''),
                  (''ver'', ''1''), (''page'', ''1'')]\<rparr>" and p' = "[(''per_page'', JNum 10), (''search'', JStr []), (''order'', JStr ''desc''), (''orderby'', JStr ''date''), (''pagenum'', JNum 1), (''meta_query'', JObj []), (''ver'', JNum 1)]" and cfg = "default_config\<lparr>initial_page := 2\<rparr>" and e = example_env]
    by (simp add: default_config_def)
qed

lemma reset_terms_unobserved_witness:
  "''category'' \<notin> set (reactive example_state) \<and> \<not> dirty example_state \<and>
   ''category'' \<notin> {''page'', ''pagenum'', ''orderby'', ''meta_key'', ''meta_query'', ''search''} \<and>
   FetchStarted 0 \<lparr>req_path = ''/wp-json/wp/v2/posts'',
      req_args = [(''context'', ''embed''), (''_embed'', ''1''), (''per_page'', ''10''), (''search'', ''cat''),
                  (''order'', ''desc''), (''orderby'', ''date''), (''meta_query'', ''[object Object]''),
                  (''ver'', ''1''), (''category'', []), (''page'', ''1'')]\<rparr>
     \<in> set (events (watch_params default_config example_env
          ((set_search (flush default_config example_env (reset_terms example_state ''category'')) (JStr ''cat''))\<lparr>dirty := False\<rparr>))) \<and>
   FetchStarted 0 \<lparr>req_path = ''/wp-json/wp/v2/posts'',
      req_args = [(''context'', ''embed''), (''_embed'', ''1''), (''per_page'', ''10''), (''search'', ''cat''),
                  (''order'', ''desc''), (''orderby'', ''date''), (''meta_query'', ''[object Object]''),
                  (''ver'', ''1''), (''category'', []), (''page'', ''1'')]\<rparr> \<notin> set (events example_state) \<and>
   (''category'', []) \<in> set [(''context'', ''embed''), (''_embed'', ''1''), (''per_page'', ''10''), (''search'', ''cat''),
                  (''order'', ''desc''), (''orderby'', ''date''), (''meta_query'', ''[object Object]''),
                  (''ver'', ''1''), (''category'', []), (''page'', ''1'')]"
proof -
  let ?r = "\<lparr>req_path = ''/wp-json/wp/v2/posts'',
      req_args = [(''context'', ''embed''), (''_embed'', ''1''), (''per_page'', ''10''), (''search'', ''cat''),
                  (''order'', ''desc''), (''orderby'', ''date''), (''meta_query'', ''[object Object]''),
                  (''ver'', ''1''), (''category'', []), (''page'', ''1'')]\<rparr>"
  have h: "''category'' \<notin> set (reactive example_state)" "\<not> dirty example_state"
    "''category'' \<notin> {''page'', ''pagenum'', ''orderby'', ''meta_key'', ''meta_query'', ''search''}"
    "FetchStarted 0 ?r \<in> set (events (watch_params default_config example_env
          ((set_search (flush default_config example_env (reset_terms example_state ''category'')) (JStr ''cat''))\<lparr>dirty := False\<rparr>)))"
    "FetchStarted 0 ?r \<notin> set (events example_state)"
    by code_simp+
  then show ?thesis using reset_terms_unobserved [OF h] by simp
qed

lemma respond_stale_response_witness:
  "(1, \<lparr>req_path = ''/x'', req_args = []\<rparr>) \<in> set (pending (example_state\<lparr>pending := [(0, \<lparr>req_path = ''/x'', req_args = []\<rparr>), (1, \<lparr>req_path = ''/x'', req_args = []\<rparr>)]\<rparr>)) \<and>
   (1::nat) \<noteq> 0 \<and>
   wp_data (respond (example_state\<lparr>pending := [(0, \<lparr>req_path = ''/x'', req_args = []\<rparr>), (1, \<lparr>req_path = ''/x'', req_args = []\<rparr>)]\<rparr>) 0
     (Response (JArr []) (Some 0) (Some 0))) = JArr [] \<and>
   \<not> loading (respond (example_state\<lparr>pending := [(0, \<lparr>req_path = ''/x'', req_args = []\<rparr>), (1, \<lparr>req_path = ''/x'', req_args = []\<rparr>)]\<rparr>) 0
     (Response (JArr []) (Some 0) (Some 0)))"
  using respond_stale_response [of 1 "\<lparr>req_path = ''/x'', req_args = []\<rparr>"
    "example_state\<lparr>pending := [(0, \<lparr>req_path = ''/x'', req_args = []\<rparr>), (1, \<lparr>req_path = ''/x'', req_args = []\<rparr>)]\<rparr>" 0]
  by simp

end
