(* ===== verification/Resources.thy ===== *)
theory Resources
  imports JsValue
begin

text \<open>
  The computed property \<^verbatim>\<open>resources\<close> (src/resource-library.js, lines
  125-187): lodash \<^verbatim>\<open>map\<close> over the raw response \<^verbatim>\<open>wp_data\<close>, which
  rewrites each post in place.  A post's \<^verbatim>\<open>title\<close> and \<^verbatim>\<open>excerpt\<close> become
  their \<^verbatim>\<open>rendered\<close> text, and its taxonomy terms, embedded by the REST API
  as one array per taxonomy, are regrouped into the object \<^verbatim>\<open>terms\<close> keyed
  by taxonomy name.  The closure \<^verbatim>\<open>getFeaturedImage\<close> that every post also
  receives is the function \<open>featured_image\<close> of the post; it is not a JSON
  value and is not stored in the model's post.  A post that is not an object
  throws as soon as a property is assigned to it (the module is strict code).
\<close>

text \<open>\<^verbatim>\<open>map\<close> of a function that may throw: the first exception ends it.\<close>

fun map_sum :: "('a \<Rightarrow> js_error + 'b) \<Rightarrow> 'a list \<Rightarrow> js_error + 'b list" where
  "map_sum f [] = Inr []"
| "map_sum f (x # xs) =
     (case f x of
        Inl e \<Rightarrow> Inl e
      | Inr y \<Rightarrow> (case map_sum f xs of Inl e \<Rightarrow> Inl e | Inr ys \<Rightarrow> Inr (y # ys)))"

text \<open>
  Lines 127-141 for the field \<open>f\<close> (\<^verbatim>\<open>title\<close> or \<^verbatim>\<open>excerpt\<close>): a falsy field
  becomes \<^verbatim>\<open>''\<close>, then a truthy \<^verbatim>\<open>f.rendered\<close> replaces the field.
\<close>

definition unwrap_rendered :: "json obj \<Rightarrow> string \<Rightarrow> js_error + json obj" where
  "unwrap_rendered item f =
     (let item1 = (if val_truthy (prop_get (JObj item) f) then item else obj_set item f (JStr []));
          v = (case obj_get item1 f of Some x \<Rightarrow> x | None \<Rightarrow> JNull);
          r = prop_get v ''rendered''
      in if \<not> val_truthy r then Inr item1
         else case r of
           Some (JV x) \<Rightarrow> Inr (obj_set item1 f x)
         | _ \<Rightarrow> Inl OutOfModel)"

text \<open>
  Lines 167-172: \<^verbatim>\<open>term.taxonomy\<close> as a property key, with
  \<^verbatim>\<open>post_tag\<close> renamed \<^verbatim>\<open>tags\<close>; a \<^verbatim>\<open>null\<close> term throws.
\<close>

fun term_taxonomy :: "json \<Rightarrow> js_error + string" where
  "term_taxonomy JNull = Inl TypeError"
| "term_taxonomy t =
     (case prop_get t ''taxonomy'' of
        None \<Rightarrow> Inr ''undefined''
      | Some (JV v) \<Rightarrow> Inr (if v = JStr ''post_tag'' then ''tags'' else js_to_string v)
      | Some JHost \<Rightarrow> Inl OutOfModel)"

text \<open>
  Lines 174-178: a name not yet in \<^verbatim>\<open>item.terms\<close> starts a new array; a name
  inherited from \<^verbatim>\<open>Object.prototype\<close> is not \<^verbatim>\<open>undefined\<close>, and the
  \<^verbatim>\<open>push\<close> on it throws.
\<close>

definition add_term :: "json obj \<Rightarrow> json \<Rightarrow> js_error + json obj" where
  "add_term terms t =
     (case term_taxonomy t of
        Inl e \<Rightarrow> Inl e
      | Inr name \<Rightarrow>
          (case obj_get terms name of
             Some (JArr xs) \<Rightarrow> Inr (obj_set terms name (JArr (xs @ [t])))
           | Some _ \<Rightarrow> Inl OutOfModel
           | None \<Rightarrow> if inherited name = None then Inr (obj_set terms name (JArr [t])) else Inl TypeError))"

fun add_terms_seq :: "json obj \<Rightarrow> json list \<Rightarrow> js_error + json obj" where
  "add_terms_seq terms [] = Inr terms"
| "add_terms_seq terms (t # ts) = (case add_term terms t of Inl e \<Rightarrow> Inl e | Inr terms' \<Rightarrow> add_terms_seq terms' ts)"

text \<open>
  Lines 164-181 for one taxonomy: \<^verbatim>\<open>taxonomy.length > 0\<close>, then
  \<^verbatim>\<open>taxonomy.forEach\<close>, which only an array has.
\<close>

definition group_taxonomy :: "json obj \<Rightarrow> json \<Rightarrow> js_error + json obj" where
  "group_taxonomy terms taxonomy =
     (if taxonomy = JNull then Inl TypeError
      else case prop_get taxonomy ''length'' of
        None \<Rightarrow> Inr terms
      | Some (JV (JNum n)) \<Rightarrow>
          if n \<le> 0 then Inr terms
          else (case taxonomy of JArr ts \<Rightarrow> add_terms_seq terms ts | _ \<Rightarrow> Inl TypeError)
      | Some _ \<Rightarrow> Inl OutOfModel)"

fun group_taxonomies :: "json obj \<Rightarrow> json list \<Rightarrow> js_error + json obj" where
  "group_taxonomies terms [] = Inr terms"
| "group_taxonomies terms (x # xs) =
     (case group_taxonomy terms x of Inl e \<Rightarrow> Inl e | Inr terms' \<Rightarrow> group_taxonomies terms' xs)"

text \<open>Lines 162-184: the grouped terms of a post, from \<^verbatim>\<open>_embedded['wp:term']\<close>.\<close>

definition group_terms :: "json obj \<Rightarrow> js_error + json obj" where
  "group_terms item =
     (let wt = lodash_get (JObj item) [''_embedded'', ''wp:term''] in
      if \<not> val_truthy wt then Inr []
      else case wt of
        Some (JV (JArr taxes)) \<Rightarrow> group_taxonomies [] taxes
      | Some (JV _) \<Rightarrow> Inl TypeError
      | _ \<Rightarrow> Inl OutOfModel)"

text \<open>The callback of lines 126-186 on one element of \<^verbatim>\<open>wp_data\<close>.\<close>

fun resource_item :: "json \<Rightarrow> js_error + json obj" where
  "resource_item (JObj item) =
     (case unwrap_rendered item ''title'' of
        Inl e \<Rightarrow> Inl e
      | Inr item1 \<Rightarrow>
          (case unwrap_rendered item1 ''excerpt'' of
             Inl e \<Rightarrow> Inl e
           | Inr item2 \<Rightarrow>
               (case group_terms item2 of
                  Inl e \<Rightarrow> Inl e
                | Inr terms \<Rightarrow> Inr (obj_set item2 ''terms'' (JObj terms)))))"
| "resource_item (JArr xs) = Inl OutOfModel"
| "resource_item _ = Inl TypeError"

text \<open>
  lodash \<^verbatim>\<open>map(wp_data, ...)\<close>: over the elements of an array, the values of an
  object, the characters of a string, and nothing for other values.
\<close>

fun resources :: "json \<Rightarrow> js_error + json obj list" where
  "resources (JArr xs) = map_sum resource_item xs"
| "resources (JObj kvs) = map_sum resource_item (map snd kvs)"
| "resources (JStr s) = map_sum resource_item (map (\<lambda>c. JStr [c]) s)"
| "resources _ = Inr []"

text \<open>
  \<^verbatim>\<open>getFeaturedImage(size)\<close> (lines 144-159): the URL of the requested size
  of the embedded featured image, of the full size when that size is missing or
  not given, or \<^verbatim>\<open>false\<close>.
\<close>

definition featured_image :: "json obj \<Rightarrow> json option \<Rightarrow> jsval" where
  "featured_image item sz =
     (case lodash_get (JObj item) [''_embedded'', ''wp:featuredmedia'', ''0'', ''media_details''] of
        None \<Rightarrow> JV (JBool False)
      | Some base \<Rightarrow>
          if \<not> val_truthy (Some base) then JV (JBool False)
          else
            (let sz' = (case sz of
                            Some s \<Rightarrow> if js_truthy s \<and> val_truthy (lget base [''sizes'', js_to_string s])
                                      then js_to_string s else ''full''
                          | None \<Rightarrow> ''full'');
                 url = lget base [''sizes'', sz', ''source_url'']
             in case url of
                  Some u \<Rightarrow> if val_truthy (Some u) then u else JV (JBool False)
                | None \<Rightarrow> JV (JBool False)))"

text \<open>\<^verbatim>\<open>Array.prototype.join(separator)\<close> of strings.\<close>

fun join_sep :: "string \<Rightarrow> string list \<Rightarrow> string" where
  "join_sep sep [] = []"
| "join_sep sep [w] = w"
| "join_sep sep (w # v # ws) = w @ sep @ join_sep sep (v # ws)"

text \<open>
  \<^verbatim>\<open>item.name\<close> of one term, converted by \<^verbatim>\<open>join\<close>: \<^verbatim>\<open>undefined\<close> and
  \<^verbatim>\<open>null\<close> become the empty string; a \<^verbatim>\<open>null\<close> term throws.
\<close>

fun term_name_str :: "json \<Rightarrow> js_error + string" where
  "term_name_str JNull = Inl TypeError"
| "term_name_str t =
     (case prop_get t ''name'' of
        None \<Rightarrow> Inr []
      | Some (JV JNull) \<Rightarrow> Inr []
      | Some (JV v) \<Rightarrow> Inr (js_to_string v)
      | Some JHost \<Rightarrow> Inl OutOfModel)"

text \<open>
  \<^verbatim>\<open>joinTerms(item, taxonomy, separator = ', ')\<close> (lines 426-436), for a string
  separator or none: the empty string unless \<^verbatim>\<open>item.terms[taxonomy]\<close> is an
  array, else the names of its terms joined by the separator.  An item without
  \<^verbatim>\<open>terms\<close> throws.
\<close>

definition join_terms :: "json obj \<Rightarrow> string \<Rightarrow> string option \<Rightarrow> js_error + string" where
  "join_terms item taxonomy separator =
     (let sep = (case separator of Some s \<Rightarrow> s | None \<Rightarrow> '', '') in
      case prop_get (JObj item) ''terms'' of
        None \<Rightarrow> Inl TypeError
      | Some (JV JNull) \<Rightarrow> Inl TypeError
      | Some (JV ts) \<Rightarrow>
          (case prop_get ts taxonomy of
             Some (JV (JArr xs)) \<Rightarrow>
               (case map_sum term_name_str xs of Inl e \<Rightarrow> Inl e | Inr names \<Rightarrow> Inr (join_sep sep names))
           | _ \<Rightarrow> Inr [])
      | Some JHost \<Rightarrow> Inl OutOfModel)"

subsection \<open>Specification of the grouping and of settled posts\<close>

text \<open>
  \<open>terms_by_taxonomy\<close> is what the grouping promises (specification,
  section "Resource" and step "Terms"): the terms of one taxonomy in response
  order, where a term's taxonomy is the string in its \<^verbatim>\<open>taxonomy\<close> field
  with \<^verbatim>\<open>post_tag\<close> renamed \<^verbatim>\<open>tags\<close> (\<open>wp_taxonomy_name\<close>), and a
  non-string field counts under its \<^verbatim>\<open>String\<close> conversion.  These are
  written from the specification, independently of \<open>term_taxonomy\<close>.
  \<open>flat_rendered\<close> and \<open>settled_field\<close> describe a field before and after
  its \<^verbatim>\<open>rendered\<close> text is unwrapped.
\<close>

definition wp_taxonomy_name :: "string \<Rightarrow> string" where
  "wp_taxonomy_name n = (if n = ''post_tag'' then ''tags'' else n)"

definition taxonomy_key :: "json \<Rightarrow> string option" where
  "taxonomy_key t =
     (if t = JNull then None
      else case prop_get t ''taxonomy'' of
        None \<Rightarrow> Some ''undefined''
      | Some (JV (JStr n)) \<Rightarrow> Some (wp_taxonomy_name n)
      | Some (JV v) \<Rightarrow> Some (js_to_string v)
      | Some JHost \<Rightarrow> None)"

definition terms_by_taxonomy :: "json list \<Rightarrow> string \<Rightarrow> json option" where
  "terms_by_taxonomy ts name =
     (let xs = filter (\<lambda>t. taxonomy_key t = Some name) ts in if xs = [] then None else Some (JArr xs))"

definition terms_named :: "json list \<Rightarrow> bool" where
  "terms_named ts \<longleftrightarrow> (\<forall>t \<in> set ts. case taxonomy_key t of Some nm \<Rightarrow> inherited nm = None | None \<Rightarrow> False)"

text \<open>The name a term with a string name displays.\<close>

definition term_label :: "json \<Rightarrow> string" where
  "term_label t = (case prop_get t ''name'' of Some (JV (JStr nm)) \<Rightarrow> nm | _ \<Rightarrow> [])"

definition flat_rendered :: "json obj \<Rightarrow> string \<Rightarrow> bool" where
  "flat_rendered item f =
     (case obj_get item f of
        Some v \<Rightarrow> (case prop_get v ''rendered'' of Some (JV x) \<Rightarrow> \<not> val_truthy (prop_get x ''rendered'') | _ \<Rightarrow> True)
      | None \<Rightarrow> True)"

definition settled_field :: "json obj \<Rightarrow> string \<Rightarrow> bool" where
  "settled_field item f =
     (case obj_get item f of
        Some w \<Rightarrow> (js_truthy w \<or> w = JStr []) \<and> \<not> val_truthy (prop_get w ''rendered'')
      | None \<Rightarrow> False)"

subsection \<open>Properties\<close>

lemma term_taxonomy_key: "term_taxonomy t = Inr n \<longleftrightarrow> taxonomy_key t = Some n"
  by (cases t) (auto simp: taxonomy_key_def wp_taxonomy_name_def split: option.splits jsval.splits json.splits)

lemma add_term_grouped:
  assumes T: "\<forall>n. obj_get T n = terms_by_taxonomy seen n"
    and t: "term_taxonomy t = Inr nm" and i: "inherited nm = None"
  shows "\<exists>T'. add_term T t = Inr T' \<and> (\<forall>n. obj_get T' n = terms_by_taxonomy (seen @ [t]) n)"
proof (cases "filter (\<lambda>s. taxonomy_key s = Some nm) seen = []")
  case True
  then have "obj_get T nm = None" using T by (simp add: terms_by_taxonomy_def)
  then show ?thesis using T t t [unfolded term_taxonomy_key] i True
    by (auto simp: add_term_def terms_by_taxonomy_def obj_simps Let_def)
next
  case False
  then have "obj_get T nm = Some (JArr (filter (\<lambda>s. taxonomy_key s = Some nm) seen))"
    using T by (simp add: terms_by_taxonomy_def)
  then show ?thesis using T t t [unfolded term_taxonomy_key] False
    by (auto simp: add_term_def terms_by_taxonomy_def obj_simps Let_def)
qed


lemma add_terms_seq_grouped:
  "\<forall>n. obj_get T n = terms_by_taxonomy seen n \<Longrightarrow> terms_named ts \<Longrightarrow>
   \<exists>T'. add_terms_seq T ts = Inr T' \<and> (\<forall>n. obj_get T' n = terms_by_taxonomy (seen @ ts) n)"
proof (induction ts arbitrary: T seen)
  case Nil
  then show ?case by simp
next
  case (Cons t ts)
  from Cons.prems(2) obtain nm where t: "term_taxonomy t = Inr nm" "inherited nm = None"
    by (auto simp: terms_named_def term_taxonomy_key split: option.splits)
  obtain T1 where T1: "add_term T t = Inr T1" "\<forall>n. obj_get T1 n = terms_by_taxonomy (seen @ [t]) n"
    using add_term_grouped [OF Cons.prems(1) t] by blast
  have "terms_named ts" using Cons.prems(2) by (simp add: terms_named_def)
  then obtain T2 where "add_terms_seq T1 ts = Inr T2" "\<forall>n. obj_get T2 n = terms_by_taxonomy ((seen @ [t]) @ ts) n"
    using Cons.IH [OF T1(2)] by blast
  then show ?case using T1 by simp
qed

lemma group_taxonomies_grouped:
  "\<forall>n. obj_get T n = terms_by_taxonomy seen n \<Longrightarrow> terms_named (concat tss) \<Longrightarrow>
   \<exists>T'. group_taxonomies T (map JArr tss) = Inr T' \<and> (\<forall>n. obj_get T' n = terms_by_taxonomy (seen @ concat tss) n)"
proof (induction tss arbitrary: T seen)
  case Nil
  then show ?case by simp
next
  case (Cons ts tss)
  have nts: "terms_named ts" "terms_named (concat tss)" using Cons.prems(2) by (simp_all add: terms_named_def)
  obtain T1 where T1: "group_taxonomy T (JArr ts) = Inr T1" "\<forall>n. obj_get T1 n = terms_by_taxonomy (seen @ ts) n"
  proof (cases "ts = []")
    case True
    then show ?thesis using that Cons.prems(1) by (simp add: group_taxonomy_def)
  next
    case False
    then show ?thesis using that add_terms_seq_grouped [OF Cons.prems(1) nts(1)]
      by (auto simp: group_taxonomy_def)
  qed
  obtain T2 where "group_taxonomies T1 (map JArr tss) = Inr T2"
      "\<forall>n. obj_get T2 n = terms_by_taxonomy ((seen @ ts) @ concat tss) n"
    using Cons.IH [OF T1(2) nts(2)] by blast
  then show ?case using T1 by simp
qed

lemma unwrap_rendered_Inr: "\<exists>item'. unwrap_rendered item f = Inr item'"
proof -
  have "prop_get v ''rendered'' \<noteq> Some JHost" for v
    by (cases v) (simp_all add: inherited_def object_proto_props_def split: option.splits)
  then show ?thesis
    by (auto simp: unwrap_rendered_def Let_def split: option.splits jsval.splits)
qed

lemma unwrap_rendered_other:
  "unwrap_rendered item f = Inr item' \<Longrightarrow> k \<noteq> f \<Longrightarrow> obj_get item' k = obj_get item k"
  by (auto simp: unwrap_rendered_def Let_def obj_simps split: if_splits option.splits jsval.splits)

lemma resource_item_grouped:
  assumes wt: "lodash_get (JObj item) [''_embedded'', ''wp:term''] = Some (JV (JArr (map JArr tss)))"
    and named: "terms_named (concat tss)"
  shows "\<exists>item' T. resource_item (JObj item) = Inr item' \<and> obj_get item' ''terms'' = Some (JObj T) \<and>
           (\<forall>nm. obj_get T nm = terms_by_taxonomy (concat tss) nm)"
proof -
  obtain item1 where i1: "unwrap_rendered item ''title'' = Inr item1" using unwrap_rendered_Inr by blast
  obtain item2 where i2: "unwrap_rendered item1 ''excerpt'' = Inr item2" using unwrap_rendered_Inr by blast
  have emb: "obj_get item2 ''_embedded'' = obj_get item ''_embedded''"
    using unwrap_rendered_other [OF i1, of "''_embedded''"] unwrap_rendered_other [OF i2, of "''_embedded''"] by simp
  have wt2: "lodash_get (JObj item2) [''_embedded'', ''wp:term''] = Some (JV (JArr (map JArr tss)))"
    using wt emb by (simp add: lodash_get_Cons)
  have e: "\<forall>n. obj_get [] n = terms_by_taxonomy [] n" by (simp add: obj_get_def terms_by_taxonomy_def)
  obtain T where T: "group_taxonomies [] (map JArr tss) = Inr T" "\<forall>n. obj_get T n = terms_by_taxonomy ([] @ concat tss) n"
    using group_taxonomies_grouped [OF e named] by blast
  have "group_terms item2 = Inr T" using wt2 T(1) by (simp add: group_terms_def)
  then show ?thesis using i1 i2 T(2) by (simp add: obj_simps)
qed

text \<open>
  C15: the terms a post receives are its embedded terms grouped by taxonomy:
  for every name, the terms whose taxonomy is that name (with
  \<^verbatim>\<open>post_tag\<close> read as \<^verbatim>\<open>tags\<close>), in the order the response lists them,
  when no taxonomy is named like a property of \<^verbatim>\<open>Object.prototype\<close>.
\<close>

theorem resource_item_terms:
  assumes wt: "lodash_get (JObj item) [''_embedded'', ''wp:term''] = Some (JV (JArr (map JArr tss)))"
    and named: "terms_named (concat tss)"
  shows "\<exists>item' T. resource_item (JObj item) = Inr item' \<and> obj_get item' ''terms'' = Some (JObj T) \<and>
           (\<forall>nm. obj_get T nm = terms_by_taxonomy (concat tss) nm)"
  using resource_item_grouped [OF wt named] .


lemma prop_get_rendered_host: "prop_get v ''rendered'' \<noteq> Some JHost"
  by (cases v) (simp_all add: inherited_def object_proto_props_def split: option.splits)

lemma prop_get_field:
  "inherited f = None \<Longrightarrow> val_truthy (prop_get (JObj item) f) = (case obj_get item f of Some v \<Rightarrow> js_truthy v | None \<Rightarrow> False)"
  by (simp split: option.splits)

lemma rendered_of_empty [simp]: "prop_get (JStr []) ''rendered'' = None"
  by (simp add: canonical_index_def inherited_def object_proto_props_def)

lemma unwrap_settles:
  assumes u: "unwrap_rendered item f = Inr item'" and fl: "flat_rendered item f" and i: "inherited f = None"
  shows "settled_field item' f"
proof -
  define item1 where "item1 = (if val_truthy (prop_get (JObj item) f) then item else obj_set item f (JStr []))"
  define v where "v = (case obj_get item1 f of Some x \<Rightarrow> x | None \<Rightarrow> JNull)"
  have v1: "obj_get item1 f = Some v" "js_truthy v \<or> v = JStr []"
    using i by (auto simp: item1_def v_def obj_simps prop_get_field split: option.splits)
  have fl1: "case prop_get v ''rendered'' of Some (JV x) \<Rightarrow> \<not> val_truthy (prop_get x ''rendered'') | _ \<Rightarrow> True"
  proof (cases "val_truthy (prop_get (JObj item) f)")
    case True
    then have "obj_get item f = Some v" using v1 by (simp add: item1_def)
    then show ?thesis using fl by (simp add: flat_rendered_def)
  next
    case False
    then have "v = JStr []" using v1 by (simp add: item1_def obj_simps)
    then show ?thesis by (simp del: prop_get.simps)
  qed
  have u': "unwrap_rendered item f =
      (if \<not> val_truthy (prop_get v ''rendered'') then Inr item1
       else case prop_get v ''rendered'' of Some (JV x) \<Rightarrow> Inr (obj_set item1 f x) | _ \<Rightarrow> Inl OutOfModel)"
    unfolding unwrap_rendered_def Let_def item1_def [symmetric] v_def [symmetric] by (rule refl)
  show ?thesis
  proof (cases "val_truthy (prop_get v ''rendered'')")
    case False
    then show ?thesis using u u' v1 by (simp add: settled_field_def)
  next
    case True
    then obtain x where x: "prop_get v ''rendered'' = Some (JV x)"
      using prop_get_rendered_host [of v] by (cases "prop_get v ''rendered''") (auto elim: jsval.exhaust)
    then have "item' = obj_set item1 f x" "js_truthy x" using u u' True by simp_all
    then show ?thesis using fl1 x by (simp add: settled_field_def obj_simps)
  qed
qed

lemma unwrap_settled:
  assumes s: "settled_field item f" and i: "inherited f = None"
  shows "unwrap_rendered item f = Inr item"
proof -
  obtain w where w: "obj_get item f = Some w" "js_truthy w \<or> w = JStr []" "\<not> val_truthy (prop_get w ''rendered'')"
    using s by (auto simp: settled_field_def split: option.splits)
  have "(if val_truthy (prop_get (JObj item) f) then item else obj_set item f (JStr [])) = item"
    using w i by (auto simp: prop_get_field obj_simps)
  then show ?thesis using w by (simp add: unwrap_rendered_def Let_def)
qed

lemma settled_field_other: "obj_get item' f = obj_get item f \<Longrightarrow> settled_field item f \<Longrightarrow> settled_field item' f"
  by (simp add: settled_field_def)


lemma group_terms_cong:
  "obj_get item' ''_embedded'' = obj_get item ''_embedded'' \<Longrightarrow> group_terms item' = group_terms item"
  by (simp add: group_terms_def lodash_get_Cons)

text \<open>
  C16: evaluating \<^verbatim>\<open>resources\<close> again on the posts it has rewritten in place
  gives the same posts, so Vue's re-evaluation after the mutation reaches a
  fixed point; this needs only that a \<^verbatim>\<open>rendered\<close> value is not itself an
  object with a truthy \<^verbatim>\<open>rendered\<close>.
\<close>

theorem resource_item_idempotent:
  assumes r: "resource_item (JObj item) = Inr item'"
    and ft: "flat_rendered item ''title''" and fe: "flat_rendered item ''excerpt''"
  shows "resource_item (JObj item') = Inr item'"
proof -
  have it: "inherited ''title'' = None" "inherited ''excerpt'' = None" "inherited ''terms'' = None"
    by (simp_all add: inherited_def object_proto_props_def)
  obtain item1 where i1: "unwrap_rendered item ''title'' = Inr item1" using unwrap_rendered_Inr by blast
  obtain item2 where i2: "unwrap_rendered item1 ''excerpt'' = Inr item2" using unwrap_rendered_Inr by blast
  obtain T where T: "group_terms item2 = Inr T" and it': "item' = obj_set item2 ''terms'' (JObj T)"
    using r i1 i2 by (auto split: sum.splits)
  have fe1: "flat_rendered item1 ''excerpt''"
    using fe unwrap_rendered_other [OF i1, of "''excerpt''"] by (simp add: flat_rendered_def)
  have st: "settled_field item' ''title''"
    using unwrap_settles [OF i1 ft it(1)] unwrap_rendered_other [OF i2, of "''title''"] it'
    by (simp add: settled_field_def obj_simps)
  have se: "settled_field item' ''excerpt''"
    using unwrap_settles [OF i2 fe1 it(2)] it' by (simp add: settled_field_def obj_simps)
  have emb: "obj_get item' ''_embedded'' = obj_get item2 ''_embedded''" using it' by (simp add: obj_simps)
  have "group_terms item' = Inr T" using group_terms_cong [OF emb] T by simp
  moreover have "obj_set item' ''terms'' (JObj T) = item'" using it' by (simp add: obj_simps)
  ultimately show ?thesis using unwrap_settled [OF st it(1)] unwrap_settled [OF se it(2)] by simp
qed

text \<open>
  C29: a title whose \<^verbatim>\<open>rendered\<close> text is empty is left as the object
  \<^verbatim>\<open>{rendered: ""}\<close>, so a template that prints the title shows
  \<^verbatim>\<open>[object Object]\<close> instead of nothing.
\<close>

theorem resource_item_empty_rendered:
  assumes "obj_get item ''title'' = Some (JObj t)" and "obj_get t ''rendered'' = Some (JStr [])"
    and "resource_item (JObj item) = Inr item'"
  shows "obj_get item' ''title'' = Some (JObj t)"
proof -
  obtain item1 where i1: "unwrap_rendered item ''title'' = Inr item1" using unwrap_rendered_Inr by blast
  have "item1 = item" using i1 assms(1,2) by (simp add: unwrap_rendered_def Let_def)
  then show ?thesis using assms i1
    by (auto simp: obj_simps dest: unwrap_rendered_other [of _ "''excerpt''" _ "''title''"] split: sum.splits)
qed

text \<open>
  C17: the response is used without looking at its status: when
  \<^verbatim>\<open>wp_data\<close> is an object whose first value is not an object, such as the
  error object WordPress returns with status 400, computing \<^verbatim>\<open>resources\<close>
  throws a \<^verbatim>\<open>TypeError\<close> instead of giving an empty list.
\<close>

theorem resources_error_object:
  assumes "kvs \<noteq> []" and "\<forall>x. snd (hd kvs) \<noteq> JObj x" and "\<forall>x. snd (hd kvs) \<noteq> JArr x"
  shows "resources (JObj kvs) = Inl TypeError"
proof -
  obtain k v rest where kvs: "kvs = (k, v) # rest" using assms(1) by (cases kvs) auto
  have "resource_item v = Inl TypeError" using assms(2,3) kvs by (cases v) simp_all
  then show ?thesis using kvs by simp
qed

text \<open>
  C18: \<^verbatim>\<open>getFeaturedImage(size)\<close> gives the URL of the full size when the
  requested size does not exist or no size is given.
\<close>

theorem featured_image_fallback:
  assumes base: "lodash_get (JObj item) [''_embedded'', ''wp:featuredmedia'', ''0'', ''media_details''] = Some (JV (JObj b))"
    and missing: "lget (JV (JObj b)) [''sizes'', s] = None"
    and full: "lget (JV (JObj b)) [''sizes'', ''full'', ''source_url''] = Some (JV (JStr u))" and u: "u \<noteq> []"
  shows "featured_image item (Some (JStr s)) = JV (JStr u) \<and> featured_image item None = JV (JStr u)"
  using assms by (simp add: featured_image_def)


lemma map_sum_Inr_map: "(\<And>x. x \<in> set xs \<Longrightarrow> f x = Inr (g x)) \<Longrightarrow> map_sum f xs = Inr (map g xs)"
  by (induction xs) auto

lemma term_name_str_label:
  "prop_get t ''name'' = Some (JV (JStr nm)) \<Longrightarrow> term_name_str t = Inr (term_label t)"
  by (cases t) (simp_all add: term_label_def)

text \<open>
  C37: \<^verbatim>\<open>joinTerms\<close> on a post that \<^verbatim>\<open>resources\<close> produced, whose embedded
  terms all have string names, lists the names of the post's terms of that
  taxonomy in response order, joined by the separator (\<^verbatim>\<open>', '\<close> when none is
  given); for a taxonomy the post has no term of, it gives the empty string.
\<close>

theorem join_terms_resource:
  assumes wt: "lodash_get (JObj item) [''_embedded'', ''wp:term''] = Some (JV (JArr (map JArr tss)))"
    and named: "terms_named (concat tss)"
    and names: "\<forall>t \<in> set (concat tss). \<exists>nm. prop_get t ''name'' = Some (JV (JStr nm))"
  shows "\<exists>post. resource_item (JObj item) = Inr post \<and>
           join_terms post tax sep =
             Inr (join_sep (case sep of Some s \<Rightarrow> s | None \<Rightarrow> '', '')
                   (map term_label (filter (\<lambda>t. taxonomy_key t = Some tax) (concat tss))))"
proof -
  obtain post T where p: "resource_item (JObj item) = Inr post" "obj_get post ''terms'' = Some (JObj T)"
    and T: "\<forall>nm. obj_get T nm = terms_by_taxonomy (concat tss) nm"
    using resource_item_grouped [OF wt named] by blast
  let ?xs = "filter (\<lambda>t. taxonomy_key t = Some tax) (concat tss)"
  have m: "map_sum term_name_str ?xs = Inr (map term_label ?xs)"
    using names by (intro map_sum_Inr_map) (auto intro: term_name_str_label)
  show ?thesis
  proof (cases "?xs = []")
    case True
    then have "obj_get T tax = None" using T by (simp add: terms_by_taxonomy_def)
    then have "join_terms post tax sep = Inr []" using p(2)
      by (auto simp: join_terms_def inherited_def split: if_splits)
    then show ?thesis using p(1) True by simp
  next
    case False
    then have "obj_get T tax = Some (JArr ?xs)" using T by (simp add: terms_by_taxonomy_def)
    then show ?thesis using p m by (simp add: join_terms_def)
  qed
qed

subsection \<open>Witnesses\<close>

lemma resource_item_terms_witness:
  "lodash_get (JObj [(''_embedded'', JObj [(''wp:term'', JArr [JArr [JObj [(''taxonomy'', JStr ''category'')]],
       JArr [JObj [(''taxonomy'', JStr ''post_tag'')], JObj [(''taxonomy'', JStr ''category''), (''id'', JNum 7)]]])])])
     [''_embedded'', ''wp:term''] =
   Some (JV (JArr (map JArr [[JObj [(''taxonomy'', JStr ''category'')]],
       [JObj [(''taxonomy'', JStr ''post_tag'')], JObj [(''taxonomy'', JStr ''category''), (''id'', JNum 7)]]]))) \<and>
   terms_named (concat [[JObj [(''taxonomy'', JStr ''category'')]],
       [JObj [(''taxonomy'', JStr ''post_tag'')], JObj [(''taxonomy'', JStr ''category''), (''id'', JNum 7)]]]) \<and>
   terms_by_taxonomy (concat [[JObj [(''taxonomy'', JStr ''category'')]],
       [JObj [(''taxonomy'', JStr ''post_tag'')], JObj [(''taxonomy'', JStr ''category''), (''id'', JNum 7)]]]) ''category''
     = Some (JArr [JObj [(''taxonomy'', JStr ''category'')], JObj [(''taxonomy'', JStr ''category''), (''id'', JNum 7)]]) \<and>
   (\<exists>item' T. resource_item (JObj [(''_embedded'', JObj [(''wp:term'', JArr [JArr [JObj [(''taxonomy'', JStr ''category'')]],
       JArr [JObj [(''taxonomy'', JStr ''post_tag'')], JObj [(''taxonomy'', JStr ''category''), (''id'', JNum 7)]]])])]) = Inr item' \<and>
     obj_get item' ''terms'' = Some (JObj T) \<and>
     (\<forall>nm. obj_get T nm = terms_by_taxonomy (concat [[JObj [(''taxonomy'', JStr ''category'')]],
       [JObj [(''taxonomy'', JStr ''post_tag'')], JObj [(''taxonomy'', JStr ''category''), (''id'', JNum 7)]]]) nm))"
proof -
  have h: "lodash_get (JObj [(''_embedded'', JObj [(''wp:term'', JArr [JArr [JObj [(''taxonomy'', JStr ''category'')]],
       JArr [JObj [(''taxonomy'', JStr ''post_tag'')], JObj [(''taxonomy'', JStr ''category''), (''id'', JNum 7)]]])])])
     [''_embedded'', ''wp:term''] =
   Some (JV (JArr (map JArr [[JObj [(''taxonomy'', JStr ''category'')]],
       [JObj [(''taxonomy'', JStr ''post_tag'')], JObj [(''taxonomy'', JStr ''category''), (''id'', JNum 7)]]])))"
    "terms_named (concat [[JObj [(''taxonomy'', JStr ''category'')]],
       [JObj [(''taxonomy'', JStr ''post_tag'')], JObj [(''taxonomy'', JStr ''category''), (''id'', JNum 7)]]])"
    "terms_by_taxonomy (concat [[JObj [(''taxonomy'', JStr ''category'')]],
       [JObj [(''taxonomy'', JStr ''post_tag'')], JObj [(''taxonomy'', JStr ''category''), (''id'', JNum 7)]]]) ''category''
     = Some (JArr [JObj [(''taxonomy'', JStr ''category'')], JObj [(''taxonomy'', JStr ''category''), (''id'', JNum 7)]])"
    by code_simp+
  then show ?thesis using resource_item_terms [OF h(1,2)] by blast
qed

lemma resource_item_idempotent_witness:
  "resource_item (JObj [(''title'', JObj [(''rendered'', JStr ''Hi'')])]) =
     Inr [(''title'', JStr ''Hi''), (''excerpt'', JStr []), (''terms'', JObj [])] \<and>
   flat_rendered [(''title'', JObj [(''rendered'', JStr ''Hi'')])] ''title'' \<and>
   flat_rendered [(''title'', JObj [(''rendered'', JStr ''Hi'')])] ''excerpt'' \<and>
   resource_item (JObj [(''title'', JStr ''Hi''), (''excerpt'', JStr []), (''terms'', JObj [])]) =
     Inr [(''title'', JStr ''Hi''), (''excerpt'', JStr []), (''terms'', JObj [])]"
proof -
  have h: "resource_item (JObj [(''title'', JObj [(''rendered'', JStr ''Hi'')])]) =
     Inr [(''title'', JStr ''Hi''), (''excerpt'', JStr []), (''terms'', JObj [])]"
    "flat_rendered [(''title'', JObj [(''rendered'', JStr ''Hi'')])] ''title''"
    "flat_rendered [(''title'', JObj [(''rendered'', JStr ''Hi'')])] ''excerpt''"
    by code_simp+
  then show ?thesis using resource_item_idempotent [OF h] by blast
qed

lemma resource_item_empty_rendered_witness:
  "obj_get [(''title'', JObj [(''rendered'', JStr [])])] ''title'' = Some (JObj [(''rendered'', JStr [])]) \<and>
   obj_get [(''rendered'', JStr [])] ''rendered'' = Some (JStr []) \<and>
   resource_item (JObj [(''title'', JObj [(''rendered'', JStr [])])]) =
     Inr [(''title'', JObj [(''rendered'', JStr [])]), (''excerpt'', JStr []), (''terms'', JObj [])] \<and>
   obj_get [(''title'', JObj [(''rendered'', JStr [])]), (''excerpt'', JStr []), (''terms'', JObj [])] ''title''
     = Some (JObj [(''rendered'', JStr [])])"
proof -
  have h: "obj_get [(''title'', JObj [(''rendered'', JStr [])])] ''title'' = Some (JObj [(''rendered'', JStr [])])"
    "obj_get [(''rendered'', JStr [])] ''rendered'' = Some (JStr [])"
    "resource_item (JObj [(''title'', JObj [(''rendered'', JStr [])])]) =
     Inr [(''title'', JObj [(''rendered'', JStr [])]), (''excerpt'', JStr []), (''terms'', JObj [])]"
    by code_simp+
  then show ?thesis using resource_item_empty_rendered [OF h] by blast
qed

lemma resources_error_object_witness:
  "[(''code'', JStr ''rest_post_invalid_page_number''), (''data'', JObj [(''status'', JNum 400)])] \<noteq> [] \<and>
   (\<forall>x. snd (hd [(''code'', JStr ''rest_post_invalid_page_number''), (''data'', JObj [(''status'', JNum 400)])]) \<noteq> JObj x) \<and>
   (\<forall>x. snd (hd [(''code'', JStr ''rest_post_invalid_page_number''), (''data'', JObj [(''status'', JNum 400)])]) \<noteq> JArr x) \<and>
   resources (JObj [(''code'', JStr ''rest_post_invalid_page_number''), (''data'', JObj [(''status'', JNum 400)])]) = Inl TypeError"
  using resources_error_object [of "[(''code'', JStr ''rest_post_invalid_page_number''), (''data'', JObj [(''status'', JNum 400)])]"]
  by simp

lemma featured_image_fallback_witness:
  "lodash_get (JObj [(''_embedded'', JObj [(''wp:featuredmedia'', JArr [JObj [(''media_details'',
       JObj [(''sizes'', JObj [(''full'', JObj [(''source_url'', JStr ''/a.jpg'')])])])]])])])
     [''_embedded'', ''wp:featuredmedia'', ''0'', ''media_details''] =
     Some (JV (JObj [(''sizes'', JObj [(''full'', JObj [(''source_url'', JStr ''/a.jpg'')])])])) \<and>
   lget (JV (JObj [(''sizes'', JObj [(''full'', JObj [(''source_url'', JStr ''/a.jpg'')])])])) [''sizes'', ''medium''] = None \<and>
   lget (JV (JObj [(''sizes'', JObj [(''full'', JObj [(''source_url'', JStr ''/a.jpg'')])])])) [''sizes'', ''full'', ''source_url'']
     = Some (JV (JStr ''/a.jpg'')) \<and>
   featured_image [(''_embedded'', JObj [(''wp:featuredmedia'', JArr [JObj [(''media_details'',
       JObj [(''sizes'', JObj [(''full'', JObj [(''source_url'', JStr ''/a.jpg'')])])])]])])] (Some (JStr ''medium''))
     = JV (JStr ''/a.jpg'')"
proof -
  have h: "lodash_get (JObj [(''_embedded'', JObj [(''wp:featuredmedia'', JArr [JObj [(''media_details'',
       JObj [(''sizes'', JObj [(''full'', JObj [(''source_url'', JStr ''/a.jpg'')])])])]])])])
     [''_embedded'', ''wp:featuredmedia'', ''0'', ''media_details''] =
     Some (JV (JObj [(''sizes'', JObj [(''full'', JObj [(''source_url'', JStr ''/a.jpg'')])])]))"
    "lget (JV (JObj [(''sizes'', JObj [(''full'', JObj [(''source_url'', JStr ''/a.jpg'')])])])) [''sizes'', ''medium''] = None"
    "lget (JV (JObj [(''sizes'', JObj [(''full'', JObj [(''source_url'', JStr ''/a.jpg'')])])])) [''sizes'', ''full'', ''source_url'']
     = Some (JV (JStr ''/a.jpg''))"
    "''/a.jpg'' \<noteq> []"
    by code_simp+
  then show ?thesis using featured_image_fallback [OF h] by blast
qed

lemma join_terms_resource_witness:
  "lodash_get (JObj [(''_embedded'', JObj [(''wp:term'', JArr (map JArr [[JObj [(''taxonomy'', JStr ''category''), (''name'', JStr ''News'')]], [JObj [(''taxonomy'', JStr ''post_tag''), (''name'', JStr ''vue'')], JObj [(''taxonomy'', JStr ''category''), (''name'', JStr ''Events'')]]]))])]) [''_embedded'', ''wp:term''] = Some (JV (JArr (map JArr [[JObj [(''taxonomy'', JStr ''category''), (''name'', JStr ''News'')]], [JObj [(''taxonomy'', JStr ''post_tag''), (''name'', JStr ''vue'')], JObj [(''taxonomy'', JStr ''category''), (''name'', JStr ''Events'')]]]))) \<and>
   terms_named (concat [[JObj [(''taxonomy'', JStr ''category''), (''name'', JStr ''News'')]], [JObj [(''taxonomy'', JStr ''post_tag''), (''name'', JStr ''vue'')], JObj [(''taxonomy'', JStr ''category''), (''name'', JStr ''Events'')]]]) \<and>
   prop_get (JObj [(''taxonomy'', JStr ''category''), (''name'', JStr ''News'')]) ''name'' = Some (JV (JStr ''News'')) \<and> prop_get (JObj [(''taxonomy'', JStr ''post_tag''), (''name'', JStr ''vue'')]) ''name'' = Some (JV (JStr ''vue'')) \<and>
   prop_get (JObj [(''taxonomy'', JStr ''category''), (''name'', JStr ''Events'')]) ''name'' = Some (JV (JStr ''Events'')) \<and>
   (\<exists>post. resource_item (JObj [(''_embedded'', JObj [(''wp:term'', JArr (map JArr [[JObj [(''taxonomy'', JStr ''category''), (''name'', JStr ''News'')]], [JObj [(''taxonomy'', JStr ''post_tag''), (''name'', JStr ''vue'')], JObj [(''taxonomy'', JStr ''category''), (''name'', JStr ''Events'')]]]))])]) = Inr post \<and> join_terms post ''category'' None = Inr ''News, Events'')"
proof -
  have h1: "lodash_get (JObj [(''_embedded'', JObj [(''wp:term'', JArr (map JArr [[JObj [(''taxonomy'', JStr ''category''), (''name'', JStr ''News'')]], [JObj [(''taxonomy'', JStr ''post_tag''), (''name'', JStr ''vue'')], JObj [(''taxonomy'', JStr ''category''), (''name'', JStr ''Events'')]]]))])]) [''_embedded'', ''wp:term''] = Some (JV (JArr (map JArr [[JObj [(''taxonomy'', JStr ''category''), (''name'', JStr ''News'')]], [JObj [(''taxonomy'', JStr ''post_tag''), (''name'', JStr ''vue'')], JObj [(''taxonomy'', JStr ''category''), (''name'', JStr ''Events'')]]])))"
    by code_simp
  have h2: "terms_named (concat [[JObj [(''taxonomy'', JStr ''category''), (''name'', JStr ''News'')]], [JObj [(''taxonomy'', JStr ''post_tag''), (''name'', JStr ''vue'')], JObj [(''taxonomy'', JStr ''category''), (''name'', JStr ''Events'')]]])" by code_simp
  have h3: "\<forall>t \<in> set (concat [[JObj [(''taxonomy'', JStr ''category''), (''name'', JStr ''News'')]], [JObj [(''taxonomy'', JStr ''post_tag''), (''name'', JStr ''vue'')], JObj [(''taxonomy'', JStr ''category''), (''name'', JStr ''Events'')]]]). \<exists>nm. prop_get t ''name'' = Some (JV (JStr nm))"
    by (simp add: obj_get_def)
  have v: "join_sep ('', '') (map term_label (filter (\<lambda>t. taxonomy_key t = Some ''category'') (concat [[JObj [(''taxonomy'', JStr ''category''), (''name'', JStr ''News'')]], [JObj [(''taxonomy'', JStr ''post_tag''), (''name'', JStr ''vue'')], JObj [(''taxonomy'', JStr ''category''), (''name'', JStr ''Events'')]]]))) = ''News, Events''"
    by code_simp
  show ?thesis using join_terms_resource [OF h1 h2 h3, of "''category''" None] h1 h2 v by (simp add: obj_get_def)
qed

end
