(* ===== verification/Lifecycle.thy ===== *)
theory Lifecycle
  imports Watcher
begin

text \<open>
  The life cycle of a request and of the override hooks
  (src/resource-library.js, \<^verbatim>\<open>__fetchData\<close> lines 292-313, the watcher
  lines 644-661, \<^verbatim>\<open>created\<close> lines 667-683).  \<open>loading_ok\<close> says the
  loading indicator is on only while a request is in flight; \<open>watcher_event\<close>
  names the events a watcher run may log.  The lemmas show that every step
  keeps \<open>loading_ok\<close> once \<^verbatim>\<open>created\<close> has succeeded, that answering
  every pending request with any outcomes (\<open>respond_all\<close>) settles the
  component, that no step clears an error, that \<^verbatim>\<open>onInitialLoad\<close> runs exactly once,
  and what the hooks and the indicator do when \<^verbatim>\<open>created\<close> throws.
\<close>

definition loading_ok :: "rl_state \<Rightarrow> bool" where
  "loading_ok s \<longleftrightarrow> (loading s \<longrightarrow> pending s \<noteq> [])"

fun watcher_event :: "log_event \<Rightarrow> bool" where
  "watcher_event (RootEvent n) = (n = ''loading'')"
| "watcher_event (FetchStarted i r) = True"
| "watcher_event (HistoryPushed u) = True"
| "watcher_event ParamsChanged = True"
| "watcher_event InitialLoad = False"
| "watcher_event AfterCreated = False"

definition initial_loads :: "rl_state \<Rightarrow> nat" where
  "initial_loads s = length (filter (\<lambda>ev. ev = InitialLoad) (events s))"

text \<open>
  The environment answering every pending request once, in the order the
  requests were sent, request \<open>i\<close> with the outcome \<open>out i\<close>.
\<close>

fun respond_seq :: "(nat \<Rightarrow> fetch_outcome) \<Rightarrow> nat list \<Rightarrow> rl_state \<Rightarrow> rl_state" where
  "respond_seq out [] s = s"
| "respond_seq out (i # is) s = respond_seq out is (respond s i (out i))"

definition respond_all :: "(nat \<Rightarrow> fetch_outcome) \<Rightarrow> rl_state \<Rightarrow> rl_state" where
  "respond_all out s = respond_seq out (remdups (map fst (pending s))) s"

subsection \<open>Watcher runs\<close>

lemma fetch_data_loading_ok: "loading_ok (fetch_data cfg s)"
  by (cases "construct_url (post_type cfg) (meta_fields cfg) (params s)")
     (auto simp: fetch_data_Inl fetch_data_Inr loading_ok_def)

lemma fetch_data_events:
  "\<exists>evs. events (fetch_data cfg s) = events s @ evs \<and> list_all watcher_event evs"
  by (cases "construct_url (post_type cfg) (meta_fields cfg) (params s)")
     (auto simp: fetch_data_Inl fetch_data_Inr)

lemma assign_param_frame [simp]:
  "loading (assign_param s k v) = loading s \<and> pending (assign_param s k v) = pending s \<and>
   events (assign_param s k v) = events s \<and> is_initial_load (assign_param s k v) = is_initial_load s \<and>
   suppress_history (assign_param s k v) = suppress_history s \<and> history_ready (assign_param s k v) = history_ready s"
  by (simp add: assign_param_def split: prod.split)

lemma push_history_loading [simp]:
  "loading (push_history e s) = loading s \<and> is_initial_load (push_history e s) = is_initial_load s"
  by (simp add: push_history_def Let_def)

lemma watch_params_unfold:
  "watch_params cfg e s =
   (let s3 = (fetch_data cfg (if \<not> page_updated s then assign_param s ''pagenum'' (JNum 1) else s))\<lparr>page_updated := False\<rparr>
    in if \<not> suppress_history s3 \<and> \<not> history_ready s3 then s3
       else (let s4 = (if \<not> suppress_history s3 then push_history e s3 else s3);
                 s5 = s4\<lparr>suppress_history := False\<rparr> in s5\<lparr>events := events s5 @ [ParamsChanged]\<rparr>))"
  by (simp add: watch_params_def Let_def)

lemma watch_params_lifecycle:
  "loading_ok (watch_params cfg e s) \<and> is_initial_load (watch_params cfg e s) = is_initial_load s \<and>
   (\<exists>evs. events (watch_params cfg e s) = events s @ evs \<and> list_all watcher_event evs)"
proof -
  define s1 where "s1 = (if \<not> page_updated s then assign_param s ''pagenum'' (JNum 1) else s)"
  have e1: "events s1 = events s" "is_initial_load s1 = is_initial_load s" by (simp_all add: s1_def)
  obtain evs where f: "events (fetch_data cfg s1) = events s1 @ evs" "list_all watcher_event evs"
    using fetch_data_events by blast
  have l: "loading_ok (fetch_data cfg s1)" by (rule fetch_data_loading_ok)
  have i: "is_initial_load (fetch_data cfg s1) = is_initial_load s1" by (simp add: fetch_data_def Let_def split: sum.split prod.split)
  show ?thesis
    unfolding watch_params_unfold s1_def [symmetric] Let_def
    using f l i e1 by (auto simp: loading_ok_def push_history_events)
qed

lemma flush_watcher_lifecycle:
  "0 < n \<Longrightarrow>
   (dirty s \<or> loading_ok s \<longrightarrow> loading_ok (flush_watcher cfg e n s)) \<and>
   is_initial_load (flush_watcher cfg e n s) = is_initial_load s \<and>
   (\<exists>evs. events (flush_watcher cfg e n s) = events s @ evs \<and> list_all watcher_event evs)"
proof (induction n arbitrary: s)
  case 0
  then show ?case by simp
next
  case (Suc n)
  show ?case
  proof (cases "dirty s")
    case True
    let ?w = "watch_params cfg e (s\<lparr>dirty := False\<rparr>)"
    have w: "loading_ok ?w" "is_initial_load ?w = is_initial_load s"
      "\<exists>evs. events ?w = events s @ evs \<and> list_all watcher_event evs"
      using watch_params_lifecycle [of cfg e "s\<lparr>dirty := False\<rparr>"] by simp_all
    show ?thesis
    proof (cases n)
      case 0
      then show ?thesis using True w by simp
    next
      case (Suc m)
      then have "loading_ok (flush_watcher cfg e n ?w) \<and> is_initial_load (flush_watcher cfg e n ?w) = is_initial_load ?w \<and>
                 (\<exists>evs. events (flush_watcher cfg e n ?w) = events ?w @ evs \<and> list_all watcher_event evs)"
        using Suc.IH [of ?w] w(1) by simp
      then show ?thesis using True w by (fastforce simp: Suc)
    qed
  next
    case False
    then show ?thesis by (auto simp: flush_watcher_clean)
  qed
qed

lemma flush_lifecycle:
  "(dirty s \<or> loading_ok s \<longrightarrow> loading_ok (flush cfg e s)) \<and> is_initial_load (flush cfg e s) = is_initial_load s \<and>
   (\<exists>evs. events (flush cfg e s) = events s @ evs \<and> list_all watcher_event evs)"
  unfolding flush_def max_update_count_def by (rule flush_watcher_lifecycle) simp

lemma initial_loads_watcher [simp]:
  "list_all watcher_event evs \<Longrightarrow> filter (\<lambda>ev. ev = InitialLoad) evs = []"
  by (induction evs) auto

lemma watch_params_param_other:
  "k \<noteq> ''pagenum'' \<Longrightarrow> k \<noteq> ''meta_query'' \<Longrightarrow> obj_get (params (watch_params cfg e s)) k = obj_get (params s) k"
  using watch_params_core [OF refl, where s = s and cfg = cfg and e = e]
  by (cases "construct_url (post_type cfg) (meta_fields cfg) (params (if \<not> page_updated s then assign_param s ''pagenum'' (JNum 1) else s))")
     (auto simp: fetch_data_Inl fetch_data_Inr assign_param_eq obj_simps construct_url_def query_params_get_other
           split: sum.splits prod.splits)

lemma flush_param_other:
  "k \<noteq> ''pagenum'' \<Longrightarrow> k \<noteq> ''meta_query'' \<Longrightarrow> obj_get (params (flush cfg e s)) k = obj_get (params s) k"
  unfolding flush_def
  by (rule flush_watcher_inv [where P = "\<lambda>t. obj_get (params t) k = obj_get (params s) k"]) (simp_all add: watch_params_param_other)

subsection \<open>Responses, navigation and creation\<close>

lemma respond_lifecycle:
  "\<not> loading (respond s i outcome) \<and>
   pending (respond s i outcome) = filter (\<lambda>(j, _). j \<noteq> i) (pending s) \<and>
   initial_loads (respond s i outcome) =
     initial_loads s + (if is_initial_load s \<and> \<not> is_initial_load (respond s i outcome) then 1 else 0) \<and>
   (is_initial_load (respond s i outcome) \<longleftrightarrow> is_initial_load s \<and> (\<forall>b t tp. outcome \<noteq> Response b t tp))"
  by (cases outcome) (auto simp: respond_def Let_def initial_loads_def)

lemma navigate_lifecycle:
  "(loading_ok s \<longrightarrow> loading_ok (navigate cfg e s j)) \<and> is_initial_load (navigate cfg e s j) = is_initial_load s \<and>
   (\<exists>evs. events (navigate cfg e s j) = events s @ evs \<and> list_all watcher_event evs)"
proof (cases "history_ready s")
  case True
  have "dirty (pop_listener cfg s j)" "is_initial_load (pop_listener cfg s j) = is_initial_load s"
    "events (pop_listener cfg s j) = events s"
    using pop_listener_frame [of cfg s j]
    by (simp_all add: pop_listener_def reset_def replace_params_def Let_def split: hist_entry.split option.split)
  then show ?thesis using True flush_lifecycle [of "pop_listener cfg s j" cfg e] by (simp add: navigate_def)
next
  case False
  then show ?thesis by (auto simp: navigate_def loading_ok_def)
qed

lemma user_task_lifecycle:
  "(loading_ok s \<longrightarrow> loading_ok (flush cfg e (snd (run_actions cfg e s as)))) \<and>
   is_initial_load (flush cfg e (snd (run_actions cfg e s as))) = is_initial_load s \<and>
   (\<exists>evs. events (flush cfg e (snd (run_actions cfg e s as))) = events s @ evs \<and> list_all watcher_event evs)"
proof -
  obtain r s' where ra: "run_actions cfg e s as = (r, s')" by (cases "run_actions cfg e s as")
  from run_actions_frame [OF ra] have "loading_ok s' = loading_ok s" "is_initial_load s' = is_initial_load s" "events s' = events s"
    by (simp_all add: loading_ok_def)
  then show ?thesis using ra flush_lifecycle [of s' cfg e] by simp
qed

lemma created_Some: "fst (created cfg e) \<noteq> None \<Longrightarrow> snd (created cfg e) =
   (data_init e)\<lparr>page_updated := True, suppress_history := True, is_initial_load := True\<rparr>"
  by (auto simp: created_def Let_def split: if_splits sum.splits)

lemma created_None:
  "fst (created cfg e) = None \<Longrightarrow>
   dirty (snd (created cfg e)) \<and> history_ready (snd (created cfg e)) \<and> suppress_history (snd (created cfg e)) \<and>
   is_initial_load (snd (created cfg e)) \<and> events (snd (created cfg e)) = [AfterCreated]"
  by (auto simp: created_def data_init_def reset_def replace_params_def Let_def split: if_splits sum.splits)

lemma created_lifecycle:
  "is_initial_load (snd (created cfg e)) \<and> initial_loads (snd (created cfg e)) = 0"
  by (auto simp: created_def data_init_def reset_def replace_params_def initial_loads_def Let_def split: sum.splits)

lemma initial_state_lifecycle:
  "initial_loads (initial_state cfg e) = 0 \<and> is_initial_load (initial_state cfg e) \<and>
   (fst (created cfg e) = None \<longrightarrow> loading_ok (initial_state cfg e))"
  using flush_lifecycle [of "snd (created cfg e)" cfg e] created_lifecycle [of cfg e] created_None [of cfg e]
  by (auto simp: initial_state_def initial_loads_def)

lemma reachable_lifecycle:
  "reachable cfg e s \<Longrightarrow>
   initial_loads s = (if is_initial_load s then 0 else 1) \<and> (fst (created cfg e) = None \<longrightarrow> loading_ok s)"
proof (induction rule: reachable.induct)
  case init
  then show ?case using initial_state_lifecycle [of cfg e] by simp
next
  case (step s t)
  from step.hyps(2) step.IH show ?case
  proof (cases rule: rl_step.cases)
    case (user_task as)
    then show ?thesis using step.IH user_task_lifecycle [of s cfg e as] by (auto simp: initial_loads_def)
  next
    case (navigate j)
    then show ?thesis using step.IH navigate_lifecycle [of s cfg e j] by (auto simp: initial_loads_def)
  next
    case (response i outcome)
    then show ?thesis using step.IH respond_lifecycle [of s i outcome] by (auto simp: loading_ok_def)
  qed
qed

lemma fst_mem_pair: "(j, v) \<in> set xs \<Longrightarrow> j \<in> fst ` set xs"
  by (rule image_eqI [of _ fst "(j, v)"]) simp_all

lemma respond_seq_pending:
  "pending (respond_seq out is s) = filter (\<lambda>(j, _). j \<notin> set is) (pending s)"
proof (induction "is" arbitrary: s)
  case (Cons i "is")
  then show ?case using respond_lifecycle [of s i "out i"] by (auto simp: filter_filter intro!: filter_cong)
qed simp

lemma respond_seq_loading: "is \<noteq> [] \<Longrightarrow> \<not> loading (respond_seq out is s)"
proof (induction "is" arbitrary: s)
  case (Cons i "is")
  then show ?case using respond_lifecycle [of s i "out i"] by (cases "is") auto
qed simp

lemma respond_seq_steps:
  "distinct is \<Longrightarrow> set is \<subseteq> fst ` set (pending s) \<Longrightarrow> (rl_step cfg e)\<^sup>*\<^sup>* s (respond_seq out is s)"
proof (induction "is" arbitrary: s)
  case (Cons i "is")
  have step: "rl_step cfg e s (respond s i (out i))" using Cons.prems by (intro rl_step.response) auto
  have "set is \<subseteq> fst ` set (pending (respond s i (out i)))"
    using Cons.prems respond_lifecycle [of s i "out i"] by (force simp: image_iff)
  then have "(rl_step cfg e)\<^sup>*\<^sup>* (respond s i (out i)) (respond_seq out is (respond s i (out i)))"
    using Cons.IH Cons.prems by simp
  then show ?case using step by (simp add: converse_rtranclp_into_rtranclp)
qed simp

lemma watch_params_hook_called:
  "suppress_history s \<or> history_ready s \<Longrightarrow> ParamsChanged \<in> set (events (watch_params cfg e s))"
  by (auto simp: watch_params_unfold Let_def)


subsection \<open>The requests of a flush\<close>

lemma watch_params_events:
  "events (watch_params cfg e s) =
   events (fetch_data cfg (if \<not> page_updated s then assign_param s ''pagenum'' (JNum 1) else s)) @
   (if \<not> suppress_history s \<and> \<not> history_ready s then []
    else (if \<not> suppress_history s
          then [HistoryPushed (pathname e @ CHR ''?'' #
                 serialize_params (params (fetch_data cfg (if \<not> page_updated s then assign_param s ''pagenum'' (JNum 1) else s))))]
          else []) @ [ParamsChanged])"
  by (simp add: watch_params_unfold Let_def push_history_events)

lemma watch_params_next_request_Inr:
  "construct_url (post_type cfg) (meta_fields cfg)
     (params (if \<not> page_updated s then assign_param s ''pagenum'' (JNum 1) else s)) = Inr (r, p') \<Longrightarrow>
   next_request (watch_params cfg e s) = Suc (next_request s)"
  by (cases "page_updated s") (simp_all add: watch_params_unfold Let_def fetch_data_Inr push_history_def assign_param_eq)

lemma watch_params_new_fetch:
  assumes "FetchStarted i r \<in> set (events (watch_params cfg e s))" and "FetchStarted i r \<notin> set (events s)"
  shows "i = next_request s \<and> next_request (watch_params cfg e s) = Suc i \<and>
         (\<exists>p'. construct_url (post_type cfg) (meta_fields cfg)
                 (params (if \<not> page_updated s then assign_param s ''pagenum'' (JNum 1) else s)) = Inr (r, p'))"
proof -
  let ?s1 = "if \<not> page_updated s then assign_param s ''pagenum'' (JNum 1) else s"
  obtain p' where c: "construct_url (post_type cfg) (meta_fields cfg) (params ?s1) = Inr (r, p')"
    using watch_params_fetch [OF assms] by blast
  have n1: "next_request ?s1 = next_request s" "events ?s1 = events s" by (simp_all add: assign_param_eq)
  have "i = next_request s"
    using assms n1 by (auto simp: watch_params_events fetch_data_Inr [OF c] split: if_splits)
  moreover have "next_request (watch_params cfg e s) = Suc (next_request s)"
    by (rule watch_params_next_request_Inr [OF c])
  ultimately show ?thesis using c by blast
qed

lemma watch_params_next_request: "next_request s \<le> next_request (watch_params cfg e s)"
  by (cases "construct_url (post_type cfg) (meta_fields cfg) (params (if \<not> page_updated s then assign_param s ''pagenum'' (JNum 1) else s))")
     (auto simp: watch_params_unfold Let_def fetch_data_Inl fetch_data_Inr push_history_def assign_param_eq)

lemma flush_watcher_new_ids:
  "FetchStarted i r \<in> set (events (flush_watcher cfg e n s)) \<Longrightarrow> FetchStarted i r \<notin> set (events s) \<Longrightarrow>
   next_request s \<le> i"
proof (induction n arbitrary: s)
  case (Suc n)
  let ?w = "watch_params cfg e (s\<lparr>dirty := False\<rparr>)"
  show ?case
  proof (cases "dirty s \<and> FetchStarted i r \<notin> set (events ?w)")
    case True
    then show ?thesis
      using Suc.IH [of ?w] Suc.prems watch_params_next_request [of "s\<lparr>dirty := False\<rparr>" cfg e] by simp
  next
    case False
    then show ?thesis using Suc.prems watch_params_new_fetch [of i r cfg e "s\<lparr>dirty := False\<rparr>"]
      by (auto split: if_splits)
  qed
qed simp

lemma flush_watcher_request_param:
  assumes "obj_get (params s) k = Some v" and "k \<notin> {''page'', ''pagenum'', ''orderby'', ''meta_key'', ''meta_query''}"
  shows "FetchStarted i r \<in> set (events (flush_watcher cfg e n s)) \<Longrightarrow> FetchStarted i r \<notin> set (events s) \<Longrightarrow>
         (k, js_to_string v) \<in> set (req_args r)"
  using assms(1)
proof (induction n arbitrary: s)
  case (Suc n)
  let ?s = "s\<lparr>dirty := False\<rparr>"
  let ?w = "watch_params cfg e ?s"
  show ?case
  proof (cases "dirty s \<and> FetchStarted i r \<notin> set (events ?w)")
    case True
    have "obj_get (params ?w) k = Some v" using watch_params_param_other [of k cfg e ?s] assms(2) Suc.prems(3) by simp
    then show ?thesis using Suc.IH [of ?w] Suc.prems True by simp
  next
    case False
    then have d: "dirty s" and n: "FetchStarted i r \<in> set (events ?w)" using Suc.prems by (auto split: if_splits)
    let ?s1 = "if \<not> page_updated ?s then assign_param ?s ''pagenum'' (JNum 1) else ?s"
    obtain p' where c: "construct_url (post_type cfg) (meta_fields cfg) (params ?s1) = Inr (r, p')"
      using watch_params_new_fetch [of i r cfg e ?s] n Suc.prems(2) by auto
    have "obj_get (params ?s1) k = Some v" using Suc.prems(3) assms(2) by (simp add: assign_param_eq obj_simps)
    then show ?thesis using construct_url_other_arg [OF c] assms(2) by blast
  qed
qed simp

lemma first_request:
  assumes d: "dirty s" and pu: "page_updated s"
    and f: "FetchStarted (next_request s) r \<in> set (events (flush_watcher cfg e (Suc n) s))"
    and nf: "FetchStarted (next_request s) r \<notin> set (events s)"
  shows "\<exists>p'. construct_url (post_type cfg) (meta_fields cfg) (params s) = Inr (r, p')"
proof -
  let ?s = "s\<lparr>dirty := False\<rparr>"
  let ?w = "watch_params cfg e ?s"
  have fw: "flush_watcher cfg e (Suc n) s = flush_watcher cfg e n ?w" using d by simp
  show ?thesis
  proof (cases "FetchStarted (next_request s) r \<in> set (events ?w)")
    case True
    then show ?thesis using watch_params_new_fetch [of "next_request s" r cfg e ?s] nf pu by simp
  next
    case False
    then have le: "next_request ?w \<le> next_request s"
      using flush_watcher_new_ids [of "next_request s" r cfg e n ?w] f fw by simp
    show ?thesis
    proof (cases "construct_url (post_type cfg) (meta_fields cfg) (params s)")
      case (Inl err)
      then have "\<not> dirty ?w" using pu watch_params_core [OF refl, where s = ?s and cfg = cfg and e = e]
        by (simp add: fetch_data_Inl)
      then show ?thesis using f fw False by (simp add: flush_watcher_clean)
    next
      case (Inr rp)
      then show ?thesis using le pu watch_params_next_request_Inr [of cfg ?s "fst rp" "snd rp" e] by simp
    qed
  qed
qed

lemma fetch_data_error: "error s \<noteq> None \<Longrightarrow> error (fetch_data cfg s) \<noteq> None"
  by (cases "construct_url (post_type cfg) (meta_fields cfg) (params s)") (auto simp: fetch_data_Inl fetch_data_Inr)

lemma push_history_error [simp]: "error (push_history e s) = error s"
  by (simp add: push_history_def Let_def)

lemma watch_params_error: "error s \<noteq> None \<Longrightarrow> error (watch_params cfg e s) \<noteq> None"
proof -
  assume er: "error s \<noteq> None"
  define s1 where "s1 = (if \<not> page_updated s then assign_param s ''pagenum'' (JNum 1) else s)"
  have "error s1 \<noteq> None" using er by (simp add: s1_def assign_param_eq)
  then have "error (fetch_data cfg s1) \<noteq> None" by (rule fetch_data_error)
  then show ?thesis unfolding watch_params_unfold s1_def [symmetric] Let_def by simp
qed

lemma flush_error: "error s \<noteq> None \<Longrightarrow> error (flush cfg e s) \<noteq> None"
  unfolding flush_def
  by (rule flush_watcher_inv [where P = "\<lambda>t. error t \<noteq> None"]) (simp_all add: watch_params_error)

lemma run_actions_error: "error (snd (run_actions cfg e s as)) = error s"
  using run_actions_frame [of cfg e s as "fst (run_actions cfg e s as)" "snd (run_actions cfg e s as)"] by simp

lemma pop_listener_error: "error (pop_listener cfg s j) = error s"
  by (simp add: pop_listener_def reset_def replace_params_def Let_def split: hist_entry.split option.split)

subsection \<open>Properties\<close>

text \<open>
  C4: once \<^verbatim>\<open>created\<close> has succeeded, the loading indicator is on only while
  a request is in flight: in every reachable state with \<^verbatim>\<open>loading\<close> true
  some request is still pending.
\<close>

theorem loading_only_in_flight:
  assumes "fst (created cfg e) = None" and "reachable cfg e s" and "loading s"
  shows "pending s \<noteq> []"
  using reachable_lifecycle [OF assms(2)] assms(1,3) by (simp add: loading_ok_def)

text \<open>
  C5: the requests in flight never block the component: from every reachable
  state, whatever the backend answers (any outcome, success or failure, for
  each request), answering every pending request leads to a reachable state in
  which no request is pending and the loading indicator is off.
\<close>

theorem responses_settle:
  assumes "fst (created cfg e) = None" and "reachable cfg e s"
  shows "(rl_step cfg e)\<^sup>*\<^sup>* s (respond_all out s) \<and> reachable cfg e (respond_all out s) \<and>
         pending (respond_all out s) = [] \<and> \<not> loading (respond_all out s)"
proof -
  let ?is = "remdups (map fst (pending s))"
  have st: "(rl_step cfg e)\<^sup>*\<^sup>* s (respond_all out s)"
    unfolding respond_all_def by (rule respond_seq_steps) simp_all
  have "reachable cfg e (respond_all out s)" using st assms(2)
    by (induction rule: rtranclp_induct) (auto intro: reachable.step)
  moreover have "pending (respond_all out s) = []"
    by (auto simp: respond_all_def respond_seq_pending filter_empty_conv dest: fst_mem_pair)
  moreover have "\<not> loading (respond_all out s)"
  proof (cases "pending s = []")
    case True
    then show ?thesis using reachable_lifecycle [OF assms(2)] assms(1) by (simp add: respond_all_def loading_ok_def)
  next
    case False
    then show ?thesis unfolding respond_all_def by (intro respond_seq_loading) simp
  qed
  ultimately show ?thesis using st by blast
qed

text \<open>
  C6: \<^verbatim>\<open>onInitialLoad\<close> runs at most once in every reachable state, and it has
  run exactly once after any successful response.
\<close>

theorem initial_load_once:
  assumes "reachable cfg e s"
  shows "initial_loads s \<le> 1 \<and> initial_loads (respond s i (Response b t tp)) = 1"
  using reachable_lifecycle [OF assms] respond_lifecycle [of s i "Response b t tp"] by auto

text \<open>
  C7: \<^verbatim>\<open>onParamsChange\<close> is documented as called after a change of the
  parameters "but not on initial load" (line 261), yet the guard is commented
  out (lines 657-659): when \<^verbatim>\<open>created\<close> succeeds, the first watcher run of the
  page calls it, before any response and before \<^verbatim>\<open>onInitialLoad\<close>.
\<close>

theorem params_changed_on_initial_load:
  assumes "fst (created cfg e) = None"
  shows "ParamsChanged \<in> set (events (initial_state cfg e)) \<and> initial_loads (initial_state cfg e) = 0"
proof -
  let ?s0 = "snd (created cfg e)"
  let ?w = "watch_params cfg e (?s0\<lparr>dirty := False\<rparr>)"
  have c: "dirty ?s0" "suppress_history ?s0" using created_None [OF assms] by simp_all
  have "initial_state cfg e = flush_watcher cfg e 99 ?w"
    using c(1) flush_watcher.simps(2) [of cfg e 99 ?s0] by (simp add: initial_state_def flush_def max_update_count_def)
  moreover have "ParamsChanged \<in> set (events ?w)" using c(2) by (simp add: watch_params_hook_called)
  ultimately have "ParamsChanged \<in> set (events (initial_state cfg e))"
    using flush_watcher_lifecycle [of 99 ?w cfg e] by auto
  then show ?thesis using initial_state_lifecycle [of cfg e] by simp
qed

text \<open>
  C8: when \<^verbatim>\<open>created\<close> throws (a malformed query string, or a query string
  and no global lodash), the component is left showing the loading indicator
  with no request in flight, no error, and no hook called; the only step
  possible is a user task.
\<close>

theorem created_error_stuck:
  assumes "fst (created cfg e) = Some err"
  shows "loading (initial_state cfg e) \<and> pending (initial_state cfg e) = [] \<and> error (initial_state cfg e) = None \<and>
         events (initial_state cfg e) = [] \<and>
         (rl_step cfg e (initial_state cfg e) t \<longrightarrow> (\<exists>as. t = flush cfg e (snd (run_actions cfg e (initial_state cfg e) as))))"
proof -
  have s: "initial_state cfg e = (data_init e)\<lparr>page_updated := True, suppress_history := True, is_initial_load := True\<rparr>"
    using created_Some [of cfg e] assms
    by (simp add: initial_state_def flush_def flush_watcher_clean data_init_def)
  show ?thesis
    by (auto simp: s data_init_def elim!: rl_step.cases)
qed


text \<open>
  C28: no step of the component ever clears an error: once \<^verbatim>\<open>this.error\<close>
  is set, it stays set through every later user task, navigation and response,
  successful responses included (the specification says a successful fetch
  clears any prior error; \<^verbatim>\<open>__fetchData\<close> never resets it).
\<close>

theorem error_never_cleared:
  assumes "rl_step cfg e s t" and "error s \<noteq> None"
  shows "error t \<noteq> None"
  using assms(1)
proof (cases rule: rl_step.cases)
  case (user_task as)
  then show ?thesis using assms(2) flush_error run_actions_error by metis
next
  case (navigate j)
  then show ?thesis using assms(2) flush_error [of "pop_listener cfg s j" cfg e]
    by (auto simp: navigate_def pop_listener_error)
next
  case (response i outcome)
  then show ?thesis using assms(2) by (cases outcome) (auto simp: respond_def Let_def)
qed

subsection \<open>Witnesses\<close>

lemma created_example_env: "fst (created default_config example_env) = None"
  by code_simp

lemma loading_only_in_flight_witness:
  "fst (created default_config example_env) = None \<and> reachable default_config example_env (initial_state default_config example_env) \<and>
   loading (initial_state default_config example_env) \<and> pending (initial_state default_config example_env) \<noteq> []"
proof -
  have l: "loading (initial_state default_config example_env)" by code_simp
  show ?thesis
    using loading_only_in_flight [OF created_example_env reachable.init l] created_example_env reachable.init l by blast
qed

lemma responses_settle_witness:
  "fst (created default_config example_env) = None \<and> reachable default_config example_env (initial_state default_config example_env) \<and>
   pending (respond_all (\<lambda>i. Response (JArr []) (Some 0) (Some 0)) (initial_state default_config example_env)) = [] \<and>
   \<not> loading (respond_all (\<lambda>i. Response (JArr []) (Some 0) (Some 0)) (initial_state default_config example_env))"
  using responses_settle [OF created_example_env reachable.init, of "\<lambda>i. Response (JArr []) (Some 0) (Some 0)"]
    created_example_env reachable.init by blast

lemma initial_load_once_witness:
  "reachable default_config example_env (initial_state default_config example_env) \<and>
   initial_loads (initial_state default_config example_env) \<le> 1 \<and>
   initial_loads (respond (initial_state default_config example_env) 0 (Response (JArr []) (Some 0) (Some 0))) = 1"
  using initial_load_once [OF reachable.init] reachable.init by blast

lemma params_changed_on_initial_load_witness:
  "fst (created default_config example_env) = None \<and> ParamsChanged \<in> set (events (initial_state default_config example_env)) \<and>
   initial_loads (initial_state default_config example_env) = 0"
  using params_changed_on_initial_load [OF created_example_env] created_example_env by blast

lemma created_error_stuck_witness:
  "fst (created default_config \<lparr>pathname = ''/library'', search = ''?a=x'', global_vue = True, global_lodash = True\<rparr>) = Some SyntaxError \<and>
   loading (initial_state default_config \<lparr>pathname = ''/library'', search = ''?a=x'', global_vue = True, global_lodash = True\<rparr>) \<and>
   pending (initial_state default_config \<lparr>pathname = ''/library'', search = ''?a=x'', global_vue = True, global_lodash = True\<rparr>) = [] \<and>
   error (initial_state default_config \<lparr>pathname = ''/library'', search = ''?a=x'', global_vue = True, global_lodash = True\<rparr>) = None"
proof -
  have h: "fst (created default_config \<lparr>pathname = ''/library'', search = ''?a=x'', global_vue = True, global_lodash = True\<rparr>) = Some SyntaxError"
    by code_simp
  show ?thesis using created_error_stuck [OF h] h by blast
qed

lemma error_never_cleared_witness:
  "rl_step default_config example_env (example_state\<lparr>error := Some FetchFailed, pending := [(0, \<lparr>req_path = ''/wp-json/wp/v2/posts'', req_args = []\<rparr>)]\<rparr>)
     (respond (example_state\<lparr>error := Some FetchFailed, pending := [(0, \<lparr>req_path = ''/wp-json/wp/v2/posts'', req_args = []\<rparr>)]\<rparr>) 0 (Response (JArr []) (Some 0) (Some 0))) \<and>
   error (example_state\<lparr>error := Some FetchFailed, pending := [(0, \<lparr>req_path = ''/wp-json/wp/v2/posts'', req_args = []\<rparr>)]\<rparr>) \<noteq> None \<and>
   error (respond (example_state\<lparr>error := Some FetchFailed, pending := [(0, \<lparr>req_path = ''/wp-json/wp/v2/posts'', req_args = []\<rparr>)]\<rparr>) 0 (Response (JArr []) (Some 0) (Some 0))) \<noteq> None"
proof -
  have st: "rl_step default_config example_env (example_state\<lparr>error := Some FetchFailed, pending := [(0, \<lparr>req_path = ''/wp-json/wp/v2/posts'', req_args = []\<rparr>)]\<rparr>)
     (respond (example_state\<lparr>error := Some FetchFailed, pending := [(0, \<lparr>req_path = ''/wp-json/wp/v2/posts'', req_args = []\<rparr>)]\<rparr>) 0 (Response (JArr []) (Some 0) (Some 0)))"
    by (rule rl_step.response) simp
  have er: "error (example_state\<lparr>error := Some FetchFailed, pending := [(0, \<lparr>req_path = ''/wp-json/wp/v2/posts'', req_args = []\<rparr>)]\<rparr>) \<noteq> None" by simp
  show ?thesis using error_never_cleared [OF st er] st er by blast
qed

end
