(* ===== verification/Ordering.thy ===== *)
theory Ordering
  imports Lifecycle
begin

text \<open>
  The ordering methods (src/resource-library.js, lines 443-511):
  \<^verbatim>\<open>setOrder\<close>, \<^verbatim>\<open>setOrderBy\<close>, \<^verbatim>\<open>selectOrderBy\<close>, \<^verbatim>\<open>toggleOrder\<close> and the
  query \<^verbatim>\<open>isOrderedBy\<close> (\<open>is_ordered_by\<close>).  The watcher never changes
  \<^verbatim>\<open>order\<close> or \<^verbatim>\<open>orderby\<close>, so what a method sets is what the component is
  ordered by after the task.
\<close>

lemma run_actions_single:
  "run_actions cfg e s [a] = (None, s1) \<longleftrightarrow> run_action cfg e s a = Inr s1"
  by (cases "run_action cfg e s a") auto

lemma flush_is_ordered_by [simp]: "is_ordered_by (flush cfg e s) ob o' = is_ordered_by s ob o'"
  by (simp add: is_ordered_by_def flush_param_other)

lemma set_order_Inr:
  "set_order s o' = Inr s1 \<longleftrightarrow>
   (o' = JStr ''asc'' \<or> o' = JStr ''desc'') \<and> s1 = assign_param s ''order'' o'"
  by (auto simp: set_order_def)

lemma toggle_order_Inr:
  "toggle_order s = Inr (assign_param s ''order''
     (if obj_get (params s) ''order'' = Some (JStr ''asc'') then JStr ''desc'' else JStr ''asc''))"
  by (simp add: toggle_order_def set_order_def)

lemma select_orderby_Inr:
  assumes "select_orderby s ob d = Inr s1"
  shows "\<exists>o' \<in> {''asc'', ''desc''}. is_ordered_by s1 ob (JStr o') \<and>
           (obj_get (params s) ''orderby'' = Some ob \<longrightarrow> (o' = ''desc'' \<longleftrightarrow> obj_get (params s) ''order'' = Some (JStr ''asc'')))"
  using assms
  by (auto simp: select_orderby_def set_orderby_def toggle_order_Inr set_order_def assign_param_eq
                 is_ordered_by_def obj_simps Let_def split: if_splits option.splits)

lemma select_orderby_current:
  "obj_get (params s) ''orderby'' = Some ob \<Longrightarrow> \<exists>s1. select_orderby s ob d = Inr s1"
  by (simp add: select_orderby_def toggle_order_Inr)

subsection \<open>Properties\<close>

text \<open>
  C33: after a task that calls \<^verbatim>\<open>selectOrderBy(ob)\<close> without error, the component
  is ordered by \<open>ob\<close> in one direction, \<^verbatim>\<open>asc\<close> or \<^verbatim>\<open>desc\<close>; a second
  \<^verbatim>\<open>selectOrderBy(ob)\<close>, with any default, succeeds and orders it in the other.
\<close>

theorem select_orderby_toggles:
  assumes "run_actions cfg e s [SelectOrderBy ob d] = (None, s1)"
  shows "\<exists>o' \<in> {''asc'', ''desc''}. is_ordered_by (flush cfg e s1) ob (JStr o') \<and>
           (\<exists>s2. run_actions cfg e (flush cfg e s1) [SelectOrderBy ob d'] = (None, s2) \<and>
                 is_ordered_by (flush cfg e s2) ob (JStr (if o' = ''asc'' then ''desc'' else ''asc'')))"
proof -
  have "run_action cfg e s (SelectOrderBy ob d) = Inr s1" by (rule run_actions_single [THEN iffD1, OF assms])
  then have r1: "select_orderby s ob d = Inr s1" by simp
  obtain o' where o: "o' \<in> {''asc'', ''desc''}" "is_ordered_by s1 ob (JStr o')"
    using select_orderby_Inr [OF r1] by blast
  let ?f = "flush cfg e s1"
  have f1: "is_ordered_by ?f ob (JStr o')" using o(2) by simp
  then have cur: "obj_get (params ?f) ''orderby'' = Some ob" "obj_get (params ?f) ''order'' = Some (JStr o')"
    by (simp_all add: is_ordered_by_def)
  obtain s2 where r2: "select_orderby ?f ob d' = Inr s2" using select_orderby_current [OF cur(1)] by blast
  obtain o2 where o2: "o2 \<in> {''asc'', ''desc''}" "is_ordered_by s2 ob (JStr o2)"
    "obj_get (params ?f) ''orderby'' = Some ob \<longrightarrow> (o2 = ''desc'' \<longleftrightarrow> obj_get (params ?f) ''order'' = Some (JStr ''asc''))"
    using select_orderby_Inr [OF r2] by blast
  have "o2 = (if o' = ''asc'' then ''desc'' else ''asc'')" using o(1) o2(1,3) cur by auto
  then have "is_ordered_by (flush cfg e s2) ob (JStr (if o' = ''asc'' then ''desc'' else ''asc''))"
    using o2(2) by simp
  moreover have "run_actions cfg e ?f [SelectOrderBy ob d'] = (None, s2)" using r2 by simp
  ultimately show ?thesis using f1 by (intro bexI [OF _ o(1)]) blast
qed

text \<open>
  C34: \<^verbatim>\<open>selectOrderBy(ob, default_order)\<close> throws exactly when \<open>ob\<close> is not
  the current \<^verbatim>\<open>orderby\<close> and the default order is truthy but neither
  \<^verbatim>\<open>asc\<close> nor \<^verbatim>\<open>desc\<close>: an invalid default order is accepted silently when
  the results are already ordered by \<open>ob\<close>.
\<close>

theorem select_orderby_error:
  "isl (select_orderby s ob (Some d)) \<longleftrightarrow>
   obj_get (params s) ''orderby'' \<noteq> Some ob \<and> js_truthy d \<and> d \<noteq> JStr ''asc'' \<and> d \<noteq> JStr ''desc''"
  by (auto simp: select_orderby_def toggle_order_Inr set_order_def)

subsection \<open>Witnesses\<close>

lemma select_orderby_toggles_witness:
  "run_actions default_config example_env example_state [SelectOrderBy (JStr ''title'') None] =
     (None, snd (run_actions default_config example_env example_state [SelectOrderBy (JStr ''title'') None])) \<and>
   (\<exists>o' \<in> {''asc'', ''desc''}.
      is_ordered_by (flush default_config example_env
        (snd (run_actions default_config example_env example_state [SelectOrderBy (JStr ''title'') None]))) (JStr ''title'') (JStr o'))"
proof -
  have h: "run_actions default_config example_env example_state [SelectOrderBy (JStr ''title'') None] =
     (None, snd (run_actions default_config example_env example_state [SelectOrderBy (JStr ''title'') None]))"
    by code_simp
  show ?thesis using select_orderby_toggles [OF h] h by blast
qed

end
