(* ===== verification/Example.thy ===== *)
theory Example
  imports Lifecycle Pagination
begin

text \<open>
  The example application (src/resource-library.js, lines 685-804): the
  bootstrap \<^verbatim>\<open>main.js\<close> and the component \<^verbatim>\<open>Example.vue\<close>, which extends
  the library with a search box.  Its state is the library's state and the
  datum \<^verbatim>\<open>keyword\<close> bound to the input (\<open>None\<close> is \<^verbatim>\<open>undefined\<close>).  It
  overrides the hook \<^verbatim>\<open>onParamsChange\<close>, which the library's watcher calls at
  the point where the model logs \<open>ParamsChanged\<close>; \<open>ex_watch_params\<close> runs
  the library's handler and then the override, and \<open>ex_flush_watcher\<close> is
  Vue's scheduler over it.  The template's handlers are \<open>ex_handler\<close>; a
  task is a handler followed by the flush (\<open>ex_task\<close>).
\<close>

record ex_state =
  lib :: rl_state
  keyword :: "json option"

text \<open>
  \<^verbatim>\<open>main.js\<close> (lines 687-702) renders the component with
  \<^verbatim>\<open>h(ResourceLibrary)\<close>, which passes no props: the \<^verbatim>\<open>props\<close> option of the
  root instance declares props of the root itself, so the component runs with
  its prop defaults.
\<close>

definition example_config :: config where
  "example_config = default_config"

text \<open>\<^verbatim>\<open>onParamsChange\<close> of \<^verbatim>\<open>Example.vue\<close> (lines 751-755).\<close>

definition on_params_change :: "json obj \<Rightarrow> json option \<Rightarrow> json option" where
  "on_params_change p kw = (if obj_get p ''search'' \<noteq> kw then obj_get p ''search'' else kw)"

text \<open>The library's handler, then the override where the handler calls the hook.\<close>

definition ex_watch_params :: "config \<Rightarrow> env \<Rightarrow> ex_state \<Rightarrow> ex_state" where
  "ex_watch_params cfg e st =
     (let s' = watch_params cfg e (lib st)
      in st\<lparr>lib := s',
            keyword := (if last (events s') = ParamsChanged then on_params_change (params s') (keyword st)
                        else keyword st)\<rparr>)"

fun ex_flush_watcher :: "config \<Rightarrow> env \<Rightarrow> nat \<Rightarrow> ex_state \<Rightarrow> ex_state" where
  "ex_flush_watcher cfg e 0 st = st"
| "ex_flush_watcher cfg e (Suc n) st =
     (if dirty (lib st) then ex_flush_watcher cfg e n (ex_watch_params cfg e (st\<lparr>lib := (lib st)\<lparr>dirty := False\<rparr>\<rparr>))
      else st)"

definition ex_flush :: "config \<Rightarrow> env \<Rightarrow> ex_state \<Rightarrow> ex_state" where
  "ex_flush cfg e st = ex_flush_watcher cfg e max_update_count st"

text \<open>\<^verbatim>\<open>data()\<close> of \<^verbatim>\<open>Example.vue\<close> (lines 744-748) merged with the library's, then \<^verbatim>\<open>created\<close>.\<close>

definition ex_created :: "config \<Rightarrow> env \<Rightarrow> js_error option \<times> ex_state" where
  "ex_created cfg e = (case created cfg e of (r, s) \<Rightarrow> (r, \<lparr>lib = s, keyword = Some (JStr [])\<rparr>))"

definition ex_initial_state :: "config \<Rightarrow> env \<Rightarrow> ex_state" where
  "ex_initial_state cfg e = ex_flush cfg e (snd (ex_created cfg e))"

text \<open>
  The template's events (lines 704-727): typing into the input bound with
  \<^verbatim>\<open>v-model\<close>, Enter in it, the search button, and a pagination button, one
  per element of \<^verbatim>\<open>pages\<close>.
\<close>

datatype ui_event = InputKeyword string | EnterKeyword | ClickSearch | ClickPage page_item

fun page_value :: "page_item \<Rightarrow> json" where
  "page_value (PageNum n) = JNum n"
| "page_value Ellipsis = JStr ''&hellip;''"

text \<open>
  The handlers.  \<^verbatim>\<open>doSearch\<close> (lines 756-758) calls the bare identifier
  \<^verbatim>\<open>setSerch\<close>, which no scope declares: it throws \<^verbatim>\<open>ReferenceError\<close>.
\<close>

fun ex_handler :: "ex_state \<Rightarrow> ui_event \<Rightarrow> js_error option \<times> ex_state" where
  "ex_handler st (InputKeyword w) = (None, st\<lparr>keyword := Some (JStr w)\<rparr>)"
| "ex_handler st EnterKeyword =
     (case keyword st of
        Some k \<Rightarrow> (None, st\<lparr>lib := set_search (lib st) k\<rparr>)
      | None \<Rightarrow> (Some OutOfModel, st))"
| "ex_handler st ClickSearch = (Some ReferenceError, st)"
| "ex_handler st (ClickPage item) = (None, st\<lparr>lib := select_page (lib st) (page_value item)\<rparr>)"

definition ex_task :: "config \<Rightarrow> env \<Rightarrow> ex_state \<Rightarrow> ui_event \<Rightarrow> js_error option \<times> ex_state" where
  "ex_task cfg e st ev = (case ex_handler st ev of (r, st') \<Rightarrow> (r, ex_flush cfg e st'))"

text \<open>A back/forward navigation in the example, as \<open>navigate\<close>.\<close>

definition ex_navigate :: "config \<Rightarrow> env \<Rightarrow> ex_state \<Rightarrow> nat \<Rightarrow> ex_state" where
  "ex_navigate cfg e st j =
     (if history_ready (lib st) then ex_flush cfg e (st\<lparr>lib := pop_listener cfg (lib st) j\<rparr>)
      else st\<lparr>lib := (lib st)\<lparr>history := (history (lib st))\<lparr>hindex := j\<rparr>\<rparr>\<rparr>)"

text \<open>The example on page 3 of 20, with an empty search box, used by the witnesses below.\<close>

definition example_ex_state :: ex_state where
  "example_ex_state = \<lparr>lib = example_state\<lparr>total_pages := Some 20\<rparr>, keyword = Some (JStr [])\<rparr>"

subsection \<open>The extension leaves the library unchanged\<close>

lemma ex_flush_watcher_lib: "lib (ex_flush_watcher cfg e n st) = flush_watcher cfg e n (lib st)"
  by (induction n arbitrary: st) (simp_all add: ex_watch_params_def Let_def)

lemma ex_flush_lib [simp]: "lib (ex_flush cfg e st) = flush cfg e (lib st)"
  by (simp add: ex_flush_def flush_def ex_flush_watcher_lib)

lemma ex_navigate_lib: "lib (ex_navigate cfg e st j) = navigate cfg e (lib st) j"
  by (simp add: ex_navigate_def navigate_def)

subsection \<open>The search box follows the parameters\<close>

definition synced :: "ex_state \<Rightarrow> bool" where
  "synced st \<longleftrightarrow> keyword st = obj_get (params (lib st)) ''search''"

lemma on_params_change_search [simp]: "on_params_change p kw = obj_get p ''search''"
  by (simp add: on_params_change_def)

lemma watch_params_hook_last:
  "suppress_history s \<or> history_ready s \<Longrightarrow> last (events (watch_params cfg e s)) = ParamsChanged"
  by (auto simp: watch_params_unfold Let_def)

lemma ex_watch_params_synced:
  "synced st \<or> suppress_history (lib st) \<or> history_ready (lib st) \<Longrightarrow> synced (ex_watch_params cfg e st)"
  using watch_params_hook_last [of "lib st" cfg e] watch_params_param_other [of "''search''" cfg e "lib st"]
  by (auto simp: ex_watch_params_def synced_def Let_def)

lemma ex_flush_watcher_synced:
  "synced st \<Longrightarrow> synced (ex_flush_watcher cfg e n st)"
proof (induction n arbitrary: st)
  case (Suc n)
  then show ?case
    using ex_watch_params_synced [of "st\<lparr>lib := (lib st)\<lparr>dirty := False\<rparr>\<rparr>" cfg e]
    by (simp add: synced_def)
qed simp

lemma ex_flush_syncs:
  assumes "dirty (lib st)" and "synced st \<or> suppress_history (lib st) \<or> history_ready (lib st)"
  shows "synced (ex_flush cfg e st)"
proof -
  let ?st = "st\<lparr>lib := (lib st)\<lparr>dirty := False\<rparr>\<rparr>"
  have "ex_flush cfg e st = ex_flush_watcher cfg e 99 (ex_watch_params cfg e ?st)"
    using assms(1) ex_flush_watcher.simps(2) [of cfg e 99 st] by (simp add: ex_flush_def max_update_count_def)
  moreover have "synced (ex_watch_params cfg e ?st)"
    using assms(2) by (intro ex_watch_params_synced) (simp add: synced_def)
  ultimately show ?thesis by (simp add: ex_flush_watcher_synced)
qed

lemma ex_flush_clean: "\<not> dirty (lib st) \<Longrightarrow> ex_flush cfg e st = st"
  using ex_flush_watcher.simps(2) [of cfg e 99 st] by (simp add: ex_flush_def max_update_count_def)

lemma pop_listener_suppressed: "suppress_history (pop_listener cfg s j)"
  by (simp add: pop_listener_def reset_def replace_params_def Let_def split: hist_entry.split option.split)

subsection \<open>Properties\<close>

text \<open>
  C40: the example extends the library without changing it: a back/forward
  navigation runs exactly the library's navigation, and afterwards the search
  box shows the restored \<^verbatim>\<open>search\<close> parameter, which the overridden
  \<^verbatim>\<open>onParamsChange\<close> copies into \<^verbatim>\<open>keyword\<close>.
\<close>

theorem ex_navigate_restores_keyword:
  "lib (ex_navigate cfg e st j) = navigate cfg e (lib st) j \<and>
   (history_ready (lib st) \<longrightarrow> keyword (ex_navigate cfg e st j) = obj_get (params (navigate cfg e (lib st) j)) ''search'')"
proof -
  have "history_ready (lib st) \<Longrightarrow> synced (ex_navigate cfg e st j)"
    using ex_flush_syncs [of "st\<lparr>lib := pop_listener cfg (lib st) j\<rparr>" cfg e]
      pop_listener_frame [of cfg "lib st" j] pop_listener_suppressed [of cfg "lib st" j]
    by (simp add: ex_navigate_def)
  then show ?thesis by (simp add: ex_navigate_lib synced_def)
qed

text \<open>
  C38: the search button of the example never searches: after typing \<open>w\<close>,
  clicking it throws \<^verbatim>\<open>ReferenceError\<close> (\<^verbatim>\<open>doSearch\<close> calls the undeclared
  \<^verbatim>\<open>setSerch\<close>) and the library is left as it was, while pressing Enter
  instead sends every request of the task with \<open>search=w\<close>.
\<close>

theorem search_button_throws:
  assumes "\<not> dirty (lib st)"
  shows "ex_task cfg e (snd (ex_task cfg e st (InputKeyword w))) ClickSearch = (Some ReferenceError, st\<lparr>keyword := Some (JStr w)\<rparr>) \<and>
         (FetchStarted i r \<in> set (events (lib (snd (ex_task cfg e (snd (ex_task cfg e st (InputKeyword w))) EnterKeyword)))) \<longrightarrow>
          FetchStarted i r \<notin> set (events (lib st)) \<longrightarrow> (''search'', w) \<in> set (req_args r))"
proof -
  have k: "snd (ex_task cfg e st (InputKeyword w)) = st\<lparr>keyword := Some (JStr w)\<rparr>"
    using assms by (simp add: ex_task_def ex_flush_clean)
  let ?s = "set_search (lib st) (JStr w)"
  have "obj_get (params ?s) ''search'' = Some (JStr w)" "events ?s = events (lib st)"
    by (simp_all add: set_search_def assign_param_eq obj_simps)
  then have "FetchStarted i r \<in> set (events (flush_watcher cfg e max_update_count ?s)) \<longrightarrow>
             FetchStarted i r \<notin> set (events (lib st)) \<longrightarrow> (''search'', w) \<in> set (req_args r)"
    using flush_watcher_request_param [where s = ?s and k = "''search''" and v = "JStr w" and cfg = cfg and e = e
        and n = max_update_count and i = i and r = r] by simp
  then show ?thesis using assms k by (simp add: ex_task_def ex_flush_clean flush_def)
qed

text \<open>
  C39: every element of \<^verbatim>\<open>pages\<close> is a button whose click calls
  \<^verbatim>\<open>selectPage(page)\<close>, the ellipsis included: the first request after a click on
  an ellipsis asks the backend for page \<^verbatim>\<open>&hellip;\<close>.
\<close>

theorem ellipsis_requests_hellip:
  assumes f: "FetchStarted (next_request (lib st)) r \<in> set (events (lib (snd (ex_task cfg e st (ClickPage Ellipsis)))))"
    and nf: "FetchStarted (next_request (lib st)) r \<notin> set (events (lib st))"
  shows "(''page'', ''&hellip;'') \<in> set (req_args r)"
proof -
  let ?s = "select_page (lib st) (JStr ''&hellip;'')"
  have s: "page_updated ?s" "next_request ?s = next_request (lib st)" "events ?s = events (lib st)"
    "obj_get (params ?s) ''pagenum'' = Some (JStr ''&hellip;'')"
    by (simp_all add: select_page_def assign_param_eq obj_simps)
  have t: "lib (snd (ex_task cfg e st (ClickPage Ellipsis))) = flush_watcher cfg e (Suc 99) ?s"
    by (simp add: ex_task_def flush_def max_update_count_def)
  have "dirty ?s"
  proof (rule ccontr)
    assume "\<not> dirty ?s"
    then have "flush_watcher cfg e (Suc 99) ?s = ?s" by (rule flush_watcher_clean)
    then show False using f nf s t by simp
  qed
  then obtain p' where "construct_url (post_type cfg) (meta_fields cfg) (params ?s) = Inr (r, p')"
    using first_request [of ?s r cfg e 99] f nf s t by auto
  then show ?thesis using construct_url_page_arg [of _ _ "params ?s" r p' "JStr ''&hellip;''"] s(4) by simp
qed

subsection \<open>Witnesses\<close>

lemma ex_navigate_restores_keyword_witness:
  "history_ready (lib example_ex_state) \<and>
   keyword (ex_navigate default_config example_env example_ex_state 0) =
     obj_get (params (navigate default_config example_env (lib example_ex_state) 0)) ''search''"
proof -
  have h: "history_ready (lib example_ex_state)" by (simp add: example_ex_state_def example_state_def)
  show ?thesis using ex_navigate_restores_keyword [of default_config example_env example_ex_state 0] h by simp
qed

lemma search_button_throws_witness:
  "\<not> dirty (lib example_ex_state) \<and>
   ex_task default_config example_env (snd (ex_task default_config example_env example_ex_state (InputKeyword ''cat''))) ClickSearch =
     (Some ReferenceError, example_ex_state\<lparr>keyword := Some (JStr ''cat'')\<rparr>) \<and>
   FetchStarted 0 \<lparr>req_path = ''/wp-json/wp/v2/posts'', req_args = [(''context'', ''embed''), (''_embed'', ''1''), (''per_page'', ''10''), (''search'', ''cat''), (''order'', ''desc''), (''orderby'', ''date''), (''meta_query'', ''[object Object]''), (''ver'', ''1''), (''page'', ''1'')]\<rparr> \<in> set (events (lib (snd (ex_task default_config example_env
       (snd (ex_task default_config example_env example_ex_state (InputKeyword ''cat''))) EnterKeyword)))) \<and>
   FetchStarted 0 \<lparr>req_path = ''/wp-json/wp/v2/posts'', req_args = [(''context'', ''embed''), (''_embed'', ''1''), (''per_page'', ''10''), (''search'', ''cat''), (''order'', ''desc''), (''orderby'', ''date''), (''meta_query'', ''[object Object]''), (''ver'', ''1''), (''page'', ''1'')]\<rparr> \<notin> set (events (lib example_ex_state)) \<and>
   (''search'', ''cat'') \<in> set (req_args \<lparr>req_path = ''/wp-json/wp/v2/posts'', req_args = [(''context'', ''embed''), (''_embed'', ''1''), (''per_page'', ''10''), (''search'', ''cat''), (''order'', ''desc''), (''orderby'', ''date''), (''meta_query'', ''[object Object]''), (''ver'', ''1''), (''page'', ''1'')]\<rparr>)"
proof -
  have d: "\<not> dirty (lib example_ex_state)" by (simp add: example_ex_state_def example_state_def data_init_def)
  have f: "FetchStarted 0 \<lparr>req_path = ''/wp-json/wp/v2/posts'', req_args = [(''context'', ''embed''), (''_embed'', ''1''), (''per_page'', ''10''), (''search'', ''cat''), (''order'', ''desc''), (''orderby'', ''date''), (''meta_query'', ''[object Object]''), (''ver'', ''1''), (''page'', ''1'')]\<rparr> \<in> set (events (lib (snd (ex_task default_config example_env
       (snd (ex_task default_config example_env example_ex_state (InputKeyword ''cat''))) EnterKeyword))))"
    by code_simp
  have n: "FetchStarted 0 \<lparr>req_path = ''/wp-json/wp/v2/posts'', req_args = [(''context'', ''embed''), (''_embed'', ''1''), (''per_page'', ''10''), (''search'', ''cat''), (''order'', ''desc''), (''orderby'', ''date''), (''meta_query'', ''[object Object]''), (''ver'', ''1''), (''page'', ''1'')]\<rparr> \<notin> set (events (lib example_ex_state))"
    by (simp add: example_ex_state_def example_state_def data_init_def)
  show ?thesis
    using search_button_throws [OF d, where cfg = default_config and e = example_env and w = "''cat''" and i = 0 and r = "\<lparr>req_path = ''/wp-json/wp/v2/posts'', req_args = [(''context'', ''embed''), (''_embed'', ''1''), (''per_page'', ''10''), (''search'', ''cat''), (''order'', ''desc''), (''orderby'', ''date''), (''meta_query'', ''[object Object]''), (''ver'', ''1''), (''page'', ''1'')]\<rparr>"] d f n
    by blast
qed

lemma ellipsis_requests_hellip_witness:
  "Ellipsis \<in> set (pages 3 20) \<and>
   FetchStarted (next_request (lib example_ex_state)) \<lparr>req_path = ''/wp-json/wp/v2/posts'', req_args = [(''context'', ''embed''), (''_embed'', ''1''), (''per_page'', ''10''), (''search'', []), (''order'', ''desc''), (''orderby'', ''date''), (''meta_query'', ''[object Object]''), (''ver'', ''1''), (''page'', ''&hellip;'')]\<rparr>
     \<in> set (events (lib (snd (ex_task default_config example_env example_ex_state (ClickPage Ellipsis))))) \<and>
   FetchStarted (next_request (lib example_ex_state)) \<lparr>req_path = ''/wp-json/wp/v2/posts'', req_args = [(''context'', ''embed''), (''_embed'', ''1''), (''per_page'', ''10''), (''search'', []), (''order'', ''desc''), (''orderby'', ''date''), (''meta_query'', ''[object Object]''), (''ver'', ''1''), (''page'', ''&hellip;'')]\<rparr> \<notin> set (events (lib example_ex_state)) \<and>
   (''page'', ''&hellip;'') \<in> set (req_args \<lparr>req_path = ''/wp-json/wp/v2/posts'', req_args = [(''context'', ''embed''), (''_embed'', ''1''), (''per_page'', ''10''), (''search'', []), (''order'', ''desc''), (''orderby'', ''date''), (''meta_query'', ''[object Object]''), (''ver'', ''1''), (''page'', ''&hellip;'')]\<rparr>)"
proof -
  have p: "Ellipsis \<in> set (pages 3 20)" by code_simp
  have f: "FetchStarted (next_request (lib example_ex_state)) \<lparr>req_path = ''/wp-json/wp/v2/posts'', req_args = [(''context'', ''embed''), (''_embed'', ''1''), (''per_page'', ''10''), (''search'', []), (''order'', ''desc''), (''orderby'', ''date''), (''meta_query'', ''[object Object]''), (''ver'', ''1''), (''page'', ''&hellip;'')]\<rparr>
     \<in> set (events (lib (snd (ex_task default_config example_env example_ex_state (ClickPage Ellipsis)))))"
    by code_simp
  have n: "FetchStarted (next_request (lib example_ex_state)) \<lparr>req_path = ''/wp-json/wp/v2/posts'', req_args = [(''context'', ''embed''), (''_embed'', ''1''), (''per_page'', ''10''), (''search'', []), (''order'', ''desc''), (''orderby'', ''date''), (''meta_query'', ''[object Object]''), (''ver'', ''1''), (''page'', ''&hellip;'')]\<rparr> \<notin> set (events (lib example_ex_state))"
    by (simp add: example_ex_state_def example_state_def data_init_def)
  show ?thesis using ellipsis_requests_hellip [OF f n] p f n by blast
qed

end
