(* ===== verification/Shape.thy ===== *)
theory Shape
  imports Lifecycle
begin

text \<open>
  The shape of the query parameters.  The specification types
  \<^verbatim>\<open>QueryParams\<close> as a mapping with the required keys \<^verbatim>\<open>per_page\<close>,
  \<^verbatim>\<open>search\<close>, \<^verbatim>\<open>order\<close>, \<^verbatim>\<open>orderby\<close>, \<^verbatim>\<open>pagenum\<close>, \<^verbatim>\<open>meta_query\<close> and
  \<^verbatim>\<open>ver\<close>; \<open>params_shape\<close> says that an association list is a well-formed
  object holding them, and \<open>state_typed\<close> that \<^verbatim>\<open>this.params\<close> and every
  snapshot in the session history have that shape.  The code never deletes a
  top-level key: methods assign, \<^verbatim>\<open>reset\<close> and \<^verbatim>\<open>created\<close> merge into
  \<^verbatim>\<open>initialParams()\<close>, and the history restores earlier parameters.
\<close>

definition required_keys :: "string list" where
  "required_keys = [''per_page'', ''search'', ''order'', ''orderby'', ''pagenum'', ''meta_query'', ''ver'']"

definition params_shape :: "json obj \<Rightarrow> bool" where
  "params_shape p \<longleftrightarrow> obj_wf p \<and> set required_keys \<subseteq> set (obj_keys p)"

fun entry_shape :: "hist_entry \<Rightarrow> bool" where
  "entry_shape (HEntry u (Some p)) = params_shape p"
| "entry_shape (HEntry u None) = True"

definition state_typed :: "rl_state \<Rightarrow> bool" where
  "state_typed s \<longleftrightarrow> params_shape (params s) \<and> list_all entry_shape (entries (history s))"

subsection \<open>Operations keep the shape\<close>

lemma params_shape_set [simp]: "params_shape p \<Longrightarrow> params_shape (obj_set p k v)"
  by (auto simp: params_shape_def obj_simps)

lemma lmerge_obj_shape:
  "obj_wf dst \<Longrightarrow> obj_wf (lmerge_obj dst kvs) \<and> set (obj_keys (lmerge_obj dst kvs)) = set (obj_keys dst) \<union> set (map fst kvs)"
proof (induction kvs arbitrary: dst)
  case (Cons kv kvs)
  obtain k v where kv: "kv = (k, v)" by (cases kv)
  let ?d = "obj_set dst k (lmerge_value (obj_get dst k) v)"
  have "obj_wf ?d" using Cons.prems by (rule obj_wf_set)
  then have "obj_wf (lmerge_obj ?d kvs) \<and> set (obj_keys (lmerge_obj ?d kvs)) = set (obj_keys ?d) \<union> set (map fst kvs)"
    by (rule Cons.IH)
  then show ?case by (auto simp: kv set_obj_keys_set)
qed simp

lemma initial_params_shape: "params_shape (lmerge_obj (initial_params cfg) kvs)"
proof -
  have "obj_wf (initial_params cfg)" "set required_keys \<subseteq> set (obj_keys (initial_params cfg))"
    by (simp_all add: initial_params_def obj_wf_def obj_keys_def required_keys_def)
  then show ?thesis using lmerge_obj_shape [of "initial_params cfg" kvs] by (auto simp: params_shape_def)
qed

lemma reset_params_shape: "params_shape (reset_params cfg)"
proof -
  have "obj_wf (lmerge_obj [] (initial_params cfg))" "set required_keys \<subseteq> set (obj_keys (lmerge_obj [] (initial_params cfg)))"
    using lmerge_obj_shape [of "[]" "initial_params cfg"]
    by (auto simp: obj_wf_def obj_keys_def initial_params_def required_keys_def)
  then show ?thesis using lmerge_obj_shape [of "lmerge_obj [] (initial_params cfg)" "initial_taxonomies cfg"]
    by (auto simp: params_shape_def reset_params_def)
qed

lemma construct_url_shape:
  assumes "construct_url pt mf p = Inr (r, p')" and "params_shape p"
  shows "params_shape p'"
proof -
  from assms(1) obtain qp where "query_params mf p = Inr (qp, p')" by (elim construct_url_Inr_E)
  then obtain qp0 where "add_relation qp0 p = Inr (qp, p')" by (elim query_params_Inr_E)
  then show ?thesis using assms(2) by (auto simp: add_relation_def Let_def split: sum.splits if_splits)
qed

lemma fetch_data_shape: "state_typed s \<Longrightarrow> state_typed (fetch_data cfg s)"
  by (cases "construct_url (post_type cfg) (meta_fields cfg) (params s)")
     (auto simp: fetch_data_Inl fetch_data_Inr state_typed_def dest: construct_url_shape)

lemma watch_params_shape: "state_typed s \<Longrightarrow> state_typed (watch_params cfg e s)"
proof -
  assume t: "state_typed s"
  define s3 where "s3 = (fetch_data cfg (if \<not> page_updated s then assign_param s ''pagenum'' (JNum 1) else s))\<lparr>page_updated := False\<rparr>"
  have "state_typed (if \<not> page_updated s then assign_param s ''pagenum'' (JNum 1) else s)"
    using t by (simp add: assign_param_eq state_typed_def)
  then have t3: "state_typed s3" using fetch_data_shape by (simp add: s3_def state_typed_def)
  then have "state_typed (push_history e s3)"
    by (auto simp: push_history_def Let_def state_typed_def list_all_iff dest: in_set_takeD)
  then show ?thesis using t3
    by (simp add: watch_params_unfold Let_def s3_def [symmetric] state_typed_def)
qed

lemma state_typed_dirty [simp]: "state_typed (s\<lparr>dirty := b\<rparr>) = state_typed s"
  by (simp add: state_typed_def)

lemma flush_shape: "state_typed s \<Longrightarrow> state_typed (flush cfg e s)"
  unfolding flush_def by (rule flush_watcher_inv [where P = state_typed]) (simp_all add: watch_params_shape)

lemma run_action_shape:
  assumes "state_typed s" and "run_action cfg e s a = Inr s'"
  shows "state_typed s'"
proof -
  have "params_shape (params s')"
    using assms
    by (cases a)
       (auto simp: state_typed_def select_page_def set_search_def reset_terms_def add_terms_def remove_terms_def
          update_terms_def set_terms_def set_order_def set_orderby_def toggle_order_def select_orderby_def
          set_meta_filter_def remove_meta_filter_def clear_meta_filters_def reset_def replace_params_def
          assign_param_eq reset_params_shape Let_def split: sum.splits if_splits option.splits json.splits)
  then show ?thesis using assms run_action_frame [OF assms(2)] by (simp add: state_typed_def)
qed

lemma run_actions_shape: "state_typed s \<Longrightarrow> state_typed (snd (run_actions cfg e s as))"
proof (induction as arbitrary: s)
  case (Cons a as)
  then show ?case by (cases "run_action cfg e s a") (auto dest: run_action_shape)
qed simp

lemma respond_shape: "state_typed (respond s i outcome) = state_typed s"
  by (cases outcome) (simp_all add: respond_def Let_def state_typed_def)

lemma pop_listener_shape:
  assumes "state_typed s" and "j < length (entries (history s))"
  shows "state_typed (pop_listener cfg s j)"
proof (cases "entries (history s) ! j")
  case (HEntry url st)
  have "entry_shape (entries (history s) ! j)" using assms by (simp add: state_typed_def list_all_length)
  then show ?thesis using assms HEntry
    by (cases st) (simp_all add: pop_listener_def reset_def replace_params_def reset_params_shape state_typed_def Let_def)
qed

lemma navigate_shape:
  assumes "state_typed s" and "j < length (entries (history s))"
  shows "state_typed (navigate cfg e s j)"
proof (cases "history_ready s")
  case True
  then show ?thesis using flush_shape [OF pop_listener_shape [OF assms]] by (simp add: navigate_def)
next
  case False
  then show ?thesis using assms by (simp add: navigate_def state_typed_def)
qed

lemma created_shape: "fst (created cfg e) = None \<Longrightarrow> state_typed (snd (created cfg e))"
  by (auto simp: created_def data_init_def reset_def replace_params_def reset_params_shape initial_params_shape
                 state_typed_def Let_def split: if_splits sum.splits)

subsection \<open>Properties\<close>

text \<open>
  C9: once \<^verbatim>\<open>created\<close> has succeeded, \<^verbatim>\<open>this.params\<close> and every parameter
  snapshot in the session history are well-formed objects holding the keys the
  specification requires of \<^verbatim>\<open>QueryParams\<close>, in every reachable state.
\<close>

theorem reachable_state_typed:
  assumes "fst (created cfg e) = None" and "reachable cfg e s"
  shows "state_typed s"
  using assms(2)
proof (induction rule: reachable.induct)
  case init
  then show ?case using created_shape [OF assms(1)] by (simp add: initial_state_def flush_shape)
next
  case (step s t)
  from step.hyps(2) step.IH show ?case
    by (cases rule: rl_step.cases) (simp_all add: flush_shape run_actions_shape respond_shape navigate_shape)
qed

subsection \<open>Witnesses\<close>

lemma reachable_state_typed_witness:
  "fst (created default_config example_env) = None \<and>
   reachable default_config example_env (initial_state default_config example_env) \<and>
   state_typed (initial_state default_config example_env)"
  using reachable_state_typed [OF created_example_env reachable.init] created_example_env reachable.init by blast

end
