(* ===== verification/Spec2Isabelle.thy ===== *)
theory Spec2Isabelle
  imports Pagination Navigation Resources Lifecycle Ordering Example Shape
begin

text \<open>
  \<^bold>\<open>A verification library for the resource-library Vue component.\<close>

  The program is src/resource-library.js: a Vue 2 component (lines 1-684) that
  keeps one mutable object of query parameters (\<^verbatim>\<open>this.params\<close>), derives a
  WordPress REST request from it, mirrors it into the browser history and the
  URL, and computes the pagination buttons; lines 685-804 are an example
  bootstrap and template that use it.  The parts interact as follows: the public
  methods (\<^verbatim>\<open>selectPage\<close>, \<^verbatim>\<open>setSearch\<close>, \<^verbatim>\<open>addTerms\<close>, ...) assign into
  \<^verbatim>\<open>params\<close>; Vue's deep watcher on \<^verbatim>\<open>params\<close> resets the page, calls
  \<^verbatim>\<open>__fetchData\<close> (which builds the request through the computed
  \<^verbatim>\<open>query_params\<close> and \<^verbatim>\<open>constructURL\<close>) and pushes a history entry whose URL
  is \<^verbatim>\<open>serializeParams(params)\<close>; the history listener restores a snapshot on
  back/forward; \<^verbatim>\<open>created\<close> reads the URL back with \<^verbatim>\<open>unserializeParams\<close>.

  \<^bold>\<open>Theories.\<close>
  \<^item> Prelude: JavaScript objects as association lists (\<open>obj_get\<close>,
    \<open>obj_set\<close>, \<open>obj_del\<close>, \<open>obj_keys\<close>, \<open>obj_wf\<close>), \<^verbatim>\<open>split\<close> and
    \<^verbatim>\<open>join\<close> on strings, and the lemmas the components share.
  \<^item> JsValue: the JSON values the component stores (\<open>json\<close>), the
    exceptions (\<open>js_error\<close>; every \<^verbatim>\<open>throw\<close> of the source is an \<open>Inl\<close>
    branch), truthiness, \<^verbatim>\<open>String(v)\<close> (\<open>js_to_string\<close>) and property
    access with the properties inherited from \<^verbatim>\<open>Object.prototype\<close>.
  \<^item> QueryBuilder: the computed \<^verbatim>\<open>query_params\<close> (lines 90-117) as
    \<open>rename_pagenum\<close>, \<open>resolve_orderby\<close>, \<open>add_relation\<close> and
    \<open>query_params\<close>, which returns the request parameters together with
    \<^verbatim>\<open>this.params\<close> afterwards (the shallow copy shares \<^verbatim>\<open>meta_query\<close>), and
    \<^verbatim>\<open>constructURL\<close> (lines 270-286) as \<open>construct_url\<close>.
  \<^item> Pagination: the computed \<^verbatim>\<open>pages\<close> (lines 193-240) and its abstract
    layout \<open>window_spec\<close>.
  \<^item> JsonCodec, UriCodec, Serializer: \<^verbatim>\<open>JSON.stringify\<close>/\<^verbatim>\<open>JSON.parse\<close>,
    \<^verbatim>\<open>encodeURIComponent\<close>/\<^verbatim>\<open>decodeURIComponent\<close> and
    \<^verbatim>\<open>serializeParams\<close>/\<^verbatim>\<open>unserializeParams\<close> (lines 579-610).
  \<^item> Params: the props (\<open>config\<close>), \<^verbatim>\<open>initialParams\<close>, lodash
    \<^verbatim>\<open>merge\<close> and \<^verbatim>\<open>reset\<close>, and Vue's rule for which assignment notifies
    the watcher (\<open>vue_assign\<close>).
  \<^item> Component: the whole component state as the record \<open>rl_state\<close>
    (data, the private flags \<^verbatim>\<open>__page_updated\<close>, \<^verbatim>\<open>__suppress_history_state\<close>,
    \<^verbatim>\<open>__is_initial_load\<close>, the session history, the requests in flight, the
    watcher's queued flag \<open>dirty\<close> and a log of observable events); one
    definition per method (\<open>select_page\<close>, \<open>set_search\<close>, \<open>add_terms\<close>,
    \<open>set_order\<close>, \<open>select_orderby\<close>, \<open>set_meta_filter\<close>, ...) dispatched by
    \<open>run_action\<close>; the watcher handler \<open>watch_params\<close>; Vue's scheduler
    \<open>flush_watcher\<close>; \<^verbatim>\<open>__fetchData\<close> split at its \<^verbatim>\<open>await\<close> into
    \<open>fetch_data\<close> and \<open>respond\<close>; the history listener \<open>pop_listener\<close>
    and \<open>navigate\<close>; \<open>created\<close>; and the step relation \<open>rl_step\<close>
    (a user task, a back/forward navigation or the response to any pending
    request, in any order) with its reachable states \<open>reachable\<close>.
  \<^item> Watcher: the flush settles within three runs, and the invariant
    \<open>rl_inv\<close> of reachable states; without a global lodash the history is
    never installed.
  \<^item> Lifecycle: the request life cycle and the hooks.  \<open>loading_ok\<close> (the
    loading indicator is on only while a request is pending) holds in every
    reachable state once \<^verbatim>\<open>created\<close> has succeeded; whatever the backend
    answers, delivering the answers to every pending request (\<open>respond_all\<close>,
    one step of \<open>rl_step\<close> per request) settles the component with nothing
    in flight and the indicator off; no step clears an error once it is set;
    \<^verbatim>\<open>onInitialLoad\<close> runs exactly once
    (\<open>initial_loads\<close>); \<^verbatim>\<open>onParamsChange\<close> runs on the initial load; and the
    requests a flush sends carry the parameters it was given
    (\<open>flush_watcher_request_param\<close>, \<open>first_request\<close>).
  \<^item> Shape: \<open>state_typed\<close>, the specification's typing of
    \<^verbatim>\<open>QueryParams\<close> (a well-formed object with the required keys) for the
    parameters and every history snapshot, kept by every step.
  \<^item> Navigation: whole flushes after the changes that make the watcher
    misbehave, back/forward navigation, taxonomies not declared in the props,
    and responses applied out of order.
  \<^item> Ordering: \<^verbatim>\<open>isOrderedBy\<close> (\<open>is_ordered_by\<close>, defined in Component)
    after \<^verbatim>\<open>selectOrderBy\<close>, \<^verbatim>\<open>toggleOrder\<close> and \<^verbatim>\<open>setOrder\<close>.
  \<^item> Resources: the computed \<^verbatim>\<open>resources\<close> (lines 125-187) as
    \<open>resource_item\<close> and \<open>resources\<close>, \<^verbatim>\<open>getFeaturedImage\<close> as
    \<open>featured_image\<close>, and \<^verbatim>\<open>joinTerms\<close> (lines 426-436) as \<open>join_terms\<close>,
    with the grouping specification \<open>terms_by_taxonomy\<close>, which reads a
    term's taxonomy through its own key (\<open>taxonomy_key\<close>, with WordPress's
    \<^verbatim>\<open>post_tag\<close> named \<^verbatim>\<open>tags\<close>) and not through the code's
    \<open>term_taxonomy\<close>.
  \<^item> Example: the example application (lines 685-804).  \<open>ex_state\<close> adds
    the datum \<^verbatim>\<open>keyword\<close> of \<^verbatim>\<open>Example.vue\<close> to the library's state; the
    overridden \<^verbatim>\<open>onParamsChange\<close> runs where the library's watcher calls the
    hook (\<open>ex_watch_params\<close>); the template's input, Enter key, search
    button and page buttons are \<open>ui_event\<close>s handled by \<open>ex_handler\<close> and
    followed by the flush (\<open>ex_task\<close>).  \<^verbatim>\<open>main.js\<close> passes no props, so
    the component runs with \<open>default_config\<close> (\<open>example_config\<close>).

  \<^bold>\<open>What the lemmas show.\<close>
  Pagination: \<^verbatim>\<open>pages\<close> refines its layout specification, its page
  numbers are bounded and increasing, and near either end the unused allowance
  moves to the other side (nine consecutive pages next to the end, where the
  specification's examples show five).  QueryBuilder: the orderby resolution,
  its error, the page renaming, and the aliasing of \<^verbatim>\<open>meta_query\<close>, which
  is also sent as the string \<^verbatim>\<open>[object Object]\<close>.  Codecs: the serializer round trip on the truthy entries
  (\<open>unserialize_serialize\<close>), built on the round trips of the runtime's
  JSON and URI codecs (lemmas \<open>json_parse_stringify\<close> and
  \<open>decode_encode_uri_component\<close>), with the divergences from the
  specification on \<^verbatim>\<open>=\<close> and on empty containers.
  Params: the loops of \<^verbatim>\<open>addTerms\<close> and \<^verbatim>\<open>removeTerms\<close> equal reference
  definitions (first occurrences; multiset difference).
  Component: every reachable state satisfies \<open>rl_inv\<close>; a flush ends after
  at most three runs; a watcher run after a non-page change requests page 1;
  the page reset re-queues the watcher (two requests, two identical history
  entries); \<^verbatim>\<open>selectPage\<close> on the shown page leaks its flag; navigation to
  a snapshot restores it without a push, and navigation to the first entry
  with \<^verbatim>\<open>initial_page\<close> other than 1 destroys the forward history.
  Shape: once \<^verbatim>\<open>created\<close> has succeeded the parameters always have the
  required keys (when it throws they are the empty object of \<^verbatim>\<open>data()\<close>).
  Lifecycle: the loading invariant, the liveness of the pending requests for
  every choice of answers, the error that no later success clears, the
  single \<^verbatim>\<open>onInitialLoad\<close>, and the component left loading forever when
  \<^verbatim>\<open>created\<close> throws.  Ordering: \<^verbatim>\<open>selectOrderBy\<close> toggles and when it throws.
  Resources: the grouping of terms, idempotence of the in-place rewrite, the
  title left as an object when its rendered text is empty, the
  error on a WordPress error object, and \<^verbatim>\<open>joinTerms\<close> on a transformed post.
  Example: the extension leaves the library's transitions unchanged, the search
  box follows back/forward navigation, the search button always throws, and an
  ellipsis button requests page \<^verbatim>\<open>&hellip;\<close>.

  \<^bold>\<open>Bounds and fuel.\<close>
  The JSON parser \<open>jp_value\<close> takes fuel; \<open>json_parse\<close> gives it the
  length of the input plus one, and \<open>jp_value_stringify\<close> shows this is
  enough for every printed value (each call consumes a character before it
  recurses).  Vue's scheduler gives up after 100 runs of one watcher
  (\<open>max_update_count\<close>); \<open>flush_terminates\<close> shows three runs always
  suffice, so the cut-off is never reached; the example's scheduler
  \<open>ex_flush_watcher\<close> runs the same watcher and inherits the bound.
  Characters are UTF-16 code units 0-255; a code unit above 255 met by the
  JSON or URI decoder is the error value \<open>OutOfModel\<close>.  Numbers are HOL
  integers (\<open>JNum\<close> of \<open>int\<close>), exact.  Only the JSON parser enforces
  JavaScript's exact range: a literal with a fraction or exponent, or of
  magnitude \<open>2^53\<close> or more, is \<open>OutOfModel\<close> there.  Numbers reaching the
  state by another route (the props, the response totals, the page numbers
  the methods compute) are taken as exact integers whatever their size; the
  theorems about them are therefore JavaScript's only below \<open>2^53\<close>, where
  the component's values (page numbers, counts, term ids) lie in practice.
  Strict equality on terms and values is modelled as
  equality of JSON values, which is JavaScript's for the primitive values the
  component stores (term ids, strings); for objects JavaScript compares
  references.

  \<^bold>\<open>Not modelled.\<close>
  JavaScript objects are association lists kept in insertion order, so the
  engine's rule that integer-like keys are enumerated first, in increasing
  order, is not modelled: key order matters for \<^verbatim>\<open>serializeParams\<close>, the
  request arguments and \<^verbatim>\<open>Object.keys\<close> only when such keys occur, which
  the names of the component's parameters and of WordPress taxonomies are not in practice.
  An assignment to
  \<^verbatim>\<open>__proto__\<close> (a URL item \<^verbatim>\<open>__proto__=x\<close> read by
  \<^verbatim>\<open>unserializeParams\<close>) is an ordinary property here, where JavaScript
  would change the object's prototype.  lodash \<^verbatim>\<open>merge\<close> is modelled on
  values (\<open>lmerge_obj\<close>): the nested objects it writes into are copies, so
  a merge into an object shared with \<^verbatim>\<open>initial_meta_query\<close> through a
  shallow clone does not change that prop in the model.
  The callbacks passed to the methods (called last, after every change); the
  DOM side of \<^verbatim>\<open>triggerRootEvent\<close> and of the hooks, which appear as events
  of the log at the points the code calls them; the rendering of the example's
  template and its styles (lines 760-804); and the browser, \<^verbatim>\<open>fetch\<close> and the
  WordPress backend, whose responses are arbitrary \<open>fetch_outcome\<close> values
  chosen by the environment.
\<close>

end
